theory Spec2Isabelle
  imports Main "HOL-Library.Word"
begin

unbundle bit_operations_syntax

section \<open>Netlink control plane of the WireGuard device (src/src/netlink.c)\<close>

text \<open>
  A shallow embedding of \<^verbatim>\<open>netlink.c\<close>: the device resolver
  (\<^verbatim>\<open>lookup_interface\<close>, \<^verbatim>\<open>get_attr_net\<close>), the dump engine
  (\<^verbatim>\<open>get_device_start\<close>, \<^verbatim>\<open>get_device_dump\<close>, \<^verbatim>\<open>get_peer\<close>,
  \<^verbatim>\<open>get_allowedips\<close>) and the mutation engine (\<^verbatim>\<open>set_device\<close>,
  \<^verbatim>\<open>set_socket\<close>, \<^verbatim>\<open>set_peer\<close>, \<^verbatim>\<open>set_allowedip\<close>).

  Conventions. A C function returning \<^verbatim>\<open>int\<close> returns an \<^typ>\<open>int\<close> here
  (0 for success, a negated errno for failure), so that the source's tests
  \<^verbatim>\<open>ret < 0\<close> and \<^verbatim>\<open>if (ret)\<close> stay what they are. A function returning a
  pointer or \<^verbatim>\<open>ERR_PTR\<close> returns a sum, \<open>Inl\<close> carrying the negated errno.
  Mutation of the device is explicit state passing. The attribute array
  \<^verbatim>\<open>attrs[...]\<close> is a record of options (\<open>None\<close> is the NULL entry). Peers are
  heap objects in C; here each carries a \<open>peer_id\<close> that plays the role of its address.
  Reference counts, and the locks taken around single field copies, are not modelled; the
  device update lock and the calls into other subsystems are recorded in an event trace.
\<close>

subsection \<open>Constants of the kernel headers\<close>

type_synonym bytes = "8 word list"
type_synonym net = nat

abbreviation (input) EPERM :: int where "EPERM \<equiv> 1"
abbreviation (input) ENOMEM :: int where "ENOMEM \<equiv> 12"
abbreviation (input) ENODEV :: int where "ENODEV \<equiv> 19"
abbreviation (input) EINVAL :: int where "EINVAL \<equiv> 22"
abbreviation (input) ERANGE :: int where "ERANGE \<equiv> 34"
abbreviation (input) EBADR :: int where "EBADR \<equiv> 53"
abbreviation (input) EMSGSIZE :: int where "EMSGSIZE \<equiv> 90"
abbreviation (input) EOPNOTSUPP :: int where "EOPNOTSUPP \<equiv> 95"
abbreviation (input) EPFNOSUPPORT :: int where "EPFNOSUPPORT \<equiv> 96"

abbreviation (input) AF_INET :: "16 word" where "AF_INET \<equiv> 2"
abbreviation (input) AF_INET6 :: "16 word" where "AF_INET6 \<equiv> 10"
abbreviation (input) NOISE_PUBLIC_KEY_LEN :: nat where "NOISE_PUBLIC_KEY_LEN \<equiv> 32"
abbreviation (input) NOISE_SYMMETRIC_KEY_LEN :: nat where "NOISE_SYMMETRIC_KEY_LEN \<equiv> 32"
abbreviation (input) IFNAMSIZ :: nat where "IFNAMSIZ \<equiv> 16"
abbreviation (input) sizeof_sockaddr :: nat where "sizeof_sockaddr \<equiv> 16"
abbreviation (input) sizeof_sockaddr_in :: nat where "sizeof_sockaddr_in \<equiv> 16"
abbreviation (input) sizeof_sockaddr_in6 :: nat where "sizeof_sockaddr_in6 \<equiv> 28"
abbreviation (input) sizeof_in_addr :: nat where "sizeof_in_addr \<equiv> 4"
abbreviation (input) sizeof_in6_addr :: nat where "sizeof_in6_addr \<equiv> 16"
abbreviation (input) sizeof_timespec :: nat where "sizeof_timespec \<equiv> 16"

text \<open>
  The flag bits of \<^verbatim>\<open>uapi/wireguard.h\<close> (the header is not among the sources;
  the values are those of the published interface).
\<close>

abbreviation (input) WGDEVICE_F_REPLACE_PEERS :: "32 word" where "WGDEVICE_F_REPLACE_PEERS \<equiv> 1"
abbreviation (input) WGPEER_F_REMOVE_ME :: "32 word" where "WGPEER_F_REMOVE_ME \<equiv> 1"
abbreviation (input) WGPEER_F_REPLACE_ALLOWEDIPS :: "32 word" where "WGPEER_F_REPLACE_ALLOWEDIPS \<equiv> 2"

text \<open>
  The error classes the specification speaks in, and the errno values of this file that
  fall into each. Modelled from the spec: its error taxonomy names classes, not errno
  values; malformed or contradictory selectors, bad attributes and a device that is not
  of this module are InvalidArgument, a missing device or peer is NotFound.
\<close>

datatype error_class =
  InvalidArgument | PermissionDenied | NotFound | ResourceExhausted | ProtocolMismatch

definition errno_class :: "int \<Rightarrow> error_class option" where
  "errno_class ret =
     (if ret = - EINVAL \<or> ret = - EBADR \<or> ret = - ERANGE \<or> ret = - EOPNOTSUPP
        then Some InvalidArgument
      else if ret = - EPERM then Some PermissionDenied
      else if ret = - ENODEV then Some NotFound
      else if ret = - ENOMEM \<or> ret = - EMSGSIZE then Some ResourceExhausted
      else if ret = - EPFNOSUPPORT then Some ProtocolMismatch
      else None)"

subsection \<open>Decoded attributes\<close>

text \<open>
  One record per attribute array. Attributes of integer type are kept at their declared
  width (the policy's width check on them is then vacuous); the others keep their payload
  bytes, whose length is \<^verbatim>\<open>nla_len\<close>. The address of an endpoint attribute is
  kept as its family field and its \<^verbatim>\<open>nla_len\<close> bytes.
\<close>

record sockaddr =
  sa_family :: "16 word"
  sa_bytes :: bytes

record allowedip_attrs =
  WGALLOWEDIP_A_FAMILY :: "16 word option"
  WGALLOWEDIP_A_IPADDR :: "bytes option"
  WGALLOWEDIP_A_CIDR_MASK :: "8 word option"

record peer_attrs =
  WGPEER_A_PUBLIC_KEY :: "bytes option"
  WGPEER_A_PRESHARED_KEY :: "bytes option"
  WGPEER_A_FLAGS :: "32 word option"
  WGPEER_A_ENDPOINT :: "sockaddr option"
  WGPEER_A_PERSISTENT_KEEPALIVE_INTERVAL :: "16 word option"
  WGPEER_A_ALLOWEDIPS :: "allowedip_attrs list option"
  WGPEER_A_PROTOCOL_VERSION :: "32 word option"

record device_attrs =
  WGDEVICE_A_IFINDEX :: "32 word option"
  WGDEVICE_A_IFNAME :: "string option"
  WGDEVICE_A_PRIVATE_KEY :: "bytes option"
  WGDEVICE_A_PUBLIC_KEY :: "bytes option"
  WGDEVICE_A_FLAGS :: "32 word option"
  WGDEVICE_A_LISTEN_PORT :: "16 word option"
  WGDEVICE_A_FWMARK :: "32 word option"
  WGDEVICE_A_PEERS :: "peer_attrs list option"
  WGDEVICE_A_DEV_NETNS_PID :: "32 word option"
  WGDEVICE_A_DEV_NETNS_FD :: "32 word option"
  WGDEVICE_A_TRANSIT_NETNS_PID :: "32 word option"
  WGDEVICE_A_TRANSIT_NETNS_FD :: "32 word option"

subsection \<open>The environment: what the kernel and the other subsystems answer\<close>

record net_device =
  nd_ifindex :: "32 word"
  nd_name :: string
  rtnl_link_kind :: "string option"

record env =
  get_net_ns_by_pid :: "32 word \<Rightarrow> int + net"
  get_net_ns_by_fd :: "32 word \<Rightarrow> int + net"
  current_net_ns :: net
  sock_net :: net
  ns_capable :: "net \<Rightarrow> bool"
  netlink_ns_capable :: "net \<Rightarrow> bool"
  dev_get_by_index :: "net \<Rightarrow> 32 word \<Rightarrow> net_device option"
  dev_get_by_name :: "net \<Rightarrow> string \<Rightarrow> net_device option"
  curve25519_generate_public :: "bytes \<Rightarrow> bytes option"
  wg_noise_precompute_static_static :: "bytes \<Rightarrow> bytes \<Rightarrow> bool"
  wg_peer_create_ok :: "bytes \<Rightarrow> bool"
  wg_allowedips_insert_ret :: "bytes \<Rightarrow> int"
  wg_socket_init_ret :: "net \<Rightarrow> 16 word \<Rightarrow> int"
  kzalloc_ok :: bool

abbreviation (input) KBUILD_MODNAME :: string where "KBUILD_MODNAME \<equiv> ''wireguard''"

subsection \<open>Device resolver\<close>

text \<open>\<^verbatim>\<open>lookup_interface\<close>, lines 53-74.\<close>

definition lookup_interface :: "env \<Rightarrow> device_attrs \<Rightarrow> net \<Rightarrow> int + net_device" where
  "lookup_interface e attrs n =
     (if (WGDEVICE_A_IFINDEX attrs = None) = (WGDEVICE_A_IFNAME attrs = None)
        then Inl (- EBADR)
      else
        let dev = (case WGDEVICE_A_IFINDEX attrs of
                     Some idx \<Rightarrow> dev_get_by_index e n idx
                   | None \<Rightarrow>
                       (case WGDEVICE_A_IFNAME attrs of
                          Some nm \<Rightarrow> dev_get_by_name e n nm
                        | None \<Rightarrow> None))
        in case dev of
             None \<Rightarrow> Inl (- ENODEV)
           | Some d \<Rightarrow>
               (case rtnl_link_kind d of
                  None \<Rightarrow> Inl (- EOPNOTSUPP)
                | Some k \<Rightarrow> if k \<noteq> KBUILD_MODNAME then Inl (- EOPNOTSUPP) else Inr d))"

text \<open>\<^verbatim>\<open>get_attr_net\<close>, lines 173-182: an error, NULL, or a namespace.\<close>

definition get_attr_net :: "env \<Rightarrow> 32 word option \<Rightarrow> 32 word option \<Rightarrow> int + net option" where
  "get_attr_net e net_pid net_fd =
     (case (net_pid, net_fd) of
        (Some _, Some _) \<Rightarrow> Inl (- EINVAL)
      | (Some pid, None) \<Rightarrow>
          (case get_net_ns_by_pid e pid of Inl err \<Rightarrow> Inl err | Inr n \<Rightarrow> Inr (Some n))
      | (None, Some fd) \<Rightarrow>
          (case get_net_ns_by_fd e fd of Inl err \<Rightarrow> Inl err | Inr n \<Rightarrow> Inr (Some n))
      | (None, None) \<Rightarrow> Inr None)"

text \<open>\<^verbatim>\<open>test_socket_net_capable\<close>, lines 184-190.\<close>

definition test_socket_net_capable :: "env \<Rightarrow> net \<Rightarrow> int" where
  "test_socket_net_capable e n =
     (if n \<noteq> current_net_ns e \<and> \<not> ns_capable e n then - EPERM else 0)"

subsection \<open>Device and peer state\<close>

record wireguard_peer =
  peer_id :: nat
  remote_static :: bytes
  preshared_key :: bytes
  peer_endpoint :: sockaddr
  endpoint_src_cached :: bool
  persistent_keepalive_interval :: "16 word"
  walltime_last_handshake :: "64 word \<times> 64 word"
  rx_bytes :: "64 word"
  tx_bytes :: "64 word"

record allowedip =
  aip_family :: "16 word"
  aip_addr :: bytes
  aip_cidr :: "8 word"
  aip_peer :: nat

text \<open>
  The trace of a device: the taking and the release of the locks, and the calls into other
  subsystems, in the order in which they happen.
\<close>

datatype event =
  RtnlLock | RtnlUnlock | MutexLock | MutexUnlock
  | PeerRemove nat
  | SetStaticIdentity bytes
  | CookiePrecompute
  | SocketInit net "16 word"
  | SendKeepalive nat
  | SendStagedPackets nat

record wireguard_device =
  dev_ifindex :: "32 word"
  dev_name :: string
  dev_running :: bool
  fwmark :: "32 word"
  incoming_port :: "16 word"
  dev_net :: net
  transit_net :: net
  has_identity :: bool
  static_private :: bytes
  static_public :: bytes
  device_update_gen :: "32 word"
  peer_list :: "wireguard_peer list"
  peer_allowedips :: "allowedip list"
  allowedips_seq :: "64 word"
  next_peer_id :: nat
  trace :: "event list"

definition log_events :: "event list \<Rightarrow> wireguard_device \<Rightarrow> wireguard_device" where
  "log_events evs wg = wg\<lparr>trace := trace wg @ evs\<rparr>"

definition lookup_peer :: "wireguard_device \<Rightarrow> nat \<Rightarrow> wireguard_peer option" where
  "lookup_peer wg pid = find (\<lambda>p. peer_id p = pid) (peer_list wg)"

definition map_peer ::
  "wireguard_device \<Rightarrow> nat \<Rightarrow> (wireguard_peer \<Rightarrow> wireguard_peer) \<Rightarrow> wireguard_device" where
  "map_peer wg pid f =
     wg\<lparr>peer_list := map (\<lambda>p. if peer_id p = pid then f p else p) (peer_list wg)\<rparr>"

subsection \<open>Collaborators outside netlink.c\<close>

text \<open>
  Modelled from the spec: the peer table of peer.c and peerlookup.c, which are not among
  the sources. A peer is found by its public key; a created peer joins the tail of the
  device's list with the given keys and every other field zero; a removed peer is unlinked
  from the list and from the prefix table. Creation can fail (the environment decides).
\<close>

definition wg_pubkey_hashtable_lookup :: "wireguard_device \<Rightarrow> bytes \<Rightarrow> wireguard_peer option" where
  "wg_pubkey_hashtable_lookup wg pubkey =
     find (\<lambda>p. remote_static p = take NOISE_PUBLIC_KEY_LEN pubkey) (peer_list wg)"

definition wg_peer_create ::
  "env \<Rightarrow> wireguard_device \<Rightarrow> bytes \<Rightarrow> bytes option \<Rightarrow> (wireguard_device \<times> nat) option" where
  "wg_peer_create e wg public_key preshared =
     (if \<not> wg_peer_create_ok e public_key then None
      else
        let pid = next_peer_id wg;
            p = \<lparr>peer_id = pid,
                 remote_static = take NOISE_PUBLIC_KEY_LEN public_key,
                 preshared_key = (case preshared of
                                    Some k \<Rightarrow> take NOISE_SYMMETRIC_KEY_LEN k
                                  | None \<Rightarrow> replicate NOISE_SYMMETRIC_KEY_LEN 0),
                 peer_endpoint = \<lparr>sa_family = 0, sa_bytes = []\<rparr>,
                 endpoint_src_cached = False,
                 persistent_keepalive_interval = 0,
                 walltime_last_handshake = (0, 0),
                 rx_bytes = 0,
                 tx_bytes = 0\<rparr>
        in Some (wg\<lparr>peer_list := peer_list wg @ [p], next_peer_id := Suc pid\<rparr>, pid))"

definition wg_peer_remove :: "wireguard_device \<Rightarrow> nat \<Rightarrow> wireguard_device" where
  "wg_peer_remove wg pid =
     log_events [PeerRemove pid]
       (wg\<lparr>peer_list := filter (\<lambda>p. peer_id p \<noteq> pid) (peer_list wg),
           peer_allowedips := filter (\<lambda>a. aip_peer a \<noteq> pid) (peer_allowedips wg)\<rparr>)"

definition wg_peer_remove_all :: "wireguard_device \<Rightarrow> wireguard_device" where
  "wg_peer_remove_all wg = foldl wg_peer_remove wg (map peer_id (peer_list wg))"

text \<open>
  Modelled from the spec: socket.c, which is not among the sources. Clearing a peer's
  endpoint source drops its cached source binding; setting a peer's endpoint stores the
  address and drops the binding; a socket (re)bind by (namespace, port) either fails with
  the environment's error and changes nothing, or installs the pair.
\<close>

definition wg_socket_clear_peer_endpoint_src :: "wireguard_peer \<Rightarrow> wireguard_peer" where
  "wg_socket_clear_peer_endpoint_src p = p\<lparr>endpoint_src_cached := False\<rparr>"

definition clear_all_peer_endpoint_src :: "wireguard_device \<Rightarrow> wireguard_device" where
  "clear_all_peer_endpoint_src wg =
     wg\<lparr>peer_list := map wg_socket_clear_peer_endpoint_src (peer_list wg)\<rparr>"

definition wg_socket_set_peer_endpoint ::
  "wireguard_device \<Rightarrow> nat \<Rightarrow> sockaddr \<Rightarrow> wireguard_device" where
  "wg_socket_set_peer_endpoint wg pid ep =
     map_peer wg pid (\<lambda>p. p\<lparr>peer_endpoint := ep, endpoint_src_cached := False\<rparr>)"

definition wg_socket_init ::
  "env \<Rightarrow> wireguard_device \<Rightarrow> net \<Rightarrow> 16 word \<Rightarrow> int \<times> wireguard_device" where
  "wg_socket_init e wg n port =
     (let ret = wg_socket_init_ret e n port;
          wg1 = log_events [SocketInit n port] wg
      in if ret \<noteq> 0 then (ret, wg1)
         else (ret, wg1\<lparr>incoming_port := port, transit_net := n\<rparr>))"

definition wg_device_set_nets :: "wireguard_device \<Rightarrow> net \<Rightarrow> net \<Rightarrow> wireguard_device" where
  "wg_device_set_nets wg dn tn = wg\<lparr>dev_net := dn, transit_net := tn\<rparr>"

text \<open>
  Modelled from the spec: the prefix table of allowedips.c, which is not among the
  sources: entries (family, prefix, length, owning peer); an insertion replaces the owner
  of an entry with the same family, prefix and length, and can fail for want of memory
  (the environment decides); removal by peer deletes all of one peer's entries.
\<close>

definition wg_allowedips_insert ::
  "env \<Rightarrow> wireguard_device \<Rightarrow> 16 word \<Rightarrow> bytes \<Rightarrow> 8 word \<Rightarrow> nat \<Rightarrow> int \<times> wireguard_device" where
  "wg_allowedips_insert e wg family ip cidr pid =
     (let ret = wg_allowedips_insert_ret e ip
      in if ret \<noteq> 0 then (ret, wg)
         else (0, wg\<lparr>peer_allowedips :=
                      filter (\<lambda>a. \<not> (aip_family a = family \<and> aip_addr a = ip \<and> aip_cidr a = cidr))
                        (peer_allowedips wg)
                      @ [\<lparr>aip_family = family, aip_addr = ip, aip_cidr = cidr, aip_peer = pid\<rparr>]\<rparr>))"

definition wg_allowedips_remove_by_peer :: "wireguard_device \<Rightarrow> nat \<Rightarrow> wireguard_device" where
  "wg_allowedips_remove_by_peer wg pid =
     wg\<lparr>peer_allowedips := filter (\<lambda>a. aip_peer a \<noteq> pid) (peer_allowedips wg)\<rparr>"

text \<open>
  Modelled from the spec: the key-derivation interface of noise.c, which is not among the
  sources. Installing a private key stores it and derives the public key; the device has
  an identity exactly when the derivation succeeds.
\<close>

definition wg_noise_set_static_identity_private_key ::
  "env \<Rightarrow> wireguard_device \<Rightarrow> bytes \<Rightarrow> wireguard_device" where
  "wg_noise_set_static_identity_private_key e wg private_key =
     log_events [SetStaticIdentity (take NOISE_PUBLIC_KEY_LEN private_key)]
       (case curve25519_generate_public e private_key of
          Some pub \<Rightarrow> wg\<lparr>static_private := take NOISE_PUBLIC_KEY_LEN private_key,
                         static_public := pub, has_identity := True\<rparr>
        | None \<Rightarrow> wg\<lparr>static_private := take NOISE_PUBLIC_KEY_LEN private_key,
                     has_identity := False\<rparr>)"

subsection \<open>Attribute policies\<close>

text \<open>
  \<^verbatim>\<open>nla_parse_nested\<close> against \<^verbatim>\<open>peer_policy\<close> (lines 34-45) and
  \<^verbatim>\<open>allowedip_policy\<close> (lines 47-51): an attribute of unspecified type must be at
  least as long as the policy's \<^verbatim>\<open>len\<close>.
\<close>

definition shorter_than :: "nat \<Rightarrow> bytes option \<Rightarrow> bool" where
  "shorter_than n a = (case a of Some bs \<Rightarrow> length bs < n | None \<Rightarrow> False)"

definition nla_parse_nested_peer :: "peer_attrs \<Rightarrow> int" where
  "nla_parse_nested_peer a =
     (if shorter_than NOISE_PUBLIC_KEY_LEN (WGPEER_A_PUBLIC_KEY a)
         \<or> shorter_than NOISE_SYMMETRIC_KEY_LEN (WGPEER_A_PRESHARED_KEY a)
         \<or> shorter_than sizeof_sockaddr (map_option sa_bytes (WGPEER_A_ENDPOINT a))
      then - ERANGE else 0)"

definition nla_parse_nested_allowedip :: "allowedip_attrs \<Rightarrow> int" where
  "nla_parse_nested_allowedip a =
     (if shorter_than sizeof_in_addr (WGALLOWEDIP_A_IPADDR a) then - ERANGE else 0)"

definition memzero_explicit :: "bytes \<Rightarrow> bytes" where
  "memzero_explicit bs = replicate (length bs) 0"

subsection \<open>Mutation engine\<close>

text \<open>\<^verbatim>\<open>set_socket\<close>, lines 358-396.\<close>

definition set_socket :: "env \<Rightarrow> wireguard_device \<Rightarrow> device_attrs \<Rightarrow> int \<times> wireguard_device" where
  "set_socket e wg attrs =
     (case get_attr_net e (WGDEVICE_A_TRANSIT_NETNS_PID attrs) (WGDEVICE_A_TRANSIT_NETNS_FD attrs) of
        Inl err \<Rightarrow> (err, wg)
      | Inr n \<Rightarrow>
          let port = (case WGDEVICE_A_LISTEN_PORT attrs of
                        Some p \<Rightarrow> p
                      | None \<Rightarrow> incoming_port wg);
              target = (case n of Some n' \<Rightarrow> n' | None \<Rightarrow> transit_net wg);
              ret = test_socket_net_capable e target
          in if ret \<noteq> 0 then (ret, wg)
             else if incoming_port wg = port \<and> (n = None \<or> n = Some (transit_net wg))
               then (ret, wg)
             else
               let wg1 = clear_all_peer_endpoint_src wg
               in if \<not> dev_running wg1
                    then (ret,
                          (case n of
                             Some n' \<Rightarrow> wg_device_set_nets (wg1\<lparr>incoming_port := port\<rparr>) (dev_net wg1) n'
                           | None \<Rightarrow> wg1\<lparr>incoming_port := port\<rparr>))
                  else wg_socket_init e wg1 target port)"

text \<open>\<^verbatim>\<open>set_allowedip\<close>, lines 398-424.\<close>

definition set_allowedip ::
  "env \<Rightarrow> wireguard_device \<Rightarrow> nat \<Rightarrow> allowedip_attrs \<Rightarrow> int \<times> wireguard_device" where
  "set_allowedip e wg pid attrs =
     (case (WGALLOWEDIP_A_FAMILY attrs, WGALLOWEDIP_A_IPADDR attrs, WGALLOWEDIP_A_CIDR_MASK attrs) of
        (Some family, Some ip, Some cidr) \<Rightarrow>
          if family = AF_INET \<and> cidr \<le> 32 \<and> length ip = sizeof_in_addr
            then wg_allowedips_insert e wg AF_INET ip cidr pid
          else if family = AF_INET6 \<and> cidr \<le> 128 \<and> length ip = sizeof_in6_addr
            then wg_allowedips_insert e wg AF_INET6 ip cidr pid
          else (- EINVAL, wg)
      | _ \<Rightarrow> (- EINVAL, wg))"

text \<open>
  The loop of lines 520-528. It leaves through \<^verbatim>\<open>goto out\<close> exactly when the
  returned value is negative; \<open>ret\<close> is the value on entry.
\<close>

fun set_allowedips ::
  "env \<Rightarrow> wireguard_device \<Rightarrow> nat \<Rightarrow> allowedip_attrs list \<Rightarrow> int \<Rightarrow> int \<times> wireguard_device" where
  "set_allowedips e wg pid [] ret = (ret, wg)"
| "set_allowedips e wg pid (a # as) ret =
     (let r = nla_parse_nested_allowedip a
      in if r < 0 then (r, wg)
         else
           (case set_allowedip e wg pid a of
              (r', wg') \<Rightarrow> if r' < 0 then (r', wg') else set_allowedips e wg' pid as r'))"

text \<open>
  \<^verbatim>\<open>set_peer\<close> from line 484 on, where the peer \<open>pid\<close> was found or has
  just been created: the steps in the order of the source, then their composition.
\<close>

text \<open>Lines 490-495.\<close>

definition set_peer_preshared_key ::
  "wireguard_device \<Rightarrow> nat \<Rightarrow> bytes option \<Rightarrow> wireguard_device" where
  "set_peer_preshared_key wg pid preshared =
     (case preshared of
        Some k \<Rightarrow> map_peer wg pid (\<lambda>p. p\<lparr>preshared_key := take NOISE_SYMMETRIC_KEY_LEN k\<rparr>)
      | None \<Rightarrow> wg)"

text \<open>Lines 497-510.\<close>

definition endpoint_well_formed :: "sockaddr \<Rightarrow> bool" where
  "endpoint_well_formed addr =
     ((length (sa_bytes addr) = sizeof_sockaddr_in \<and> sa_family addr = AF_INET)
      \<or> (length (sa_bytes addr) = sizeof_sockaddr_in6 \<and> sa_family addr = AF_INET6))"

definition set_peer_endpoint ::
  "wireguard_device \<Rightarrow> nat \<Rightarrow> sockaddr option \<Rightarrow> wireguard_device" where
  "set_peer_endpoint wg pid endpoint_attr =
     (case endpoint_attr of
        Some addr \<Rightarrow>
          if endpoint_well_formed addr then wg_socket_set_peer_endpoint wg pid addr else wg
      | None \<Rightarrow> wg)"

text \<open>Lines 512-514.\<close>

definition set_peer_replace_allowedips ::
  "wireguard_device \<Rightarrow> nat \<Rightarrow> 32 word \<Rightarrow> wireguard_device" where
  "set_peer_replace_allowedips wg pid flags =
     (if flags AND WGPEER_F_REPLACE_ALLOWEDIPS \<noteq> 0
        then wg_allowedips_remove_by_peer wg pid else wg)"

text \<open>Lines 516-529; \<open>ret\<close> is 0 on entry.\<close>

definition set_peer_allowedips ::
  "env \<Rightarrow> wireguard_device \<Rightarrow> nat \<Rightarrow> allowedip_attrs list option \<Rightarrow> int \<times> wireguard_device" where
  "set_peer_allowedips e wg pid allowedips_attr =
     (case allowedips_attr of
        Some as \<Rightarrow> set_allowedips e wg pid as 0
      | None \<Rightarrow> (0, wg))"

text \<open>Lines 531-542.\<close>

definition set_peer_keepalive ::
  "wireguard_device \<Rightarrow> nat \<Rightarrow> 16 word option \<Rightarrow> wireguard_device" where
  "set_peer_keepalive wg pid keepalive_attr =
     (case keepalive_attr of
        Some ki \<Rightarrow>
          let send_keepalive =
                ((case lookup_peer wg pid of
                    Some p \<Rightarrow> persistent_keepalive_interval p = 0
                  | None \<Rightarrow> False)
                 \<and> ki \<noteq> 0 \<and> dev_running wg);
              wg' = map_peer wg pid (\<lambda>p. p\<lparr>persistent_keepalive_interval := ki\<rparr>)
          in if send_keepalive then log_events [SendKeepalive pid] wg' else wg'
      | None \<Rightarrow> wg)"

text \<open>Lines 544-545.\<close>

definition set_peer_staged_packets :: "wireguard_device \<Rightarrow> nat \<Rightarrow> wireguard_device" where
  "set_peer_staged_packets wg pid =
     (if dev_running wg then log_events [SendStagedPackets pid] wg else wg)"

definition set_peer_found ::
  "env \<Rightarrow> wireguard_device \<Rightarrow> nat \<Rightarrow> peer_attrs \<Rightarrow> 32 word \<Rightarrow> bytes option \<Rightarrow> int \<times> wireguard_device" where
  "set_peer_found e wg pid attrs flags preshared =
     (if flags AND WGPEER_F_REMOVE_ME \<noteq> 0 then (0, wg_peer_remove wg pid)
      else
        let wg1 = set_peer_preshared_key wg pid preshared;
            wg2 = set_peer_endpoint wg1 pid (WGPEER_A_ENDPOINT attrs);
            wg3 = set_peer_replace_allowedips wg2 pid flags
        in case set_peer_allowedips e wg3 pid (WGPEER_A_ALLOWEDIPS attrs) of
             (ret, wg4) \<Rightarrow>
               if ret < 0 then (ret, wg4)
               else
                 let wg5 = set_peer_keepalive wg4 pid (WGPEER_A_PERSISTENT_KEEPALIVE_INTERVAL attrs)
                 in (ret, set_peer_staged_packets wg5 pid))"

text \<open>
  Lines 439-443 of \<^verbatim>\<open>set_peer\<close>: the preshared key is taken only at its exact
  length, the flags default to 0.
\<close>

definition attr_preshared_key :: "peer_attrs \<Rightarrow> bytes option" where
  "attr_preshared_key attrs =
     (case WGPEER_A_PRESHARED_KEY attrs of
        Some k \<Rightarrow> if length k = NOISE_SYMMETRIC_KEY_LEN then Some k else None
      | None \<Rightarrow> None)"

definition attr_flags :: "peer_attrs \<Rightarrow> 32 word" where
  "attr_flags attrs = (case WGPEER_A_FLAGS attrs of Some f \<Rightarrow> f | None \<Rightarrow> 0)"

text \<open>\<^verbatim>\<open>set_peer\<close>, lines 426-546, up to the label \<^verbatim>\<open>out\<close>.\<close>

definition set_peer_body :: "env \<Rightarrow> wireguard_device \<Rightarrow> peer_attrs \<Rightarrow> int \<times> wireguard_device" where
  "set_peer_body e wg attrs =
     (case WGPEER_A_PUBLIC_KEY attrs of
        None \<Rightarrow> (- EINVAL, wg)
      | Some public_key \<Rightarrow>
          if length public_key \<noteq> NOISE_PUBLIC_KEY_LEN then (- EINVAL, wg)
          else
            let preshared = attr_preshared_key attrs;
                flags = attr_flags attrs
            in if (case WGPEER_A_PROTOCOL_VERSION attrs of Some v \<Rightarrow> v \<noteq> 1 | None \<Rightarrow> False)
                 then (- EPFNOSUPPORT, wg)
               else
                 (case wg_pubkey_hashtable_lookup wg public_key of
                    None \<Rightarrow>
                      if flags AND WGPEER_F_REMOVE_ME \<noteq> 0 then (- ENODEV, wg)
                      else if has_identity wg
                              \<and> take NOISE_PUBLIC_KEY_LEN public_key
                                  = take NOISE_PUBLIC_KEY_LEN (static_public wg)
                        then (0, wg)
                      else
                        (case wg_peer_create e wg public_key preshared of
                           None \<Rightarrow> (- ENOMEM, wg)
                         | Some (wg', pid) \<Rightarrow> set_peer_found e wg' pid attrs flags preshared)
                  | Some peer \<Rightarrow> set_peer_found e wg (peer_id peer) attrs flags preshared))"

text \<open>The label \<^verbatim>\<open>out\<close> of \<^verbatim>\<open>set_peer\<close>, lines 547-552.\<close>

definition zero_preshared_key :: "peer_attrs \<Rightarrow> peer_attrs" where
  "zero_preshared_key attrs =
     attrs\<lparr>WGPEER_A_PRESHARED_KEY := map_option memzero_explicit (WGPEER_A_PRESHARED_KEY attrs)\<rparr>"

definition set_peer ::
  "env \<Rightarrow> wireguard_device \<Rightarrow> peer_attrs \<Rightarrow> int \<times> wireguard_device \<times> peer_attrs" where
  "set_peer e wg attrs =
     (case set_peer_body e wg attrs of (ret, wg') \<Rightarrow> (ret, wg', zero_preshared_key attrs))"

text \<open>
  The loop of lines 636-644 over the peer blocks of the request, and its body. The loop
  returns the request's blocks as the call leaves them. It leaves through
  \<^verbatim>\<open>goto out\<close> exactly when the returned value is negative; line 646 sets a
  non-negative value to 0.
\<close>

definition set_peer_block ::
  "env \<Rightarrow> wireguard_device \<Rightarrow> peer_attrs \<Rightarrow> int \<times> wireguard_device \<times> peer_attrs" where
  "set_peer_block e wg b =
     (let r = nla_parse_nested_peer b
      in if r < 0 then (r, wg, b) else set_peer e wg b)"

fun set_peers ::
  "env \<Rightarrow> wireguard_device \<Rightarrow> peer_attrs list \<Rightarrow> int \<times> wireguard_device \<times> peer_attrs list" where
  "set_peers e wg [] = (0, wg, [])"
| "set_peers e wg (b # bs) =
     (case set_peer_block e wg b of
        (r, wg', b') \<Rightarrow>
          if r < 0 then (r, wg', b' # bs)
          else (case set_peers e wg' bs of (r', wg'', bs') \<Rightarrow> (r', wg'', b' # bs')))"

text \<open>The private-key block of \<^verbatim>\<open>set_device\<close>, lines 604-629.\<close>

definition remove_unprecomputable :: "env \<Rightarrow> wireguard_device \<Rightarrow> wireguard_device" where
  "remove_unprecomputable e wg =
     foldl wg_peer_remove wg
       (map peer_id
          (filter (\<lambda>p. \<not> wg_noise_precompute_static_static e (static_private wg) (remote_static p))
             (peer_list wg)))"

definition set_private_key :: "env \<Rightarrow> wireguard_device \<Rightarrow> bytes \<Rightarrow> wireguard_device" where
  "set_private_key e wg private_key =
     (let wg1 = (case curve25519_generate_public e private_key of
                   Some public_key \<Rightarrow>
                     (case wg_pubkey_hashtable_lookup wg public_key of
                        Some peer \<Rightarrow> wg_peer_remove wg (peer_id peer)
                      | None \<Rightarrow> wg)
                 | None \<Rightarrow> wg);
          wg2 = wg_noise_set_static_identity_private_key e wg1 private_key;
          wg3 = remove_unprecomputable e wg2
      in log_events [CookiePrecompute] wg3)"

text \<open>
  \<^verbatim>\<open>set_device\<close>, lines 580-630: from taking the locks to the end of the
  private-key block. A non-zero result is the failure of \<^verbatim>\<open>set_socket\<close>.
\<close>

definition set_device_config ::
  "env \<Rightarrow> wireguard_device \<Rightarrow> device_attrs \<Rightarrow> int \<times> wireguard_device" where
  "set_device_config e wg attrs =
     (let wg0 = log_events [RtnlLock, MutexLock] wg;
          wg1 = wg0\<lparr>device_update_gen := device_update_gen wg0 + 1\<rparr>;
          wg2 = (case WGDEVICE_A_FWMARK attrs of
                   Some m \<Rightarrow> clear_all_peer_endpoint_src (wg1\<lparr>fwmark := m\<rparr>)
                 | None \<Rightarrow> wg1)
      in case set_socket e wg2 attrs of
           (ret, wg3) \<Rightarrow>
             if ret \<noteq> 0 then (ret, wg3)
             else
               let wg4 = (if (case WGDEVICE_A_FLAGS attrs of
                                Some f \<Rightarrow> f AND WGDEVICE_F_REPLACE_PEERS \<noteq> 0
                              | None \<Rightarrow> False)
                            then wg_peer_remove_all wg3 else wg3);
                   wg5 = (case WGDEVICE_A_PRIVATE_KEY attrs of
                            Some k \<Rightarrow>
                              if length k = NOISE_PUBLIC_KEY_LEN then set_private_key e wg4 k else wg4
                          | None \<Rightarrow> wg4)
               in (0, wg5))"

text \<open>The labels \<^verbatim>\<open>out\<close> and \<^verbatim>\<open>out_nonet\<close>, lines 648-659.\<close>

definition set_device_unlock :: "wireguard_device \<Rightarrow> wireguard_device" where
  "set_device_unlock wg = log_events [MutexUnlock, RtnlUnlock] wg"

definition zero_private_key :: "device_attrs \<Rightarrow> device_attrs" where
  "zero_private_key attrs =
     attrs\<lparr>WGDEVICE_A_PRIVATE_KEY := map_option memzero_explicit (WGDEVICE_A_PRIVATE_KEY attrs)\<rparr>"

text \<open>
  \<^verbatim>\<open>set_device\<close>, lines 555-660. \<open>wg\<close> is the private data of the device that
  \<^verbatim>\<open>lookup_interface\<close> resolves; the request is returned as the call leaves it.
\<close>

definition set_device ::
  "env \<Rightarrow> wireguard_device \<Rightarrow> device_attrs \<Rightarrow> int \<times> wireguard_device \<times> device_attrs" where
  "set_device e wg attrs =
     (case get_attr_net e (WGDEVICE_A_DEV_NETNS_PID attrs) (WGDEVICE_A_DEV_NETNS_FD attrs) of
        Inl err \<Rightarrow> (err, wg, zero_private_key attrs)
      | Inr owned_dev_net \<Rightarrow>
          let dev_net = (case owned_dev_net of Some n \<Rightarrow> n | None \<Rightarrow> sock_net e)
          in if \<not> netlink_ns_capable e dev_net then (- EPERM, wg, zero_private_key attrs)
             else
               (case lookup_interface e attrs dev_net of
                  Inl err \<Rightarrow> (err, wg, zero_private_key attrs)
                | Inr dev \<Rightarrow>
                    (case set_device_config e wg attrs of
                       (ret, wg1) \<Rightarrow>
                         if ret \<noteq> 0 then (ret, set_device_unlock wg1, zero_private_key attrs)
                         else
                           (case WGDEVICE_A_PEERS attrs of
                              None \<Rightarrow> (0, set_device_unlock wg1, zero_private_key attrs)
                            | Some blocks \<Rightarrow>
                                (case set_peers e wg1 blocks of
                                   (ret', wg2, blocks') \<Rightarrow>
                                     (ret', set_device_unlock wg2,
                                      zero_private_key (attrs\<lparr>WGDEVICE_A_PEERS := Some blocks'\<rparr>)))))))"

subsection \<open>Message buffers\<close>

text \<open>
  The identifiers of the attributes a dump writes (\<^verbatim>\<open>WGDEVICE_A_*\<close>,
  \<^verbatim>\<open>WGPEER_A_*\<close>, \<^verbatim>\<open>WGALLOWEDIP_A_*\<close>), and the running index that names a
  nested peer or prefix.
\<close>

datatype attr_id =
  T_WGDEVICE_A_IFINDEX | T_WGDEVICE_A_IFNAME | T_WGDEVICE_A_PRIVATE_KEY
  | T_WGDEVICE_A_PUBLIC_KEY | T_WGDEVICE_A_LISTEN_PORT | T_WGDEVICE_A_FWMARK
  | T_WGDEVICE_A_PEERS
  | T_WGPEER_A_PUBLIC_KEY | T_WGPEER_A_PRESHARED_KEY | T_WGPEER_A_ENDPOINT
  | T_WGPEER_A_PERSISTENT_KEEPALIVE_INTERVAL | T_WGPEER_A_LAST_HANDSHAKE_TIME
  | T_WGPEER_A_RX_BYTES | T_WGPEER_A_TX_BYTES | T_WGPEER_A_ALLOWEDIPS
  | T_WGPEER_A_PROTOCOL_VERSION
  | T_WGALLOWEDIP_A_FAMILY | T_WGALLOWEDIP_A_IPADDR | T_WGALLOWEDIP_A_CIDR_MASK
  | T_Index nat

datatype nl_value =
  U8 "8 word" | U16 "16 word" | U32 "32 word" | U64 "64 word"
  | Blob bytes | Str string | Timespec "64 word \<times> 64 word" | Addr sockaddr

datatype nl_item =
  MsgHdr bool
  | Attr attr_id nat nl_value
  | NestStart attr_id
  | NestEnd

text \<open>
  A socket buffer: the bytes used, the bytes left, and what has been written. The header
  item carries the flag \<^verbatim>\<open>NLM_F_DUMP_INTR\<close>; an attribute carries its payload
  length. The sizes are those of the kernel's netlink library: a message header with its
  generic-netlink header takes 20 bytes, an attribute 4 bytes of header and its payload,
  rounded up to a multiple of 4 (a 64-bit attribute needs no padding on a machine with
  efficient unaligned access).
\<close>

record sk_buff =
  skb_len :: nat
  skb_tailroom :: nat
  skb_items :: "nl_item list"

definition alloc_skb :: "nat \<Rightarrow> sk_buff" where
  "alloc_skb n = \<lparr>skb_len = 0, skb_tailroom = n, skb_items = []\<rparr>"

definition nla_total_size :: "nat \<Rightarrow> nat" where
  "nla_total_size payload = ((4 + payload + 3) div 4) * 4"

definition skb_put :: "sk_buff \<Rightarrow> nat \<Rightarrow> nl_item \<Rightarrow> sk_buff option" where
  "skb_put skb n it =
     (if skb_tailroom skb < n then None
      else Some \<lparr>skb_len = skb_len skb + n, skb_tailroom = skb_tailroom skb - n,
                 skb_items = skb_items skb @ [it]\<rparr>)"

definition nla_put :: "sk_buff \<Rightarrow> attr_id \<Rightarrow> nat \<Rightarrow> nl_value \<Rightarrow> sk_buff option" where
  "nla_put skb ty attrlen v = skb_put skb (nla_total_size attrlen) (Attr ty attrlen v)"

text \<open>
  \<^verbatim>\<open>nla_nest_start\<close> returns the position where the nest begins; the caller keeps
  the buffer as it was there, and \<^verbatim>\<open>nla_nest_cancel\<close> trims back to it.
\<close>

definition nla_nest_start :: "sk_buff \<Rightarrow> attr_id \<Rightarrow> sk_buff option" where
  "nla_nest_start skb ty = skb_put skb (nla_total_size 0) (NestStart ty)"

definition nla_nest_end :: "sk_buff \<Rightarrow> sk_buff" where
  "nla_nest_end skb = skb\<lparr>skb_items := skb_items skb @ [NestEnd]\<rparr>"

definition genlmsg_put :: "sk_buff \<Rightarrow> sk_buff option" where
  "genlmsg_put skb = skb_put skb 20 (MsgHdr False)"

subsection \<open>Dump engine\<close>

record allowedips_cursor =
  cursor_seq :: "64 word"
  cursor_pos :: nat

definition zero_cursor :: allowedips_cursor where
  "zero_cursor = \<lparr>cursor_seq = 0, cursor_pos = 0\<rparr>"

record netlink_callback =
  cb_peer_cursor :: "nat option"
  cb_rt_cursor :: allowedips_cursor
  cb_seq :: "32 word"
  cb_prev_seq :: "32 word"

text \<open>\<^verbatim>\<open>get_allowedips\<close>, lines 81-100; the context is the buffer and the counter.\<close>

definition get_allowedips ::
  "sk_buff \<times> nat \<Rightarrow> bytes \<Rightarrow> 8 word \<Rightarrow> 16 word \<Rightarrow> int \<times> (sk_buff \<times> nat)" where
  "get_allowedips actx ip cidr family =
     (case actx of
        (skb, i) \<Rightarrow>
          (case nla_nest_start skb (T_Index i) of
             None \<Rightarrow> (- EMSGSIZE, (skb, Suc i))
           | Some skb1 \<Rightarrow>
               (case Option.bind (nla_put skb1 T_WGALLOWEDIP_A_CIDR_MASK 1 (U8 cidr))
                       (\<lambda>skb2. Option.bind (nla_put skb2 T_WGALLOWEDIP_A_FAMILY 2 (U16 family))
                       (\<lambda>skb3. nla_put skb3 T_WGALLOWEDIP_A_IPADDR
                                  (if family = AF_INET6 then sizeof_in6_addr else sizeof_in_addr)
                                  (Blob ip))) of
                  None \<Rightarrow> (- EMSGSIZE, (skb, Suc i))
                | Some skb4 \<Rightarrow> (0, (nla_nest_end skb4, Suc i)))))"

text \<open>
  Modelled from the spec: the ordered walk with a resumable cursor of allowedips.c, which
  is not among the sources. The walk visits one peer's entries in table order from the
  cursor's position, stops at the first entry the callback refuses and stays on it, and
  stamps a fresh cursor with the table's sequence number.
\<close>

fun walk_entries ::
  "allowedip list \<Rightarrow> nat \<Rightarrow> sk_buff \<times> nat \<Rightarrow> int \<times> nat \<times> (sk_buff \<times> nat)" where
  "walk_entries [] pos actx = (0, pos, actx)"
| "walk_entries (a # as) pos actx =
     (case get_allowedips actx (aip_addr a) (aip_cidr a) (aip_family a) of
        (r, actx') \<Rightarrow> if r \<noteq> 0 then (r, pos, actx') else walk_entries as (Suc pos) actx')"

definition wg_allowedips_walk_by_peer ::
  "wireguard_device \<Rightarrow> allowedips_cursor \<Rightarrow> nat \<Rightarrow> sk_buff \<times> nat
     \<Rightarrow> int \<times> allowedips_cursor \<times> (sk_buff \<times> nat)" where
  "wg_allowedips_walk_by_peer wg cursor pid actx =
     (let cursor1 = (if cursor_seq cursor = 0
                       then cursor\<lparr>cursor_seq := allowedips_seq wg\<rparr> else cursor);
          entries = drop (cursor_pos cursor1) (filter (\<lambda>a. aip_peer a = pid) (peer_allowedips wg))
      in case walk_entries entries (cursor_pos cursor1) actx of
           (r, pos, actx') \<Rightarrow> (r, cursor1\<lparr>cursor_pos := pos\<rparr>, actx'))"

text \<open>\<^verbatim>\<open>get_peer\<close>, lines 119-152: the fields written when the cursor is fresh.\<close>

definition get_peer_fields :: "wireguard_peer \<Rightarrow> sk_buff \<Rightarrow> sk_buff option" where
  "get_peer_fields peer skb =
     Option.bind (nla_put skb T_WGPEER_A_PRESHARED_KEY NOISE_SYMMETRIC_KEY_LEN
                    (Blob (preshared_key peer)))
     (\<lambda>skb1. Option.bind (nla_put skb1 T_WGPEER_A_LAST_HANDSHAKE_TIME sizeof_timespec
                    (Timespec (walltime_last_handshake peer)))
     (\<lambda>skb2. Option.bind (nla_put skb2 T_WGPEER_A_PERSISTENT_KEEPALIVE_INTERVAL 2
                    (U16 (persistent_keepalive_interval peer)))
     (\<lambda>skb3. Option.bind (nla_put skb3 T_WGPEER_A_TX_BYTES 8 (U64 (tx_bytes peer)))
     (\<lambda>skb4. Option.bind (nla_put skb4 T_WGPEER_A_RX_BYTES 8 (U64 (rx_bytes peer)))
     (\<lambda>skb5. Option.bind (nla_put skb5 T_WGPEER_A_PROTOCOL_VERSION 4 (U32 1))
     (\<lambda>skb6.
        if sa_family (peer_endpoint peer) = AF_INET
          then nla_put skb6 T_WGPEER_A_ENDPOINT sizeof_sockaddr_in (Addr (peer_endpoint peer))
        else if sa_family (peer_endpoint peer) = AF_INET6
          then nla_put skb6 T_WGPEER_A_ENDPOINT sizeof_sockaddr_in6 (Addr (peer_endpoint peer))
        else Some skb6))))))"

text \<open>\<^verbatim>\<open>get_peer\<close>, lines 102-171.\<close>

definition get_peer ::
  "wireguard_device \<Rightarrow> wireguard_peer \<Rightarrow> nat \<Rightarrow> allowedips_cursor \<Rightarrow> sk_buff
     \<Rightarrow> int \<times> allowedips_cursor \<times> sk_buff" where
  "get_peer wg peer index rt_cursor skb =
     (case nla_nest_start skb (T_Index index) of
        None \<Rightarrow> (- EMSGSIZE, rt_cursor, skb)
      | Some skb1 \<Rightarrow>
          (case Option.bind (nla_put skb1 T_WGPEER_A_PUBLIC_KEY NOISE_PUBLIC_KEY_LEN
                               (Blob (remote_static peer)))
                  (\<lambda>skb2. Option.bind (if cursor_seq rt_cursor = 0
                                          then get_peer_fields peer skb2 else Some skb2)
                  (\<lambda>skb3. nla_nest_start skb3 T_WGPEER_A_ALLOWEDIPS)) of
             None \<Rightarrow> (- EMSGSIZE, rt_cursor, skb)
           | Some skb4 \<Rightarrow>
               (case wg_allowedips_walk_by_peer wg rt_cursor (peer_id peer) (skb4, 0) of
                  (r, cursor', (skb5, i)) \<Rightarrow>
                    if r \<noteq> 0 then (- EMSGSIZE, cursor', nla_nest_end (nla_nest_end skb5))
                    else (0, zero_cursor, nla_nest_end (nla_nest_end skb5)))))"

text \<open>
  \<^verbatim>\<open>nlmsg_parse\<close> against \<^verbatim>\<open>device_policy\<close> (lines 19-32), and
  \<^verbatim>\<open>get_device_start\<close>, lines 192-240: the callback state a dump begins with.
\<close>

definition nlmsg_parse_device :: "device_attrs \<Rightarrow> int" where
  "nlmsg_parse_device a =
     (if shorter_than NOISE_PUBLIC_KEY_LEN (WGDEVICE_A_PRIVATE_KEY a)
         \<or> shorter_than NOISE_PUBLIC_KEY_LEN (WGDEVICE_A_PUBLIC_KEY a)
        then - ERANGE
      else if (case WGDEVICE_A_IFNAME a of Some nm \<Rightarrow> IFNAMSIZ - 1 < length nm | None \<Rightarrow> False)
        then - EINVAL
      else 0)"

definition dump_start_cb :: netlink_callback where
  "dump_start_cb =
     \<lparr>cb_peer_cursor = None, cb_rt_cursor = zero_cursor, cb_seq = 0, cb_prev_seq = 0\<rparr>"

definition get_device_start :: "env \<Rightarrow> device_attrs \<Rightarrow> int \<times> netlink_callback option" where
  "get_device_start e attrs =
     (let ret = nlmsg_parse_device attrs
      in if ret < 0 then (ret, None)
         else
           (case get_attr_net e (WGDEVICE_A_DEV_NETNS_PID attrs) (WGDEVICE_A_DEV_NETNS_FD attrs) of
              Inl err \<Rightarrow> (err, None)
            | Inr owned_dev_net \<Rightarrow>
                let dev_net = (case owned_dev_net of Some n \<Rightarrow> n | None \<Rightarrow> sock_net e)
                in if \<not> netlink_ns_capable e dev_net then (- EPERM, None)
                   else if \<not> kzalloc_ok e then (- ENOMEM, None)
                   else
                     (case lookup_interface e attrs dev_net of
                        Inl err \<Rightarrow> (err, None)
                      | Inr dev \<Rightarrow> (ret, Some dump_start_cb))))"

text \<open>\<^verbatim>\<open>get_device_dump\<close>, lines 268-292: the device-level fields.\<close>

definition get_device_fields :: "env \<Rightarrow> wireguard_device \<Rightarrow> sk_buff \<Rightarrow> sk_buff option" where
  "get_device_fields e wg skb =
     Option.bind (if test_socket_net_capable e (transit_net wg) = 0
                    then nla_put skb T_WGDEVICE_A_LISTEN_PORT 2 (U16 (incoming_port wg))
                  else Some skb)
     (\<lambda>skb1. Option.bind (nla_put skb1 T_WGDEVICE_A_FWMARK 4 (U32 (fwmark wg)))
     (\<lambda>skb2. Option.bind (nla_put skb2 T_WGDEVICE_A_IFINDEX 4 (U32 (dev_ifindex wg)))
     (\<lambda>skb3. Option.bind (nla_put skb3 T_WGDEVICE_A_IFNAME (length (dev_name wg) + 1)
                             (Str (dev_name wg)))
     (\<lambda>skb4.
        if has_identity wg
          then Option.bind (nla_put skb4 T_WGDEVICE_A_PRIVATE_KEY NOISE_PUBLIC_KEY_LEN
                              (Blob (static_private wg)))
                 (\<lambda>skb5. nla_put skb5 T_WGDEVICE_A_PUBLIC_KEY NOISE_PUBLIC_KEY_LEN
                            (Blob (static_public wg)))
        else Some skb4))))"

text \<open>
  The loop of lines 310-316 over the peers after the cursor: whether it ran to the end
  (\<^verbatim>\<open>done\<close>), the last peer it completed, the prefix cursor and the buffer.
\<close>

fun dump_peers ::
  "wireguard_device \<Rightarrow> wireguard_peer list \<Rightarrow> nat \<Rightarrow> allowedips_cursor \<Rightarrow> sk_buff \<Rightarrow> nat option
     \<Rightarrow> bool \<times> nat option \<times> allowedips_cursor \<times> sk_buff" where
  "dump_peers wg [] peer_idx rt_cursor skb next_peer_cursor =
     (True, next_peer_cursor, rt_cursor, skb)"
| "dump_peers wg (peer # rest) peer_idx rt_cursor skb next_peer_cursor =
     (case get_peer wg peer peer_idx rt_cursor skb of
        (r, rt_cursor', skb') \<Rightarrow>
          if r \<noteq> 0 then (False, next_peer_cursor, rt_cursor', skb')
          else dump_peers wg rest (Suc peer_idx) rt_cursor' skb' (Some (peer_id peer)))"

text \<open>
  \<^verbatim>\<open>list_prepare_entry\<close> and \<^verbatim>\<open>list_for_each_entry_continue\<close>: the peers that
  follow the cursor in the list, all of them without a cursor.
\<close>

definition peers_after :: "wireguard_device \<Rightarrow> nat option \<Rightarrow> wireguard_peer list" where
  "peers_after wg last_peer_cursor =
     (case last_peer_cursor of
        None \<Rightarrow> peer_list wg
      | Some pid \<Rightarrow> tl (dropWhile (\<lambda>p. peer_id p \<noteq> pid) (peer_list wg)))"

text \<open>\<^verbatim>\<open>list_empty(&last_peer_cursor->peer_list)\<close>: the peer was unlinked.\<close>

definition peer_unlinked :: "wireguard_device \<Rightarrow> nat \<Rightarrow> bool" where
  "peer_unlinked wg pid = (pid \<notin> set (map peer_id (peer_list wg)))"

text \<open>
  \<^verbatim>\<open>genl_dump_check_consistent\<close> of the kernel: the header at position \<open>hdr\<close> is
  flagged when the generation differs from that of the previous message.
\<close>

definition genl_dump_check_consistent ::
  "netlink_callback \<Rightarrow> sk_buff \<Rightarrow> nat \<Rightarrow> netlink_callback \<times> sk_buff" where
  "genl_dump_check_consistent cb skb hdr =
     (cb\<lparr>cb_prev_seq := cb_seq cb\<rparr>,
      if cb_prev_seq cb \<noteq> 0 \<and> cb_seq cb \<noteq> cb_prev_seq cb
        then skb\<lparr>skb_items := (skb_items skb)[hdr := MsgHdr True]\<rparr>
      else skb)"

text \<open>
  Lines 268-296: the device-level fields when there is no cursor peer, then the start of
  the nest of peers. The result is the buffer before and after the nest's start.
\<close>

definition dump_device_part ::
  "env \<Rightarrow> wireguard_device \<Rightarrow> nat option \<Rightarrow> sk_buff \<Rightarrow> (sk_buff \<times> sk_buff) option" where
  "dump_device_part e wg last_peer_cursor skb1 =
     Option.bind (if last_peer_cursor = None then get_device_fields e wg skb1 else Some skb1)
       (\<lambda>skb2. map_option (Pair skb2) (nla_nest_start skb2 T_WGDEVICE_A_PEERS))"

text \<open>The test of lines 303-304.\<close>

definition dump_no_peers :: "wireguard_device \<Rightarrow> nat option \<Rightarrow> bool" where
  "dump_no_peers wg last_peer_cursor =
     (peer_list wg = []
      \<or> (case last_peer_cursor of Some pid \<Rightarrow> peer_unlinked wg pid | None \<Rightarrow> False))"

text \<open>Lines 326-336, for a message that is kept.\<close>

definition dump_finish ::
  "netlink_callback \<Rightarrow> bool \<Rightarrow> nat option \<Rightarrow> sk_buff \<Rightarrow> int \<times> netlink_callback \<times> sk_buff" where
  "dump_finish cb done next_peer_cursor skb =
     (if done then (0, cb\<lparr>cb_peer_cursor := None\<rparr>, skb)
      else (int (skb_len skb), cb\<lparr>cb_peer_cursor := next_peer_cursor\<rparr>, skb))"

text \<open>
  \<^verbatim>\<open>get_device_dump\<close>, lines 242-342: one message of a dump. A negative result
  cancels the message; 0 ends the dump; a positive result is the length of the message
  and asks for another call.
\<close>

definition get_device_dump ::
  "env \<Rightarrow> wireguard_device \<Rightarrow> netlink_callback \<Rightarrow> sk_buff \<Rightarrow> int \<times> netlink_callback \<times> sk_buff" where
  "get_device_dump e wg cb skb =
     (let last_peer_cursor = cb_peer_cursor cb;
          cb1 = cb\<lparr>cb_seq := device_update_gen wg\<rparr>
      in case genlmsg_put skb of
           None \<Rightarrow> (- EMSGSIZE, cb1, skb)
         | Some skb0 \<Rightarrow>
             (case genl_dump_check_consistent cb1 skb0 (length (skb_items skb)) of
                (cb2, skb1) \<Rightarrow>
                  (case dump_device_part e wg last_peer_cursor skb1 of
                     None \<Rightarrow> (- EMSGSIZE, cb2, skb)
                   | Some (skb2, skb3) \<Rightarrow>
                       if dump_no_peers wg last_peer_cursor
                         then dump_finish cb2 True last_peer_cursor skb2
                       else
                         (case dump_peers wg (peers_after wg last_peer_cursor) 0
                                 (cb_rt_cursor cb2) skb3 last_peer_cursor of
                            (done, next_peer_cursor, rt_cursor', skb4) \<Rightarrow>
                              dump_finish (cb2\<lparr>cb_rt_cursor := rt_cursor'\<rparr>) done
                                next_peer_cursor (nla_nest_end skb4)))))"

text \<open>The attributes among a list of items, and those a call has added to a buffer.\<close>

fun item_attr :: "nl_item \<Rightarrow> attr_id option" where
  "item_attr (Attr ty _ _) = Some ty"
| "item_attr _ = None"

definition attrs_of :: "nl_item list \<Rightarrow> attr_id list" where
  "attrs_of its = List.map_filter item_attr its"

definition emitted :: "sk_buff \<Rightarrow> sk_buff \<Rightarrow> attr_id list" where
  "emitted skb skb' = attrs_of (drop (length (skb_items skb)) (skb_items skb'))"

text \<open>The device-level attributes, and the fields \<^verbatim>\<open>get_peer\<close> writes for a fresh cursor.\<close>

fun is_device_attr :: "attr_id \<Rightarrow> bool" where
  "is_device_attr T_WGDEVICE_A_IFINDEX = True"
| "is_device_attr T_WGDEVICE_A_IFNAME = True"
| "is_device_attr T_WGDEVICE_A_PRIVATE_KEY = True"
| "is_device_attr T_WGDEVICE_A_PUBLIC_KEY = True"
| "is_device_attr T_WGDEVICE_A_LISTEN_PORT = True"
| "is_device_attr T_WGDEVICE_A_FWMARK = True"
| "is_device_attr _ = False"

definition peer_field_ids :: "wireguard_peer \<Rightarrow> attr_id list" where
  "peer_field_ids peer =
     [T_WGPEER_A_PRESHARED_KEY, T_WGPEER_A_LAST_HANDSHAKE_TIME,
      T_WGPEER_A_PERSISTENT_KEEPALIVE_INTERVAL, T_WGPEER_A_TX_BYTES, T_WGPEER_A_RX_BYTES,
      T_WGPEER_A_PROTOCOL_VERSION]
     @ (if sa_family (peer_endpoint peer) = AF_INET \<or> sa_family (peer_endpoint peer) = AF_INET6
          then [T_WGPEER_A_ENDPOINT] else [])"

definition device_field_ids :: "env \<Rightarrow> wireguard_device \<Rightarrow> attr_id list" where
  "device_field_ids e wg =
     (if test_socket_net_capable e (transit_net wg) = 0 then [T_WGDEVICE_A_LISTEN_PORT] else [])
     @ [T_WGDEVICE_A_FWMARK, T_WGDEVICE_A_IFINDEX, T_WGDEVICE_A_IFNAME]
     @ (if has_identity wg then [T_WGDEVICE_A_PRIVATE_KEY, T_WGDEVICE_A_PUBLIC_KEY] else [])"

text \<open>A message that holds nothing but its header and device-level attributes.\<close>

fun device_item :: "nl_item \<Rightarrow> bool" where
  "device_item (MsgHdr _) = True"
| "device_item (Attr ty _ _) = is_device_attr ty"
| "device_item _ = False"

text \<open>
  The first two messages of a dump, each built in a fresh buffer of \<open>n\<close> bytes: the
  results and the buffers of the two calls.
\<close>

definition dump_two_messages ::
  "env \<Rightarrow> wireguard_device \<Rightarrow> nat \<Rightarrow> int \<times> sk_buff \<times> int \<times> sk_buff" where
  "dump_two_messages e wg n =
     (case get_device_dump e wg dump_start_cb (alloc_skb n) of
        (r1, cb1, m1) \<Rightarrow>
          (case get_device_dump e wg cb1 (alloc_skb n) of
             (r2, cb2, m2) \<Rightarrow> (r1, m1, r2, m2)))"

subsection \<open>Relations used in the statements\<close>

text \<open>Every peer of \<open>wg'\<close> is a peer of \<open>wg\<close> with the endpoint it had there.\<close>

definition endpoints_kept :: "wireguard_device \<Rightarrow> wireguard_device \<Rightarrow> bool" where
  "endpoints_kept wg wg' =
     list_all (\<lambda>p'. list_ex (\<lambda>p. peer_id p = peer_id p' \<and> peer_endpoint p = peer_endpoint p')
                       (peer_list wg))
       (peer_list wg')"

text \<open>The peers of a device as (address, public key) pairs, in list order.\<close>

definition peer_keys :: "wireguard_device \<Rightarrow> (nat \<times> bytes) list" where
  "peer_keys wg = map (\<lambda>p. (peer_id p, remote_static p)) (peer_list wg)"

text \<open>The identity of a device: the presence flag and the key pair.\<close>

definition identity_of :: "wireguard_device \<Rightarrow> bool \<times> bytes \<times> bytes" where
  "identity_of wg = (has_identity wg, static_private wg, static_public wg)"

text \<open>Events that neither take nor release the device update lock.\<close>

definition lock_free :: "event list \<Rightarrow> bool" where
  "lock_free evs = (MutexLock \<notin> set evs \<and> MutexUnlock \<notin> set evs)"

text \<open>
  The device has the identity \<open>(k, pub)\<close> and no peer carries the public key \<open>pub\<close>.
\<close>

definition identity_inv :: "bytes \<Rightarrow> bytes \<Rightarrow> wireguard_device \<Rightarrow> bool" where
  "identity_inv k pub wg = (identity_of wg = (True, k, pub) \<and> pub \<notin> snd ` set (peer_keys wg))"

text \<open>
  The device-level fields of a device: everything but its peers, its prefixes, the next
  free address and the trace.
\<close>

definition device_level ::
  "wireguard_device \<Rightarrow>
     32 word \<times> string \<times> bool \<times> 32 word \<times> 16 word \<times> net \<times> net \<times> (bool \<times> bytes \<times> bytes) \<times> 32 word" where
  "device_level wg =
     (dev_ifindex wg, dev_name wg, dev_running wg, fwmark wg, incoming_port wg, dev_net wg,
      transit_net wg, identity_of wg, device_update_gen wg)"

text \<open>The prefix attribute \<open>x\<close> names the family, address and length of the entry \<open>a\<close>.\<close>

definition names_prefix :: "allowedip_attrs \<Rightarrow> allowedip \<Rightarrow> bool" where
  "names_prefix x a =
     (WGALLOWEDIP_A_FAMILY x = Some (aip_family a) \<and> WGALLOWEDIP_A_IPADDR x = Some (aip_addr a)
      \<and> WGALLOWEDIP_A_CIDR_MASK x = Some (aip_cidr a))"

definition block_names_prefix :: "peer_attrs \<Rightarrow> allowedip \<Rightarrow> bool" where
  "block_names_prefix b a =
     (case WGPEER_A_ALLOWEDIPS b of
        Some as \<Rightarrow> list_ex (\<lambda>x. names_prefix x a) as
      | None \<Rightarrow> False)"


subsection \<open>Concrete devices and requests\<close>

text \<open>
  A small environment in which every capability check passes and no collaborator fails:
  interface 1 is the device \<^verbatim>\<open>wg0\<close>, process 1 lives in namespace 0, and the public
  key of a private key is that key with every byte incremented.
\<close>

definition test_key :: "8 word \<Rightarrow> bytes" where
  "test_key b = replicate 32 b"

definition test_netdev :: net_device where
  "test_netdev = \<lparr>nd_ifindex = 1, nd_name = ''wg0'', rtnl_link_kind = Some ''wireguard''\<rparr>"

definition test_env :: env where
  "test_env =
     \<lparr>get_net_ns_by_pid = (\<lambda>pid. Inr (if pid = 1 then 0 else 1)),
      get_net_ns_by_fd = (\<lambda>fd. Inr 1),
      current_net_ns = 0,
      sock_net = 0,
      ns_capable = (\<lambda>n. True),
      netlink_ns_capable = (\<lambda>n. True),
      dev_get_by_index = (\<lambda>n idx. if idx = 1 then Some test_netdev else None),
      dev_get_by_name = (\<lambda>n nm. if nm = ''wg0'' then Some test_netdev else None),
      curve25519_generate_public = (\<lambda>k. Some (map (\<lambda>b. b + 1) k)),
      wg_noise_precompute_static_static = (\<lambda>priv pub. True),
      wg_peer_create_ok = (\<lambda>k. True),
      wg_allowedips_insert_ret = (\<lambda>ip. 0),
      wg_socket_init_ret = (\<lambda>n port. 0),
      kzalloc_ok = True\<rparr>"

definition test_peer :: "nat \<Rightarrow> 8 word \<Rightarrow> wireguard_peer" where
  "test_peer pid b =
     \<lparr>peer_id = pid, remote_static = test_key b, preshared_key = test_key (b + 64),
      peer_endpoint = \<lparr>sa_family = 0, sa_bytes = []\<rparr>, endpoint_src_cached = True,
      persistent_keepalive_interval = 0, walltime_last_handshake = (0, 0),
      rx_bytes = 0, tx_bytes = 0\<rparr>"

definition test_device :: "wireguard_peer list \<Rightarrow> allowedip list \<Rightarrow> wireguard_device" where
  "test_device ps aips =
     \<lparr>dev_ifindex = 1, dev_name = ''wg0'', dev_running = False, fwmark = 0,
      incoming_port = 51820, dev_net = 0, transit_net = 0, has_identity = False,
      static_private = test_key 0, static_public = test_key 0, device_update_gen = 0,
      peer_list = ps, peer_allowedips = aips, allowedips_seq = 1,
      next_peer_id = Suc (length ps), trace = []\<rparr>"

definition test_allowedip :: "nat \<Rightarrow> 8 word \<Rightarrow> allowedip" where
  "test_allowedip pid b =
     \<lparr>aip_family = AF_INET, aip_addr = [10, 0, b, 0], aip_cidr = 24, aip_peer = pid\<rparr>"

text \<open>Devices with \<open>n\<close> peers, and peers with \<open>n\<close> prefixes.\<close>

definition many_peers :: "nat \<Rightarrow> wireguard_peer list" where
  "many_peers n = map (\<lambda>i. test_peer i (of_nat i)) [1..<Suc n]"

definition many_allowedips :: "nat \<Rightarrow> nat \<Rightarrow> allowedip list" where
  "many_allowedips pid n = map (\<lambda>i. test_allowedip pid (of_nat i)) [0..<n]"

definition empty_peer_attrs :: peer_attrs where
  "empty_peer_attrs =
     \<lparr>WGPEER_A_PUBLIC_KEY = None, WGPEER_A_PRESHARED_KEY = None, WGPEER_A_FLAGS = None,
      WGPEER_A_ENDPOINT = None, WGPEER_A_PERSISTENT_KEEPALIVE_INTERVAL = None,
      WGPEER_A_ALLOWEDIPS = None, WGPEER_A_PROTOCOL_VERSION = None\<rparr>"

definition empty_device_attrs :: device_attrs where
  "empty_device_attrs =
     \<lparr>WGDEVICE_A_IFINDEX = None, WGDEVICE_A_IFNAME = None, WGDEVICE_A_PRIVATE_KEY = None,
      WGDEVICE_A_PUBLIC_KEY = None, WGDEVICE_A_FLAGS = None, WGDEVICE_A_LISTEN_PORT = None,
      WGDEVICE_A_FWMARK = None, WGDEVICE_A_PEERS = None, WGDEVICE_A_DEV_NETNS_PID = None,
      WGDEVICE_A_DEV_NETNS_FD = None, WGDEVICE_A_TRANSIT_NETNS_PID = None,
      WGDEVICE_A_TRANSIT_NETNS_FD = None\<rparr>"

text \<open>
  A request on interface 1 that sets the firewall mark and carries three peer blocks: a
  new peer, a block without a public key, and a new peer with a preshared key.
\<close>

definition add_peer_block :: "8 word \<Rightarrow> peer_attrs" where
  "add_peer_block b = empty_peer_attrs\<lparr>WGPEER_A_PUBLIC_KEY := Some (test_key b)\<rparr>"

definition three_block_request :: device_attrs where
  "three_block_request =
     empty_device_attrs
       \<lparr>WGDEVICE_A_IFINDEX := Some 1, WGDEVICE_A_FWMARK := Some 7,
        WGDEVICE_A_PEERS :=
          Some [add_peer_block 5, empty_peer_attrs,
                (add_peer_block 6)\<lparr>WGPEER_A_PRESHARED_KEY := Some (test_key 9)\<rparr>]\<rparr>"

text \<open>
  A request on interface 1 that sets the private key \<open>test_key 1\<close>, whose public key is
  \<open>test_key 2\<close>, and names a peer with that public key.
\<close>

definition private_key_request :: device_attrs where
  "private_key_request =
     empty_device_attrs
       \<lparr>WGDEVICE_A_IFINDEX := Some 1, WGDEVICE_A_PRIVATE_KEY := Some (test_key 1),
        WGDEVICE_A_PEERS := Some [add_peer_block 2]\<rparr>"

text \<open>A request that names the port and the namespace the test device already has.\<close>

definition same_socket_request :: device_attrs where
  "same_socket_request =
     empty_device_attrs
       \<lparr>WGDEVICE_A_IFINDEX := Some 1, WGDEVICE_A_LISTEN_PORT := Some 51820,
        WGDEVICE_A_TRANSIT_NETNS_PID := Some 1\<rparr>"

text \<open>
  A peer block for an existing peer whose endpoint attribute has the length of an IPv4
  address and the family of IPv6, with a prefix and a keepalive interval.
\<close>

definition bad_endpoint_block :: peer_attrs where
  "bad_endpoint_block =
     (add_peer_block 5)
       \<lparr>WGPEER_A_ENDPOINT := Some \<lparr>sa_family = AF_INET6, sa_bytes = replicate 16 1\<rparr>,
        WGPEER_A_PERSISTENT_KEEPALIVE_INTERVAL := Some 25,
        WGPEER_A_ALLOWEDIPS :=
          Some [\<lparr>WGALLOWEDIP_A_FAMILY = Some AF_INET, WGALLOWEDIP_A_IPADDR = Some [10, 0, 0, 0],
                 WGALLOWEDIP_A_CIDR_MASK = Some 24\<rparr>]\<rparr>"

text \<open>
  Prefix attributes for \<^verbatim>\<open>10.0.b.0\<close> with a given length, and a block for a public
  key with a preshared key and prefixes.
\<close>

definition prefix_attrs :: "8 word \<Rightarrow> 8 word \<Rightarrow> allowedip_attrs" where
  "prefix_attrs b cidr =
     \<lparr>WGALLOWEDIP_A_FAMILY = Some AF_INET, WGALLOWEDIP_A_IPADDR = Some [10, 0, b, 0],
      WGALLOWEDIP_A_CIDR_MASK = Some cidr\<rparr>"

definition keyed_block :: "8 word \<Rightarrow> 8 word \<Rightarrow> allowedip_attrs list \<Rightarrow> peer_attrs" where
  "keyed_block b k as =
     (add_peer_block b)\<lparr>WGPEER_A_PRESHARED_KEY := Some (test_key k), WGPEER_A_ALLOWEDIPS := Some as\<rparr>"




text \<open>
  A block for a new peer with a preshared key, a well-formed endpoint, a keepalive
  interval and a prefix, and a running device with one other peer.
\<close>

definition full_peer_block :: peer_attrs where
  "full_peer_block =
     (keyed_block 5 9 [prefix_attrs 0 24])
       \<lparr>WGPEER_A_ENDPOINT := Some \<lparr>sa_family = AF_INET, sa_bytes = replicate 16 1\<rparr>,
        WGPEER_A_PERSISTENT_KEEPALIVE_INTERVAL := Some 25\<rparr>"

definition running_device :: wireguard_device where
  "running_device = (test_device [test_peer 1 6] [])\<lparr>dev_running := True\<rparr>"

section \<open>Theorems\<close>

subsection \<open>Device resolver\<close>

text \<open>
  C5. A request whose device selector is malformed (both the index and the name present,
  or neither) is refused by \<^verbatim>\<open>lookup_interface\<close> with \<^verbatim>\<open>-EBADR\<close>, an errno
  of the InvalidArgument class, whatever the environment and the namespace; the result is
  an error and never a device handle.
\<close>

theorem lookup_interface_malformed_selector:
  "(WGDEVICE_A_IFINDEX attrs = None) = (WGDEVICE_A_IFNAME attrs = None) \<Longrightarrow>
     lookup_interface e attrs n = Inl (- EBADR) \<and>
     errno_class (- EBADR) = Some InvalidArgument \<and>
     (\<forall>d. lookup_interface e attrs n \<noteq> Inr d)"
  by (simp add: lookup_interface_def errno_class_def)

theorem lookup_interface_malformed_selector_witness:
  "lookup_interface test_env empty_device_attrs 0 = Inl (- EBADR)
   \<and> lookup_interface test_env
        (empty_device_attrs\<lparr>WGDEVICE_A_IFINDEX := Some 1, WGDEVICE_A_IFNAME := Some ''wg0''\<rparr>) 0
      = Inl (- EBADR)"
proof -
  have a: "(WGDEVICE_A_IFINDEX empty_device_attrs = None) = (WGDEVICE_A_IFNAME empty_device_attrs = None)"
    by (simp add: empty_device_attrs_def)
  have b: "(WGDEVICE_A_IFINDEX (empty_device_attrs\<lparr>WGDEVICE_A_IFINDEX := Some 1, WGDEVICE_A_IFNAME := Some ''wg0''\<rparr>) = None)
         = (WGDEVICE_A_IFNAME (empty_device_attrs\<lparr>WGDEVICE_A_IFINDEX := Some 1, WGDEVICE_A_IFNAME := Some ''wg0''\<rparr>) = None)"
    by simp
  show ?thesis
    using lookup_interface_malformed_selector[OF a, of test_env 0]
      lookup_interface_malformed_selector[OF b, of test_env 0]
    by simp
qed

subsection \<open>Socket changes\<close>

text \<open>
  C8. When the namespace of the request resolves and the effective (port, namespace) pair
  equals the device's current pair, \<^verbatim>\<open>set_socket\<close> does nothing beyond the
  capability check: it returns the result of that check and the device exactly as it was,
  so no endpoint source is cleared, no stored configuration changes, and the trace gains
  no socket rebind.
\<close>

theorem set_socket_same_pair_noop:
  assumes "get_attr_net e (WGDEVICE_A_TRANSIT_NETNS_PID attrs) (WGDEVICE_A_TRANSIT_NETNS_FD attrs) = Inr n"
    and "(case WGDEVICE_A_LISTEN_PORT attrs of Some p \<Rightarrow> p | None \<Rightarrow> incoming_port wg) = incoming_port wg"
    and "(case n of Some n' \<Rightarrow> n' | None \<Rightarrow> transit_net wg) = transit_net wg"
  shows "set_socket e wg attrs = (test_socket_net_capable e (transit_net wg), wg)"
  using assms by (auto simp: set_socket_def Let_def split: option.splits)

theorem set_socket_same_pair_noop_witness:
  "set_socket test_env (test_device [test_peer 1 5] []) same_socket_request
     = (0, test_device [test_peer 1 5] [])"
proof -
  have h1: "get_attr_net test_env (WGDEVICE_A_TRANSIT_NETNS_PID same_socket_request)
              (WGDEVICE_A_TRANSIT_NETNS_FD same_socket_request) = Inr (Some 0)"
    by code_simp
  have h2: "(case WGDEVICE_A_LISTEN_PORT same_socket_request of Some p \<Rightarrow> p
             | None \<Rightarrow> incoming_port (test_device [test_peer 1 5] []))
            = incoming_port (test_device [test_peer 1 5] [])"
    by code_simp
  have h3: "(case Some (0::nat) of Some n' \<Rightarrow> n' | None \<Rightarrow> transit_net (test_device [test_peer 1 5] []))
            = transit_net (test_device [test_peer 1 5] [])"
    by code_simp
  have c: "test_socket_net_capable test_env (transit_net (test_device [test_peer 1 5] [])) = 0"
    by code_simp
  show ?thesis
    using set_socket_same_pair_noop[OF h1 h2 h3] c by simp
qed

subsection \<open>What a peer block leaves untouched\<close>

lemma endpoints_kept_iff:
  "endpoints_kept wg wg' \<longleftrightarrow>
     (\<forall>p' \<in> set (peer_list wg'). \<exists>p \<in> set (peer_list wg). peer_id p = peer_id p' \<and> peer_endpoint p = peer_endpoint p')"
  by (simp add: endpoints_kept_def list_all_iff list_ex_iff)

lemma endpoints_kept_refl: "endpoints_kept wg wg"
  by (auto simp: endpoints_kept_iff)

lemma endpoints_kept_trans:
  "endpoints_kept a b \<Longrightarrow> endpoints_kept b c \<Longrightarrow> endpoints_kept a c"
  unfolding endpoints_kept_iff by metis

lemma endpoints_kept_same_list:
  "peer_list wg' = peer_list wg \<Longrightarrow> endpoints_kept wg wg'"
  by (auto simp: endpoints_kept_iff)

lemma endpoints_kept_map_peer:
  "(\<And>p. peer_id (f p) = peer_id p \<and> peer_endpoint (f p) = peer_endpoint p) \<Longrightarrow>
   endpoints_kept wg (map_peer wg pid f)"
  by (auto simp: endpoints_kept_iff map_peer_def)

lemma endpoints_kept_remove: "endpoints_kept wg (wg_peer_remove wg pid)"
  by (auto simp: endpoints_kept_iff wg_peer_remove_def log_events_def)

lemma peer_list_log_events [simp]: "peer_list (log_events evs wg) = peer_list wg"
  by (simp add: log_events_def)

lemma peer_list_allowedips_insert:
  "peer_list (snd (wg_allowedips_insert e wg fam ip cidr pid)) = peer_list wg"
  by (simp add: wg_allowedips_insert_def Let_def)

lemma peer_list_set_allowedip: "peer_list (snd (set_allowedip e wg pid a)) = peer_list wg"
  by (simp add: set_allowedip_def peer_list_allowedips_insert split: option.splits)

lemma peer_list_set_allowedips: "peer_list (snd (set_allowedips e wg pid as r)) = peer_list wg"
proof (induction as arbitrary: wg r)
  case Nil
  show ?case by simp
next
  case (Cons a as)
  obtain r' wg' where s: "set_allowedip e wg pid a = (r', wg')" by (cases "set_allowedip e wg pid a")
  have "peer_list wg' = peer_list wg" using peer_list_set_allowedip[of e wg pid a] s by simp
  then show ?case using Cons.IH[of wg' r'] s by (simp add: Let_def)
qed

lemma peer_list_set_peer_allowedips:
  "peer_list (snd (set_peer_allowedips e wg pid as)) = peer_list wg"
  by (simp add: set_peer_allowedips_def peer_list_set_allowedips split: option.splits)

lemma peer_list_replace_allowedips:
  "peer_list (set_peer_replace_allowedips wg pid flags) = peer_list wg"
  by (simp add: set_peer_replace_allowedips_def wg_allowedips_remove_by_peer_def)

lemma endpoints_kept_preshared: "endpoints_kept wg (set_peer_preshared_key wg pid psk)"
  by (auto simp: set_peer_preshared_key_def split: option.splits
           intro: endpoints_kept_refl endpoints_kept_map_peer)

lemma endpoints_kept_keepalive: "endpoints_kept wg (set_peer_keepalive wg pid ka)"
  by (auto simp: set_peer_keepalive_def Let_def endpoints_kept_iff map_peer_def split: option.splits)

lemma endpoints_kept_staged: "endpoints_kept wg (set_peer_staged_packets wg pid)"
  by (auto simp: set_peer_staged_packets_def endpoints_kept_iff)

lemma set_peer_endpoint_skipped:
  "\<not> endpoint_well_formed addr \<Longrightarrow> set_peer_endpoint wg pid (Some addr) = wg"
  by (simp add: set_peer_endpoint_def)

lemma set_peer_found_endpoint_irrelevant:
  assumes "WGPEER_A_ENDPOINT attrs = Some addr" and "\<not> endpoint_well_formed addr"
  shows "set_peer_found e wg pid (attrs\<lparr>WGPEER_A_ENDPOINT := None\<rparr>) flags psk
         = set_peer_found e wg pid attrs flags psk"
  using assms by (simp add: set_peer_found_def set_peer_endpoint_def Let_def cong: prod.case_cong if_cong)

lemma set_peer_body_endpoint_irrelevant:
  assumes "WGPEER_A_ENDPOINT attrs = Some addr" and "\<not> endpoint_well_formed addr"
  shows "set_peer_body e wg (attrs\<lparr>WGPEER_A_ENDPOINT := None\<rparr>) = set_peer_body e wg attrs"
proof -
  have a: "attr_flags (attrs\<lparr>WGPEER_A_ENDPOINT := None\<rparr>) = attr_flags attrs"
    by (simp add: attr_flags_def)
  have b: "attr_preshared_key (attrs\<lparr>WGPEER_A_ENDPOINT := None\<rparr>) = attr_preshared_key attrs"
    by (simp add: attr_preshared_key_def)
  show ?thesis
    by (simp add: set_peer_body_def a b set_peer_found_endpoint_irrelevant[OF assms] Let_def
             cong: option.case_cong prod.case_cong if_cong)
qed

lemma endpoints_kept_set_peer_found:
  assumes "\<And>wg0 pid. set_peer_endpoint wg0 pid (WGPEER_A_ENDPOINT attrs) = wg0"
  shows "endpoints_kept wg (snd (set_peer_found e wg pid attrs flags psk))"
proof (cases "flags AND WGPEER_F_REMOVE_ME \<noteq> 0")
  case True
  then show ?thesis by (simp add: set_peer_found_def endpoints_kept_remove)
next
  case False
  define wg1 where "wg1 = set_peer_preshared_key wg pid psk"
  define wg3 where "wg3 = set_peer_replace_allowedips wg1 pid flags"
  define res where "res = set_peer_allowedips e wg3 pid (WGPEER_A_ALLOWEDIPS attrs)"
  define wg5 where "wg5 = set_peer_keepalive (snd res) pid (WGPEER_A_PERSISTENT_KEEPALIVE_INTERVAL attrs)"
  have k1: "endpoints_kept wg wg1"
    unfolding wg1_def by (rule endpoints_kept_preshared)
  have "peer_list (snd res) = peer_list wg1"
    unfolding res_def wg3_def by (simp add: peer_list_set_peer_allowedips peer_list_replace_allowedips)
  then have k4: "endpoints_kept wg (snd res)"
    using k1 by (simp add: endpoints_kept_iff)
  have k6: "endpoints_kept wg (set_peer_staged_packets wg5 pid)"
    unfolding wg5_def
    using k4 endpoints_kept_keepalive endpoints_kept_staged endpoints_kept_trans by blast
  have eq: "set_peer_found e wg pid attrs flags psk =
     (if fst res < 0 then res else (fst res, set_peer_staged_packets wg5 pid))"
    using False assms
    by (simp add: set_peer_found_def wg1_def wg3_def res_def wg5_def Let_def split: prod.splits)
  show ?thesis
    using k4 k6 by (simp add: eq)
qed

lemma set_peer_body_cases:
  obtains (same) "snd (set_peer_body e wg attrs) = wg"
    | (found) pid where "snd (set_peer_body e wg attrs)
                          = snd (set_peer_found e wg pid attrs (attr_flags attrs) (attr_preshared_key attrs))"
    | (created) pk wg1 pid where
        "wg_peer_create e wg pk (attr_preshared_key attrs) = Some (wg1, pid)"
        "\<not> (has_identity wg \<and> take NOISE_PUBLIC_KEY_LEN pk = take NOISE_PUBLIC_KEY_LEN (static_public wg))"
        "snd (set_peer_body e wg attrs)
           = snd (set_peer_found e wg1 pid attrs (attr_flags attrs) (attr_preshared_key attrs))"
proof (cases "WGPEER_A_PUBLIC_KEY attrs")
  case None
  then have "snd (set_peer_body e wg attrs) = wg" by (simp add: set_peer_body_def)
  then show ?thesis by (rule same)
next
  case (Some pk)
  show ?thesis
  proof (cases "length pk \<noteq> NOISE_PUBLIC_KEY_LEN
                \<or> (case WGPEER_A_PROTOCOL_VERSION attrs of Some v \<Rightarrow> v \<noteq> 1 | None \<Rightarrow> False)")
    case True
    then have "snd (set_peer_body e wg attrs) = wg"
      using Some by (auto simp: set_peer_body_def Let_def)
    then show ?thesis by (rule same)
  next
    case ok: False
    show ?thesis
    proof (cases "wg_pubkey_hashtable_lookup wg pk")
      case (Some peer)
      then have "snd (set_peer_body e wg attrs)
                 = snd (set_peer_found e wg (peer_id peer) attrs (attr_flags attrs) (attr_preshared_key attrs))"
        using \<open>WGPEER_A_PUBLIC_KEY attrs = Some pk\<close> ok by (simp add: set_peer_body_def Let_def)
      then show ?thesis by (rule found)
    next
      case None
      show ?thesis
      proof (cases "wg_peer_create e wg pk (attr_preshared_key attrs)")
        case cn: None
        then have "snd (set_peer_body e wg attrs) = wg"
          using \<open>WGPEER_A_PUBLIC_KEY attrs = Some pk\<close> ok None by (simp add: set_peer_body_def Let_def)
        then show ?thesis by (rule same)
      next
        case (Some r)
        obtain wg1 pid where r: "r = (wg1, pid)" by (cases r)
        show ?thesis
        proof (cases "attr_flags attrs AND WGPEER_F_REMOVE_ME \<noteq> 0
                      \<or> (has_identity wg \<and> take NOISE_PUBLIC_KEY_LEN pk = take NOISE_PUBLIC_KEY_LEN (static_public wg))")
          case True
          then have "snd (set_peer_body e wg attrs) = wg"
            using \<open>WGPEER_A_PUBLIC_KEY attrs = Some pk\<close> ok None
            by (auto simp: set_peer_body_def Let_def)
          then show ?thesis by (rule same)
        next
          case False
          then have "snd (set_peer_body e wg attrs)
              = snd (set_peer_found e wg1 pid attrs (attr_flags attrs) (attr_preshared_key attrs))"
            using \<open>WGPEER_A_PUBLIC_KEY attrs = Some pk\<close> ok None Some r
            by (auto simp: set_peer_body_def Let_def)
          moreover have "\<not> (has_identity wg \<and> take NOISE_PUBLIC_KEY_LEN pk = take NOISE_PUBLIC_KEY_LEN (static_public wg))"
            using False by blast
          ultimately show ?thesis using Some r created by blast
        qed
      qed
    qed
  qed
qed

lemma set_peer_body_endpoints:
  assumes c: "\<And>wg0 pid. set_peer_endpoint wg0 pid (WGPEER_A_ENDPOINT attrs) = wg0"
    and p': "p' \<in> set (peer_list (snd (set_peer_body e wg attrs)))"
  shows "(\<exists>p \<in> set (peer_list wg). peer_id p = peer_id p' \<and> peer_endpoint p' = peer_endpoint p)
         \<or> (peer_id p' = next_peer_id wg \<and> peer_endpoint p' = \<lparr>sa_family = 0, sa_bytes = []\<rparr>)"
proof -
  note kept = endpoints_kept_set_peer_found[OF c]
  show ?thesis
  proof (cases rule: set_peer_body_cases[of e wg attrs])
    case same
    then show ?thesis using p' by auto
  next
    case (found pid)
    then show ?thesis using p' kept[of wg e pid "attr_flags attrs" "attr_preshared_key attrs"]
      unfolding endpoints_kept_iff by force
  next
    case (created pk wg1 pid)
    from created(3) p' kept[of wg1 e pid "attr_flags attrs" "attr_preshared_key attrs"]
    obtain p1 where p1: "p1 \<in> set (peer_list wg1)" "peer_id p1 = peer_id p'" "peer_endpoint p1 = peer_endpoint p'"
      unfolding endpoints_kept_iff by force
    from created(1) p1(1) have
      "p1 \<in> set (peer_list wg) \<or> (peer_id p1 = next_peer_id wg \<and> peer_endpoint p1 = \<lparr>sa_family = 0, sa_bytes = []\<rparr>)"
      by (auto simp: wg_peer_create_def Let_def split: if_splits)
    then show ?thesis using p1(2,3) by auto
  qed
qed


lemma peer_keys_log_events [simp]: "peer_keys (log_events evs wg) = peer_keys wg"
  by (simp add: peer_keys_def)

lemma identity_log_events [simp]: "identity_of (log_events evs wg) = identity_of wg"
  by (simp add: identity_of_def log_events_def)

lemma trace_log_events [simp]: "trace (log_events evs wg) = trace wg @ evs"
  by (simp add: log_events_def)

lemma peer_keys_map_peer:
  "(\<And>p. peer_id (f p) = peer_id p \<and> remote_static (f p) = remote_static p) \<Longrightarrow>
   peer_keys (map_peer wg pid f) = peer_keys wg"
  by (simp add: peer_keys_def map_peer_def)

lemma frame_map_peer [simp]:
  "identity_of (map_peer wg pid f) = identity_of wg" "trace (map_peer wg pid f) = trace wg"
  by (simp_all add: identity_of_def map_peer_def)

lemma frame_preshared:
  "peer_keys (set_peer_preshared_key wg pid psk) = peer_keys wg"
  "identity_of (set_peer_preshared_key wg pid psk) = identity_of wg"
  "trace (set_peer_preshared_key wg pid psk) = trace wg"
  by (simp_all add: set_peer_preshared_key_def peer_keys_map_peer split: option.splits)

lemma frame_endpoint:
  "peer_keys (set_peer_endpoint wg pid ep) = peer_keys wg"
  "identity_of (set_peer_endpoint wg pid ep) = identity_of wg"
  "trace (set_peer_endpoint wg pid ep) = trace wg"
  by (simp_all add: set_peer_endpoint_def wg_socket_set_peer_endpoint_def peer_keys_map_peer
        split: option.splits)

lemma frame_replace_allowedips:
  "peer_keys (set_peer_replace_allowedips wg pid flags) = peer_keys wg"
  "identity_of (set_peer_replace_allowedips wg pid flags) = identity_of wg"
  "trace (set_peer_replace_allowedips wg pid flags) = trace wg"
  by (simp_all add: set_peer_replace_allowedips_def wg_allowedips_remove_by_peer_def
        peer_keys_def identity_of_def)

lemma frame_allowedips_insert:
  "peer_keys (snd (wg_allowedips_insert e wg fam ip cidr pid)) = peer_keys wg"
  "identity_of (snd (wg_allowedips_insert e wg fam ip cidr pid)) = identity_of wg"
  "trace (snd (wg_allowedips_insert e wg fam ip cidr pid)) = trace wg"
  by (simp_all add: wg_allowedips_insert_def Let_def peer_keys_def identity_of_def)

lemma frame_set_allowedip:
  "peer_keys (snd (set_allowedip e wg pid a)) = peer_keys wg"
  "identity_of (snd (set_allowedip e wg pid a)) = identity_of wg"
  "trace (snd (set_allowedip e wg pid a)) = trace wg"
  by (simp_all add: set_allowedip_def frame_allowedips_insert split: option.splits)

lemma frame_set_allowedips:
  "peer_keys (snd (set_allowedips e wg pid as r)) = peer_keys wg
   \<and> identity_of (snd (set_allowedips e wg pid as r)) = identity_of wg
   \<and> trace (snd (set_allowedips e wg pid as r)) = trace wg"
proof (induction as arbitrary: wg r)
  case Nil
  show ?case by simp
next
  case (Cons a as)
  obtain r' wg' where s: "set_allowedip e wg pid a = (r', wg')" by (cases "set_allowedip e wg pid a")
  have "peer_keys wg' = peer_keys wg" "identity_of wg' = identity_of wg" "trace wg' = trace wg"
    using frame_set_allowedip[of e wg pid a] s by simp_all
  then show ?case using Cons.IH[of wg' r'] s by (simp add: Let_def)
qed

lemma frame_set_peer_allowedips:
  "peer_keys (snd (set_peer_allowedips e wg pid as)) = peer_keys wg"
  "identity_of (snd (set_peer_allowedips e wg pid as)) = identity_of wg"
  "trace (snd (set_peer_allowedips e wg pid as)) = trace wg"
  by (simp_all add: set_peer_allowedips_def frame_set_allowedips split: option.splits)

lemma frame_keepalive:
  "peer_keys (set_peer_keepalive wg pid ka) = peer_keys wg"
  "identity_of (set_peer_keepalive wg pid ka) = identity_of wg"
  "\<exists>evs. trace (set_peer_keepalive wg pid ka) = trace wg @ evs \<and> lock_free evs"
  by (auto simp: set_peer_keepalive_def Let_def peer_keys_map_peer lock_free_def split: option.splits)

lemma frame_staged:
  "peer_keys (set_peer_staged_packets wg pid) = peer_keys wg"
  "identity_of (set_peer_staged_packets wg pid) = identity_of wg"
  "\<exists>evs. trace (set_peer_staged_packets wg pid) = trace wg @ evs \<and> lock_free evs"
  by (auto simp: set_peer_staged_packets_def lock_free_def)

lemma frame_remove:
  "peer_keys (wg_peer_remove wg pid) = filter (\<lambda>(i, k). i \<noteq> pid) (peer_keys wg)"
  "identity_of (wg_peer_remove wg pid) = identity_of wg"
  "trace (wg_peer_remove wg pid) = trace wg @ [PeerRemove pid]"
  by (simp_all add: wg_peer_remove_def peer_keys_def identity_of_def log_events_def filter_map comp_def)

lemma lock_free_append [simp]: "lock_free (xs @ ys) \<longleftrightarrow> lock_free xs \<and> lock_free ys"
  by (auto simp: lock_free_def)

lemma lock_free_Nil [simp]: "lock_free []"
  by (simp add: lock_free_def)

lemma set_peer_found_frame:
  "identity_of (snd (set_peer_found e wg pid attrs flags psk)) = identity_of wg
   \<and> peer_keys (snd (set_peer_found e wg pid attrs flags psk))
       = (if flags AND WGPEER_F_REMOVE_ME \<noteq> 0 then filter (\<lambda>(i, k). i \<noteq> pid) (peer_keys wg)
          else peer_keys wg)
   \<and> (\<exists>evs. trace (snd (set_peer_found e wg pid attrs flags psk)) = trace wg @ evs \<and> lock_free evs)"
proof (cases "flags AND WGPEER_F_REMOVE_ME \<noteq> 0")
  case True
  then show ?thesis by (simp add: set_peer_found_def frame_remove lock_free_def)
next
  case False
  define wg3 where "wg3 = set_peer_replace_allowedips
                            (set_peer_endpoint (set_peer_preshared_key wg pid psk) pid (WGPEER_A_ENDPOINT attrs))
                            pid flags"
  define res where "res = set_peer_allowedips e wg3 pid (WGPEER_A_ALLOWEDIPS attrs)"
  define wg5 where "wg5 = set_peer_keepalive (snd res) pid (WGPEER_A_PERSISTENT_KEEPALIVE_INTERVAL attrs)"
  have f3: "peer_keys wg3 = peer_keys wg" "identity_of wg3 = identity_of wg" "trace wg3 = trace wg"
    unfolding wg3_def by (simp_all add: frame_preshared frame_endpoint frame_replace_allowedips)
  have f4: "peer_keys (snd res) = peer_keys wg" "identity_of (snd res) = identity_of wg"
    "trace (snd res) = trace wg"
    unfolding res_def using f3 by (simp_all add: frame_set_peer_allowedips)
  obtain evs5 where t5: "trace wg5 = trace wg @ evs5" "lock_free evs5"
    unfolding wg5_def using frame_keepalive(3)[of "snd res" pid] f4(3) by metis
  have f5: "peer_keys wg5 = peer_keys wg" "identity_of wg5 = identity_of wg"
    unfolding wg5_def using f4 by (simp_all add: frame_keepalive)
  obtain evs6 where t6: "trace (set_peer_staged_packets wg5 pid) = trace wg5 @ evs6" "lock_free evs6"
    using frame_staged(3) by blast
  have f6: "peer_keys (set_peer_staged_packets wg5 pid) = peer_keys wg"
    "identity_of (set_peer_staged_packets wg5 pid) = identity_of wg"
    using f5 by (simp_all add: frame_staged)
  have t6': "trace (set_peer_staged_packets wg5 pid) = trace wg @ (evs5 @ evs6)" "lock_free (evs5 @ evs6)"
    using t5 t6 by simp_all
  have eq: "set_peer_found e wg pid attrs flags psk =
     (if fst res < 0 then res else (fst res, set_peer_staged_packets wg5 pid))"
    using False
    by (simp add: set_peer_found_def wg3_def res_def wg5_def Let_def split: prod.splits)
  show ?thesis
  proof (cases "fst res < 0")
    case True
    then show ?thesis using eq f4 False by (simp add: lock_free_def)
  next
    case nf: False
    then show ?thesis using eq f6 t6' False by auto
  qed
qed

text \<open>
  C10. A peer block whose endpoint attribute is not exactly a \<^verbatim>\<open>sockaddr_in\<close> of
  family \<^verbatim>\<open>AF_INET\<close> or a \<^verbatim>\<open>sockaddr_in6\<close> of family \<^verbatim>\<open>AF_INET6\<close> is
  processed by \<^verbatim>\<open>set_peer\<close> exactly as the same block without an endpoint attribute:
  same result, same device, so the block does not fail on account of the endpoint and its
  prefixes and keepalive are applied as usual. Every peer the call leaves in the list has
  the endpoint it had before, or is the peer the block created, whose endpoint is zero.
\<close>

theorem set_peer_malformed_endpoint_skipped:
  assumes "WGPEER_A_ENDPOINT attrs = Some addr" and "\<not> endpoint_well_formed addr"
  shows "set_peer_body e wg attrs = set_peer_body e wg (attrs\<lparr>WGPEER_A_ENDPOINT := None\<rparr>)
         \<and> (\<forall>p' \<in> set (peer_list (snd (set_peer_body e wg attrs))).
               (\<exists>p \<in> set (peer_list wg). peer_id p = peer_id p' \<and> peer_endpoint p' = peer_endpoint p)
               \<or> (peer_id p' = next_peer_id wg \<and> peer_endpoint p' = \<lparr>sa_family = 0, sa_bytes = []\<rparr>))"
proof
  show "set_peer_body e wg attrs = set_peer_body e wg (attrs\<lparr>WGPEER_A_ENDPOINT := None\<rparr>)"
    using set_peer_body_endpoint_irrelevant[OF assms] by simp
next
  have c: "\<And>wg0 pid. set_peer_endpoint wg0 pid (WGPEER_A_ENDPOINT attrs) = wg0"
    using assms by (simp add: set_peer_endpoint_def)
  show "\<forall>p' \<in> set (peer_list (snd (set_peer_body e wg attrs))).
               (\<exists>p \<in> set (peer_list wg). peer_id p = peer_id p' \<and> peer_endpoint p' = peer_endpoint p)
               \<or> (peer_id p' = next_peer_id wg \<and> peer_endpoint p' = \<lparr>sa_family = 0, sa_bytes = []\<rparr>)"
    using set_peer_body_endpoints[OF c] by blast
qed

theorem set_peer_malformed_endpoint_skipped_witness:
  "set_peer_body test_env (test_device [test_peer 1 5] []) bad_endpoint_block
     = set_peer_body test_env (test_device [test_peer 1 5] [])
         (bad_endpoint_block\<lparr>WGPEER_A_ENDPOINT := None\<rparr>)
   \<and> fst (set_peer_body test_env (test_device [test_peer 1 5] []) bad_endpoint_block) = 0
   \<and> map peer_endpoint
       (peer_list (snd (set_peer_body test_env (test_device [test_peer 1 5] []) bad_endpoint_block)))
       = [\<lparr>sa_family = 0, sa_bytes = []\<rparr>]
   \<and> map persistent_keepalive_interval
       (peer_list (snd (set_peer_body test_env (test_device [test_peer 1 5] []) bad_endpoint_block)))
       = [25]
   \<and> map aip_addr
       (peer_allowedips (snd (set_peer_body test_env (test_device [test_peer 1 5] []) bad_endpoint_block)))
       = [[10, 0, 0, 0]]"
proof -
  have h1: "WGPEER_A_ENDPOINT bad_endpoint_block = Some \<lparr>sa_family = AF_INET6, sa_bytes = replicate 16 1\<rparr>"
    by (simp add: bad_endpoint_block_def)
  have h2: "\<not> endpoint_well_formed \<lparr>sa_family = AF_INET6, sa_bytes = replicate 16 1\<rparr>"
    by (simp add: endpoint_well_formed_def)
  note th = set_peer_malformed_endpoint_skipped[OF h1 h2, of test_env "test_device [test_peer 1 5] []"]
  have a: "set_peer_body test_env (test_device [test_peer 1 5] []) bad_endpoint_block
     = set_peer_body test_env (test_device [test_peer 1 5] [])
         (bad_endpoint_block\<lparr>WGPEER_A_ENDPOINT := None\<rparr>)"
    using th by blast
  have b: "fst (set_peer_body test_env (test_device [test_peer 1 5] []) bad_endpoint_block) = 0"
    by code_simp
  have c: "map peer_endpoint
       (peer_list (snd (set_peer_body test_env (test_device [test_peer 1 5] []) bad_endpoint_block)))
       = [\<lparr>sa_family = 0, sa_bytes = []\<rparr>]"
    by code_simp
  have d: "map persistent_keepalive_interval
       (peer_list (snd (set_peer_body test_env (test_device [test_peer 1 5] []) bad_endpoint_block)))
       = [25]"
    by code_simp
  have e: "map aip_addr
       (peer_allowedips (snd (set_peer_body test_env (test_device [test_peer 1 5] []) bad_endpoint_block)))
       = [[10, 0, 0, 0]]"
    by code_simp
  show ?thesis using a b c d e by blast
qed

subsection \<open>What a peer block changes\<close>

text \<open>The device-level fields and the next free address.\<close>

lemma dl_log_events:
  "device_level (log_events evs wg) = device_level wg"
  "next_peer_id (log_events evs wg) = next_peer_id wg"
  "peer_allowedips (log_events evs wg) = peer_allowedips wg"
  by (simp_all add: device_level_def log_events_def identity_of_def)

lemma dl_map_peer:
  "device_level (map_peer wg pid f) = device_level wg"
  "next_peer_id (map_peer wg pid f) = next_peer_id wg"
  "peer_allowedips (map_peer wg pid f) = peer_allowedips wg"
  by (simp_all add: device_level_def map_peer_def identity_of_def)

lemma dl_preshared:
  "device_level (set_peer_preshared_key wg pid psk) = device_level wg"
  "next_peer_id (set_peer_preshared_key wg pid psk) = next_peer_id wg"
  "peer_allowedips (set_peer_preshared_key wg pid psk) = peer_allowedips wg"
  by (simp_all add: set_peer_preshared_key_def dl_map_peer split: option.splits)

lemma dl_endpoint:
  "device_level (set_peer_endpoint wg pid ep) = device_level wg"
  "next_peer_id (set_peer_endpoint wg pid ep) = next_peer_id wg"
  "peer_allowedips (set_peer_endpoint wg pid ep) = peer_allowedips wg"
  by (simp_all add: set_peer_endpoint_def wg_socket_set_peer_endpoint_def dl_map_peer split: option.splits)

lemma dl_replace_allowedips:
  "device_level (set_peer_replace_allowedips wg pid flags) = device_level wg"
  "next_peer_id (set_peer_replace_allowedips wg pid flags) = next_peer_id wg"
  by (simp_all add: set_peer_replace_allowedips_def wg_allowedips_remove_by_peer_def
        device_level_def identity_of_def)

lemma dl_allowedips_insert:
  "device_level (snd (wg_allowedips_insert e wg fam ip cidr pid)) = device_level wg"
  "next_peer_id (snd (wg_allowedips_insert e wg fam ip cidr pid)) = next_peer_id wg"
  by (simp_all add: wg_allowedips_insert_def Let_def device_level_def identity_of_def)

lemma dl_set_allowedip:
  "device_level (snd (set_allowedip e wg pid a)) = device_level wg"
  "next_peer_id (snd (set_allowedip e wg pid a)) = next_peer_id wg"
  by (simp_all add: set_allowedip_def dl_allowedips_insert split: option.splits)

lemma dl_set_allowedips:
  "device_level (snd (set_allowedips e wg pid as r)) = device_level wg
   \<and> next_peer_id (snd (set_allowedips e wg pid as r)) = next_peer_id wg"
proof (induction as arbitrary: wg r)
  case Nil
  show ?case by simp
next
  case (Cons a as)
  obtain r' wg' where s: "set_allowedip e wg pid a = (r', wg')" by (cases "set_allowedip e wg pid a")
  have "device_level wg' = device_level wg" "next_peer_id wg' = next_peer_id wg"
    using dl_set_allowedip[of e wg pid a] s by simp_all
  then show ?case using Cons.IH[of wg' r'] s by (simp add: Let_def)
qed

lemma dl_set_peer_allowedips:
  "device_level (snd (set_peer_allowedips e wg pid as)) = device_level wg"
  "next_peer_id (snd (set_peer_allowedips e wg pid as)) = next_peer_id wg"
  by (simp_all add: set_peer_allowedips_def dl_set_allowedips split: option.splits)

lemma dl_keepalive:
  "device_level (set_peer_keepalive wg pid ka) = device_level wg"
  "next_peer_id (set_peer_keepalive wg pid ka) = next_peer_id wg"
  "peer_allowedips (set_peer_keepalive wg pid ka) = peer_allowedips wg"
  by (simp_all add: set_peer_keepalive_def Let_def dl_map_peer dl_log_events split: option.splits)

lemma dl_staged:
  "device_level (set_peer_staged_packets wg pid) = device_level wg"
  "next_peer_id (set_peer_staged_packets wg pid) = next_peer_id wg"
  "peer_allowedips (set_peer_staged_packets wg pid) = peer_allowedips wg"
  "peer_list (set_peer_staged_packets wg pid) = peer_list wg"
  by (simp_all add: set_peer_staged_packets_def dl_log_events)

lemma dl_remove:
  "device_level (wg_peer_remove wg pid) = device_level wg"
  "next_peer_id (wg_peer_remove wg pid) = next_peer_id wg"
  by (simp_all add: wg_peer_remove_def device_level_def identity_of_def log_events_def)

text \<open>
  The steps of \<^verbatim>\<open>set_peer\<close> after the removal test, as one equation: \<open>res\<close> is the
  outcome of the prefix loop.
\<close>

lemma set_peer_found_steps:
  assumes "flags AND WGPEER_F_REMOVE_ME = 0"
  shows "set_peer_found e wg pid attrs flags psk =
     (let res = set_peer_allowedips e
                  (set_peer_replace_allowedips
                     (set_peer_endpoint (set_peer_preshared_key wg pid psk) pid (WGPEER_A_ENDPOINT attrs))
                     pid flags)
                  pid (WGPEER_A_ALLOWEDIPS attrs)
      in if fst res < 0 then res
         else (fst res,
               set_peer_staged_packets
                 (set_peer_keepalive (snd res) pid (WGPEER_A_PERSISTENT_KEEPALIVE_INTERVAL attrs)) pid))"
  using assms by (simp add: set_peer_found_def Let_def split: prod.splits)


lemma dl_set_peer_found:
  "device_level (snd (set_peer_found e wg pid attrs flags psk)) = device_level wg
   \<and> next_peer_id (snd (set_peer_found e wg pid attrs flags psk)) = next_peer_id wg"
proof (cases "flags AND WGPEER_F_REMOVE_ME = 0")
  case False
  then show ?thesis by (simp add: set_peer_found_def dl_remove)
next
  case True
  show ?thesis
    by (simp add: set_peer_found_steps[OF True] Let_def dl_staged dl_keepalive dl_set_peer_allowedips
          dl_replace_allowedips dl_endpoint dl_preshared)
qed

text \<open>Peers at another address than \<open>pid\<close>.\<close>

lemma other_map_peer:
  "p \<in> set (peer_list wg) \<Longrightarrow> peer_id p \<noteq> pid \<Longrightarrow> p \<in> set (peer_list (map_peer wg pid f))"
  by (force simp: map_peer_def)

lemma other_preshared:
  "p \<in> set (peer_list wg) \<Longrightarrow> peer_id p \<noteq> pid \<Longrightarrow>
   p \<in> set (peer_list (set_peer_preshared_key wg pid psk))"
  by (simp add: set_peer_preshared_key_def other_map_peer split: option.splits)

lemma other_endpoint:
  "p \<in> set (peer_list wg) \<Longrightarrow> peer_id p \<noteq> pid \<Longrightarrow>
   p \<in> set (peer_list (set_peer_endpoint wg pid ep))"
  by (simp add: set_peer_endpoint_def wg_socket_set_peer_endpoint_def other_map_peer split: option.splits)

lemma other_keepalive:
  "p \<in> set (peer_list wg) \<Longrightarrow> peer_id p \<noteq> pid \<Longrightarrow>
   p \<in> set (peer_list (set_peer_keepalive wg pid ka))"
  by (simp add: set_peer_keepalive_def Let_def other_map_peer split: option.splits)

lemma other_remove:
  "p \<in> set (peer_list wg) \<Longrightarrow> peer_id p \<noteq> pid \<Longrightarrow> p \<in> set (peer_list (wg_peer_remove wg pid))"
  by (simp add: wg_peer_remove_def)

lemma other_set_peer_found:
  assumes "p \<in> set (peer_list wg)" and "peer_id p \<noteq> pid"
  shows "p \<in> set (peer_list (snd (set_peer_found e wg pid attrs flags psk)))"
proof (cases "flags AND WGPEER_F_REMOVE_ME = 0")
  case False
  then show ?thesis using assms by (simp add: set_peer_found_def other_remove)
next
  case True
  have a: "p \<in> set (peer_list (set_peer_endpoint (set_peer_preshared_key wg pid psk) pid
                                   (WGPEER_A_ENDPOINT attrs)))"
    using assms by (simp add: other_endpoint other_preshared)
  show ?thesis
    using a assms(2)
    by (simp add: set_peer_found_steps[OF True] Let_def dl_staged other_keepalive
          peer_list_set_peer_allowedips peer_list_replace_allowedips)
qed















text \<open>Prefixes the peer \<open>pid\<close> owns stay in the table while the block inserts others.\<close>

lemma own_allowedips_insert:
  "a \<in> set (peer_allowedips wg) \<Longrightarrow> aip_peer a = pid \<Longrightarrow>
   a \<in> set (peer_allowedips (snd (wg_allowedips_insert e wg fam ip cidr pid)))"
  by (cases a) (auto simp: wg_allowedips_insert_def Let_def)

lemma own_set_allowedip:
  "a \<in> set (peer_allowedips wg) \<Longrightarrow> aip_peer a = pid \<Longrightarrow>
   a \<in> set (peer_allowedips (snd (set_allowedip e wg pid x)))"
  by (auto simp: set_allowedip_def own_allowedips_insert split: option.splits)

lemma own_set_allowedips:
  "a \<in> set (peer_allowedips wg) \<Longrightarrow> aip_peer a = pid \<Longrightarrow>
   a \<in> set (peer_allowedips (snd (set_allowedips e wg pid as r)))"
proof (induction as arbitrary: wg r)
  case Nil
  then show ?case by simp
next
  case (Cons x as)
  obtain r' wg' where s: "set_allowedip e wg pid x = (r', wg')" by (cases "set_allowedip e wg pid x")
  have m: "a \<in> set (peer_allowedips wg')"
    using own_set_allowedip[of a wg pid e x] Cons.prems s by simp
  then have "a \<in> set (peer_allowedips (snd (set_allowedips e wg' pid as r')))"
    using Cons.IH[of wg' r'] Cons.prems by simp
  then show ?case using Cons.prems(1) m s by (simp add: Let_def)
qed

lemma inserted_allowedips_insert:
  "wg_allowedips_insert_ret e ip = 0 \<Longrightarrow>
   \<lparr>aip_family = fam, aip_addr = ip, aip_cidr = cidr, aip_peer = pid\<rparr>
     \<in> set (peer_allowedips (snd (wg_allowedips_insert e wg fam ip cidr pid)))"
  by (simp add: wg_allowedips_insert_def Let_def)

lemma inserted_set_allowedip:
  assumes "0 \<le> fst (set_allowedip e wg pid x)"
  shows "\<exists>a. names_prefix x a \<and> aip_peer a = pid
             \<and> (wg_allowedips_insert_ret e (aip_addr a) = 0 \<longrightarrow>
                  a \<in> set (peer_allowedips (snd (set_allowedip e wg pid x))))"
proof -
  obtain fam ip cidr where x:
    "WGALLOWEDIP_A_FAMILY x = Some fam" "WGALLOWEDIP_A_IPADDR x = Some ip"
    "WGALLOWEDIP_A_CIDR_MASK x = Some cidr"
    using assms by (auto simp: set_allowedip_def split: option.splits)
  have ins: "set_allowedip e wg pid x = wg_allowedips_insert e wg fam ip cidr pid"
    using assms x by (auto simp: set_allowedip_def split: if_splits)
  define a where "a = \<lparr>aip_family = fam, aip_addr = ip, aip_cidr = cidr, aip_peer = pid\<rparr>"
  have "names_prefix x a" "aip_peer a = pid"
    using x by (simp_all add: names_prefix_def a_def)
  moreover have "wg_allowedips_insert_ret e (aip_addr a) = 0 \<longrightarrow>
                  a \<in> set (peer_allowedips (snd (set_allowedip e wg pid x)))"
    using inserted_allowedips_insert[of e ip fam cidr pid wg] by (simp add: ins a_def)
  ultimately show ?thesis by blast
qed

lemma inserted_set_allowedips:
  "0 \<le> fst (set_allowedips e wg pid as r) \<Longrightarrow> x \<in> set as \<Longrightarrow>
   \<exists>a. names_prefix x a \<and> aip_peer a = pid
       \<and> (wg_allowedips_insert_ret e (aip_addr a) = 0 \<longrightarrow>
            a \<in> set (peer_allowedips (snd (set_allowedips e wg pid as r))))"
proof (induction as arbitrary: wg r)
  case Nil
  then show ?case by simp
next
  case (Cons y as)
  obtain r' wg' where s: "set_allowedip e wg pid y = (r', wg')" by (cases "set_allowedip e wg pid y")
  have parse: "\<not> nla_parse_nested_allowedip y < 0"
    using Cons.prems(1) by (auto simp: Let_def)
  have r': "\<not> r' < 0"
    using Cons.prems(1) parse s by (auto simp: Let_def)
  have eq: "set_allowedips e wg pid (y # as) r = set_allowedips e wg' pid as r'"
    using parse r' s by (simp add: Let_def)
  show ?case
  proof (cases "x = y")
    case True
    obtain a where a: "names_prefix y a" "aip_peer a = pid"
      "wg_allowedips_insert_ret e (aip_addr a) = 0 \<longrightarrow> a \<in> set (peer_allowedips wg')"
      using inserted_set_allowedip[of e wg pid y] r' s by auto
    have "wg_allowedips_insert_ret e (aip_addr a) = 0 \<longrightarrow>
            a \<in> set (peer_allowedips (snd (set_allowedips e wg' pid as r')))"
      using a(2,3) own_set_allowedips[of a wg' pid e as r'] by blast
    then show ?thesis using a(1,2) True eq by auto
  next
    case False
    then have "x \<in> set as" using Cons.prems(2) by simp
    moreover have "0 \<le> fst (set_allowedips e wg' pid as r')" using Cons.prems(1) eq by simp
    ultimately show ?thesis using Cons.IH[of wg' r'] eq by simp
  qed
qed

lemma inserted_set_peer_allowedips:
  "0 \<le> fst (set_peer_allowedips e wg pid (WGPEER_A_ALLOWEDIPS attrs)) \<Longrightarrow>
   x \<in> set (case WGPEER_A_ALLOWEDIPS attrs of Some as \<Rightarrow> as | None \<Rightarrow> []) \<Longrightarrow>
   \<exists>a. names_prefix x a \<and> aip_peer a = pid
       \<and> (wg_allowedips_insert_ret e (aip_addr a) = 0 \<longrightarrow>
            a \<in> set (peer_allowedips (snd (set_peer_allowedips e wg pid (WGPEER_A_ALLOWEDIPS attrs)))))"
  using inserted_set_allowedips[of e wg pid _ 0 x]
  by (cases "WGPEER_A_ALLOWEDIPS attrs") (simp_all add: set_peer_allowedips_def)

text \<open>The peer at the tail of the list, when it is the peer at \<open>pid\<close>.\<close>

lemma tail_map_peer:
  assumes "peer_list wg \<noteq> []" and "peer_id (last (peer_list wg)) = pid"
  shows "last (peer_list (map_peer wg pid f)) = f (last (peer_list wg))"
    and "length (peer_list (map_peer wg pid f)) = length (peer_list wg)"
  using assms by (simp_all add: map_peer_def last_map)

lemma tail_preshared:
  assumes "peer_list wg \<noteq> []" and "peer_id (last (peer_list wg)) = pid"
  shows "last (peer_list (set_peer_preshared_key wg pid psk))
           = (case psk of
                Some k \<Rightarrow> (last (peer_list wg))\<lparr>preshared_key := take NOISE_SYMMETRIC_KEY_LEN k\<rparr>
              | None \<Rightarrow> last (peer_list wg))"
    and "length (peer_list (set_peer_preshared_key wg pid psk)) = length (peer_list wg)"
  using assms by (simp_all add: set_peer_preshared_key_def tail_map_peer split: option.splits)

lemma tail_endpoint:
  assumes "peer_list wg \<noteq> []" and "peer_id (last (peer_list wg)) = pid"
  shows "last (peer_list (set_peer_endpoint wg pid ep))
           = (case ep of
                Some addr \<Rightarrow>
                  if endpoint_well_formed addr
                    then (last (peer_list wg))\<lparr>peer_endpoint := addr, endpoint_src_cached := False\<rparr>
                  else last (peer_list wg)
              | None \<Rightarrow> last (peer_list wg))"
    and "length (peer_list (set_peer_endpoint wg pid ep)) = length (peer_list wg)"
  using assms
  by (simp_all add: set_peer_endpoint_def wg_socket_set_peer_endpoint_def tail_map_peer
        split: option.splits)

lemma tail_keepalive:
  assumes "peer_list wg \<noteq> []" and "peer_id (last (peer_list wg)) = pid"
  shows "last (peer_list (set_peer_keepalive wg pid ka))
           = (case ka of
                Some ki \<Rightarrow> (last (peer_list wg))\<lparr>persistent_keepalive_interval := ki\<rparr>
              | None \<Rightarrow> last (peer_list wg))"
    and "length (peer_list (set_peer_keepalive wg pid ka)) = length (peer_list wg)"
  using assms by (simp_all add: set_peer_keepalive_def Let_def tail_map_peer split: option.splits)

text \<open>
  The outcome of the steps after the removal test on a device whose tail peer is the peer
  at \<open>pid\<close>: \<open>res\<close> is the outcome of the prefix loop.
\<close>

lemma set_peer_found_tail:
  fixes e :: env and wg :: wireguard_device and pid :: nat and attrs :: peer_attrs
    and flags :: "32 word" and psk :: "bytes option"
  assumes f: "flags AND WGPEER_F_REMOVE_ME = 0"
    and ne: "peer_list wg \<noteq> []" and lid: "peer_id (last (peer_list wg)) = pid"
  defines "wg3 \<equiv> set_peer_replace_allowedips
                    (set_peer_endpoint (set_peer_preshared_key wg pid psk) pid (WGPEER_A_ENDPOINT attrs))
                    pid flags"
  defines "res \<equiv> set_peer_allowedips e wg3 pid (WGPEER_A_ALLOWEDIPS attrs)"
  defines "p2 \<equiv> last (peer_list wg3)"
  shows "fst (set_peer_found e wg pid attrs flags psk) = fst res"
    and "length (peer_list (snd (set_peer_found e wg pid attrs flags psk))) = length (peer_list wg)"
    and "last (peer_list (snd (set_peer_found e wg pid attrs flags psk)))
           = (if fst res < 0 then p2
              else case WGPEER_A_PERSISTENT_KEEPALIVE_INTERVAL attrs of
                     Some ki \<Rightarrow> p2\<lparr>persistent_keepalive_interval := ki\<rparr>
                   | None \<Rightarrow> p2)"
    and "p2 = (let p1 = (case psk of
                           Some k \<Rightarrow> (last (peer_list wg))\<lparr>preshared_key := take NOISE_SYMMETRIC_KEY_LEN k\<rparr>
                         | None \<Rightarrow> last (peer_list wg))
               in case WGPEER_A_ENDPOINT attrs of
                    Some addr \<Rightarrow>
                      if endpoint_well_formed addr
                        then p1\<lparr>peer_endpoint := addr, endpoint_src_cached := False\<rparr>
                      else p1
                  | None \<Rightarrow> p1)"
    and "0 \<le> fst res \<Longrightarrow> x \<in> set (case WGPEER_A_ALLOWEDIPS attrs of Some as \<Rightarrow> as | None \<Rightarrow> []) \<Longrightarrow>
         \<exists>a. names_prefix x a \<and> aip_peer a = pid
             \<and> (wg_allowedips_insert_ret e (aip_addr a) = 0 \<longrightarrow>
                  a \<in> set (peer_allowedips (snd (set_peer_found e wg pid attrs flags psk))))"
    and "0 \<le> fst res \<Longrightarrow> dev_running wg \<Longrightarrow>
         \<exists>evs. trace (snd (set_peer_found e wg pid attrs flags psk))
                 = trace wg @ evs @ [SendStagedPackets pid]"
proof -
  define wg1 where "wg1 = set_peer_preshared_key wg pid psk"
  define wg2 where "wg2 = set_peer_endpoint wg1 pid (WGPEER_A_ENDPOINT attrs)"
  define wg5 where "wg5 = set_peer_keepalive (snd res) pid (WGPEER_A_PERSISTENT_KEEPALIVE_INTERVAL attrs)"
  have w3: "wg3 = set_peer_replace_allowedips wg2 pid flags"
    by (simp add: wg3_def wg2_def wg1_def)
  have eq: "set_peer_found e wg pid attrs flags psk =
     (if fst res < 0 then res else (fst res, set_peer_staged_packets wg5 pid))"
    by (simp add: set_peer_found_steps[OF f] res_def wg3_def wg5_def Let_def)
  show "fst (set_peer_found e wg pid attrs flags psk) = fst res"
    by (simp add: eq)
  have l1: "length (peer_list wg1) = length (peer_list wg)"
    and t1: "last (peer_list wg1)
              = (case psk of
                   Some k \<Rightarrow> (last (peer_list wg))\<lparr>preshared_key := take NOISE_SYMMETRIC_KEY_LEN k\<rparr>
                 | None \<Rightarrow> last (peer_list wg))"
    unfolding wg1_def using tail_preshared[OF ne lid] by simp_all
  have ne1: "peer_list wg1 \<noteq> []" using l1 ne by (metis length_0_conv)
  have id1: "peer_id (last (peer_list wg1)) = pid"
    using t1 lid by (simp split: option.splits)
  have l2: "length (peer_list wg2) = length (peer_list wg)"
    and t2: "last (peer_list wg2)
              = (case WGPEER_A_ENDPOINT attrs of
                   Some addr \<Rightarrow>
                     if endpoint_well_formed addr
                       then (last (peer_list wg1))\<lparr>peer_endpoint := addr, endpoint_src_cached := False\<rparr>
                     else last (peer_list wg1)
                 | None \<Rightarrow> last (peer_list wg1))"
    unfolding wg2_def using tail_endpoint[OF ne1 id1] l1 by simp_all
  have pl3: "peer_list wg3 = peer_list wg2"
    by (simp add: w3 peer_list_replace_allowedips)
  show p2: "p2 = (let p1 = (case psk of
                           Some k \<Rightarrow> (last (peer_list wg))\<lparr>preshared_key := take NOISE_SYMMETRIC_KEY_LEN k\<rparr>
                         | None \<Rightarrow> last (peer_list wg))
               in case WGPEER_A_ENDPOINT attrs of
                    Some addr \<Rightarrow>
                      if endpoint_well_formed addr
                        then p1\<lparr>peer_endpoint := addr, endpoint_src_cached := False\<rparr>
                      else p1
                  | None \<Rightarrow> p1)"
    by (simp add: p2_def pl3 t2 t1 Let_def split: option.splits)
  have pl4: "peer_list (snd res) = peer_list wg2"
    by (simp add: res_def peer_list_set_peer_allowedips pl3)
  have ne4: "peer_list (snd res) \<noteq> []" using pl4 l2 ne by (metis length_0_conv)
  have id4: "peer_id (last (peer_list (snd res))) = pid"
    using pl4 t2 id1 by (simp split: option.splits)
  have l5: "length (peer_list wg5) = length (peer_list wg)"
    and t5: "last (peer_list wg5)
              = (case WGPEER_A_PERSISTENT_KEEPALIVE_INTERVAL attrs of
                   Some ki \<Rightarrow> p2\<lparr>persistent_keepalive_interval := ki\<rparr>
                 | None \<Rightarrow> p2)"
    unfolding wg5_def using tail_keepalive[OF ne4 id4] pl4 l2 pl3 by (simp_all add: p2_def split: option.splits)
  show "length (peer_list (snd (set_peer_found e wg pid attrs flags psk))) = length (peer_list wg)"
    using eq l5 pl4 l2 by (simp add: dl_staged)
  show "last (peer_list (snd (set_peer_found e wg pid attrs flags psk)))
           = (if fst res < 0 then p2
              else case WGPEER_A_PERSISTENT_KEEPALIVE_INTERVAL attrs of
                     Some ki \<Rightarrow> p2\<lparr>persistent_keepalive_interval := ki\<rparr>
                   | None \<Rightarrow> p2)"
    using eq t5 pl4 pl3 by (simp add: dl_staged p2_def split: option.splits)
  have tab: "0 \<le> fst res \<Longrightarrow>
     peer_allowedips (snd (set_peer_found e wg pid attrs flags psk)) = peer_allowedips (snd res)"
    using eq by (simp add: dl_staged wg5_def dl_keepalive)
  show "\<exists>a. names_prefix x a \<and> aip_peer a = pid
             \<and> (wg_allowedips_insert_ret e (aip_addr a) = 0 \<longrightarrow>
                  a \<in> set (peer_allowedips (snd (set_peer_found e wg pid attrs flags psk))))"
    if "0 \<le> fst res" "x \<in> set (case WGPEER_A_ALLOWEDIPS attrs of Some as \<Rightarrow> as | None \<Rightarrow> [])"
    using inserted_set_peer_allowedips[of e wg3 pid attrs x] that tab by (simp add: res_def)
  show "\<exists>evs. trace (snd (set_peer_found e wg pid attrs flags psk))
                 = trace wg @ evs @ [SendStagedPackets pid]"
    if "0 \<le> fst res" "dev_running wg"
  proof -
    have "trace (snd res) = trace wg"
      by (simp add: res_def wg3_def frame_set_peer_allowedips frame_replace_allowedips
            frame_endpoint frame_preshared)
    then obtain evs where ev: "trace wg5 = trace wg @ evs"
      unfolding wg5_def using frame_keepalive(3)[of "snd res" pid] by metis
    have "device_level wg5 = device_level wg"
      by (simp add: wg5_def res_def wg3_def dl_keepalive dl_set_peer_allowedips
            dl_replace_allowedips dl_endpoint dl_preshared)
    then have "dev_running wg5" using that(2) by (simp add: device_level_def)
    then have "trace (set_peer_staged_packets wg5 pid) = trace wg @ evs @ [SendStagedPackets pid]"
      using ev by (simp add: set_peer_staged_packets_def)
    then show ?thesis using eq that(1) by auto
  qed
qed


text \<open>The prefix table grows only by prefixes the block names, owned by the peer \<open>pid\<close>.\<close>

lemma grown_allowedips_insert:
  "a \<in> set (peer_allowedips (snd (wg_allowedips_insert e wg fam ip cidr pid))) \<Longrightarrow>
   a \<in> set (peer_allowedips wg)
   \<or> a = \<lparr>aip_family = fam, aip_addr = ip, aip_cidr = cidr, aip_peer = pid\<rparr>"
  by (auto simp: wg_allowedips_insert_def Let_def split: if_splits)

lemma grown_set_allowedip:
  "a \<in> set (peer_allowedips (snd (set_allowedip e wg pid x))) \<Longrightarrow>
   a \<in> set (peer_allowedips wg) \<or> (aip_peer a = pid \<and> names_prefix x a)"
  by (auto simp: set_allowedip_def names_prefix_def split: option.splits if_splits
           dest!: grown_allowedips_insert)

lemma grown_set_allowedips:
  "a \<in> set (peer_allowedips (snd (set_allowedips e wg pid as r))) \<Longrightarrow>
   a \<in> set (peer_allowedips wg) \<or> (aip_peer a = pid \<and> list_ex (\<lambda>x. names_prefix x a) as)"
proof (induction as arbitrary: wg r)
  case Nil
  then show ?case by simp
next
  case (Cons x as)
  obtain r' wg' where s: "set_allowedip e wg pid x = (r', wg')" by (cases "set_allowedip e wg pid x")
  have step: "a \<in> set (peer_allowedips wg') \<Longrightarrow>
              a \<in> set (peer_allowedips wg) \<or> (aip_peer a = pid \<and> names_prefix x a)"
    using grown_set_allowedip[of a e wg pid x] s by simp
  have "a \<in> set (peer_allowedips wg) \<or> a \<in> set (peer_allowedips wg')
        \<or> a \<in> set (peer_allowedips (snd (set_allowedips e wg' pid as r')))"
    using Cons.prems s by (auto simp: Let_def split: if_splits)
  then show ?case
    using step Cons.IH[of wg' r'] by auto
qed

lemma grown_set_peer_allowedips:
  "a \<in> set (peer_allowedips (snd (set_peer_allowedips e wg pid (WGPEER_A_ALLOWEDIPS attrs)))) \<Longrightarrow>
   a \<in> set (peer_allowedips wg) \<or> (aip_peer a = pid \<and> block_names_prefix attrs a)"
  using grown_set_allowedips[of a e wg pid _ 0]
  by (cases "WGPEER_A_ALLOWEDIPS attrs") (auto simp: set_peer_allowedips_def block_names_prefix_def)

lemma set_peer_found_prefixes:
  assumes f: "flags AND WGPEER_F_REMOVE_ME = 0"
    and a: "a \<in> set (peer_allowedips (snd (set_peer_found e wg pid attrs flags psk)))"
  shows "a \<in> set (peer_allowedips wg) \<or> (aip_peer a = pid \<and> block_names_prefix attrs a)"
    and "flags AND WGPEER_F_REPLACE_ALLOWEDIPS \<noteq> 0 \<Longrightarrow> aip_peer a = pid \<Longrightarrow>
         block_names_prefix attrs a"
proof -
  define wg3 where "wg3 = set_peer_replace_allowedips
                    (set_peer_endpoint (set_peer_preshared_key wg pid psk) pid (WGPEER_A_ENDPOINT attrs))
                    pid flags"
  define res where "res = set_peer_allowedips e wg3 pid (WGPEER_A_ALLOWEDIPS attrs)"
  have "peer_allowedips (snd (set_peer_found e wg pid attrs flags psk)) = peer_allowedips (snd res)"
    by (simp add: set_peer_found_steps[OF f] res_def wg3_def Let_def dl_staged dl_keepalive)
  then have g: "a \<in> set (peer_allowedips wg3) \<or> (aip_peer a = pid \<and> block_names_prefix attrs a)"
    using a grown_set_peer_allowedips[of a e wg3 pid attrs] by (simp add: res_def)
  have t3: "peer_allowedips wg3
              = (if flags AND WGPEER_F_REPLACE_ALLOWEDIPS \<noteq> 0
                   then filter (\<lambda>a. aip_peer a \<noteq> pid) (peer_allowedips wg)
                 else peer_allowedips wg)"
    by (simp add: wg3_def set_peer_replace_allowedips_def wg_allowedips_remove_by_peer_def
          dl_endpoint dl_preshared)
  show "a \<in> set (peer_allowedips wg) \<or> (aip_peer a = pid \<and> block_names_prefix attrs a)"
    using g t3 by (auto split: if_splits)
  show "block_names_prefix attrs a"
    if "flags AND WGPEER_F_REPLACE_ALLOWEDIPS \<noteq> 0" "aip_peer a = pid"
    using g t3 that by auto
qed

lemma attr_preshared_key_take:
  "attr_preshared_key attrs = Some k \<Longrightarrow> take NOISE_SYMMETRIC_KEY_LEN k = k"
  by (auto simp: attr_preshared_key_def split: option.splits if_splits)








subsection \<open>Peer blocks for an unknown public key\<close>

text \<open>
  C9. A peer block reaches the lookup of line 451 with a public key of the exact length
  and a supported protocol version (lines 433-449). When no peer has that key: if the
  block asks for removal, \<^verbatim>\<open>set_peer\<close> fails with \<^verbatim>\<open>-ENODEV\<close> (NotFound) and
  changes nothing; otherwise, if the key is the device's own public key, it succeeds and
  changes nothing; otherwise, if the peer cannot be allocated, it fails with
  \<^verbatim>\<open>-ENOMEM\<close> and changes nothing; otherwise a peer is created at the tail of the list
  and the rest of the block is applied to it. The call then leaves one peer more; the tail
  peer has the block's public key, the block's preshared key (zero without one of the
  exact length), the block's endpoint when it is well formed (zero otherwise), the block's
  keepalive interval when the prefix loop did not fail (zero otherwise) and zero counters;
  the peers at other addresses and the device-level fields are as before; the prefix table
  gains only prefixes that the block names, owned by the new peer; with the
  replace-prefixes flag every prefix of the new peer is one the block names; when the
  prefix loop does not fail, every prefix the block names whose insertion succeeds is in
  the table, owned by the new peer; and on a running device the staged packets of the new
  peer are sent last. In every case the preshared-key buffer of the block is zeroed.
\<close>

theorem set_peer_unknown_public_key:
  assumes pk: "WGPEER_A_PUBLIC_KEY attrs = Some pk"
    and len: "length pk = NOISE_PUBLIC_KEY_LEN"
    and ver: "WGPEER_A_PROTOCOL_VERSION attrs = None \<or> WGPEER_A_PROTOCOL_VERSION attrs = Some 1"
    and absent: "wg_pubkey_hashtable_lookup wg pk = None"
  shows "(attr_flags attrs AND WGPEER_F_REMOVE_ME \<noteq> 0 \<longrightarrow>
            set_peer e wg attrs = (- ENODEV, wg, zero_preshared_key attrs)
            \<and> errno_class (- ENODEV) = Some NotFound)
       \<and> (attr_flags attrs AND WGPEER_F_REMOVE_ME = 0
            \<and> has_identity wg \<and> pk = take NOISE_PUBLIC_KEY_LEN (static_public wg) \<longrightarrow>
            set_peer e wg attrs = (0, wg, zero_preshared_key attrs))
       \<and> (attr_flags attrs AND WGPEER_F_REMOVE_ME = 0
            \<and> \<not> (has_identity wg \<and> pk = take NOISE_PUBLIC_KEY_LEN (static_public wg))
            \<and> \<not> wg_peer_create_ok e pk \<longrightarrow>
            set_peer e wg attrs = (- ENOMEM, wg, zero_preshared_key attrs))
       \<and> (attr_flags attrs AND WGPEER_F_REMOVE_ME = 0
            \<and> \<not> (has_identity wg \<and> pk = take NOISE_PUBLIC_KEY_LEN (static_public wg))
            \<and> wg_peer_create_ok e pk \<longrightarrow>
            (\<exists>ret wg'.
               set_peer e wg attrs = (ret, wg', zero_preshared_key attrs)
               \<and> length (peer_list wg') = Suc (length (peer_list wg))
               \<and> last (peer_list wg')
                   = \<lparr>peer_id = next_peer_id wg,
                      remote_static = pk,
                      preshared_key = (case attr_preshared_key attrs of
                                         Some k \<Rightarrow> k
                                       | None \<Rightarrow> replicate NOISE_SYMMETRIC_KEY_LEN 0),
                      peer_endpoint = (case WGPEER_A_ENDPOINT attrs of
                                         Some addr \<Rightarrow>
                                           if endpoint_well_formed addr then addr
                                           else \<lparr>sa_family = 0, sa_bytes = []\<rparr>
                                       | None \<Rightarrow> \<lparr>sa_family = 0, sa_bytes = []\<rparr>),
                      endpoint_src_cached = False,
                      persistent_keepalive_interval =
                        (if ret < 0 then 0
                         else case WGPEER_A_PERSISTENT_KEEPALIVE_INTERVAL attrs of
                                Some ki \<Rightarrow> ki
                              | None \<Rightarrow> 0),
                      walltime_last_handshake = (0, 0),
                      rx_bytes = 0,
                      tx_bytes = 0\<rparr>
               \<and> next_peer_id wg' = Suc (next_peer_id wg)
               \<and> device_level wg' = device_level wg
               \<and> (\<forall>p \<in> set (peer_list wg). peer_id p \<noteq> next_peer_id wg \<longrightarrow> p \<in> set (peer_list wg'))
               \<and> (WGPEER_A_ALLOWEDIPS attrs = None \<longrightarrow> ret = 0)
               \<and> (0 \<le> ret \<longrightarrow>
                    (\<forall>x \<in> set (case WGPEER_A_ALLOWEDIPS attrs of Some as \<Rightarrow> as | None \<Rightarrow> []).
                        \<exists>a. names_prefix x a \<and> aip_peer a = next_peer_id wg
                            \<and> (wg_allowedips_insert_ret e (aip_addr a) = 0 \<longrightarrow>
                                 a \<in> set (peer_allowedips wg'))))
               \<and> (\<forall>a \<in> set (peer_allowedips wg').
                      a \<in> set (peer_allowedips wg)
                      \<or> (aip_peer a = next_peer_id wg \<and> block_names_prefix attrs a))
               \<and> (attr_flags attrs AND WGPEER_F_REPLACE_ALLOWEDIPS \<noteq> 0 \<longrightarrow>
                    (\<forall>a \<in> set (peer_allowedips wg').
                        aip_peer a = next_peer_id wg \<longrightarrow> block_names_prefix attrs a))
               \<and> (0 \<le> ret \<and> dev_running wg \<longrightarrow>
                    (\<exists>evs. trace wg' = trace wg @ evs @ [SendStagedPackets (next_peer_id wg)]))))"
proof -
  have v: "\<not> (case WGPEER_A_PROTOCOL_VERSION attrs of Some v \<Rightarrow> v \<noteq> 1 | None \<Rightarrow> False)"
    using ver by auto
  have body: "set_peer_body e wg attrs =
     (if attr_flags attrs AND WGPEER_F_REMOVE_ME \<noteq> 0 then (- ENODEV, wg)
      else if has_identity wg \<and> pk = take NOISE_PUBLIC_KEY_LEN (static_public wg) then (0, wg)
      else (case wg_peer_create e wg pk (attr_preshared_key attrs) of
              None \<Rightarrow> (- ENOMEM, wg)
            | Some (wg', pid) \<Rightarrow>
                set_peer_found e wg' pid attrs (attr_flags attrs) (attr_preshared_key attrs)))"
    using pk len v absent by (simp add: set_peer_body_def Let_def)
  have c1: "attr_flags attrs AND WGPEER_F_REMOVE_ME \<noteq> 0 \<longrightarrow>
            set_peer e wg attrs = (- ENODEV, wg, zero_preshared_key attrs)
            \<and> errno_class (- ENODEV) = Some NotFound"
    by (simp add: set_peer_def body errno_class_def)
  have c2: "attr_flags attrs AND WGPEER_F_REMOVE_ME = 0
            \<and> has_identity wg \<and> pk = take NOISE_PUBLIC_KEY_LEN (static_public wg) \<longrightarrow>
            set_peer e wg attrs = (0, wg, zero_preshared_key attrs)"
    by (simp add: set_peer_def body)
  have c3: "attr_flags attrs AND WGPEER_F_REMOVE_ME = 0
            \<and> \<not> (has_identity wg \<and> pk = take NOISE_PUBLIC_KEY_LEN (static_public wg))
            \<and> \<not> wg_peer_create_ok e pk \<longrightarrow>
            set_peer e wg attrs = (- ENOMEM, wg, zero_preshared_key attrs)"
    by (auto simp: set_peer_def body wg_peer_create_def)
  have c4: "\<exists>ret wg'.
               set_peer e wg attrs = (ret, wg', zero_preshared_key attrs)
               \<and> length (peer_list wg') = Suc (length (peer_list wg))
               \<and> last (peer_list wg')
                   = \<lparr>peer_id = next_peer_id wg,
                      remote_static = pk,
                      preshared_key = (case attr_preshared_key attrs of
                                         Some k \<Rightarrow> k
                                       | None \<Rightarrow> replicate NOISE_SYMMETRIC_KEY_LEN 0),
                      peer_endpoint = (case WGPEER_A_ENDPOINT attrs of
                                         Some addr \<Rightarrow>
                                           if endpoint_well_formed addr then addr
                                           else \<lparr>sa_family = 0, sa_bytes = []\<rparr>
                                       | None \<Rightarrow> \<lparr>sa_family = 0, sa_bytes = []\<rparr>),
                      endpoint_src_cached = False,
                      persistent_keepalive_interval =
                        (if ret < 0 then 0
                         else case WGPEER_A_PERSISTENT_KEEPALIVE_INTERVAL attrs of
                                Some ki \<Rightarrow> ki
                              | None \<Rightarrow> 0),
                      walltime_last_handshake = (0, 0),
                      rx_bytes = 0,
                      tx_bytes = 0\<rparr>
               \<and> next_peer_id wg' = Suc (next_peer_id wg)
               \<and> device_level wg' = device_level wg
               \<and> (\<forall>p \<in> set (peer_list wg). peer_id p \<noteq> next_peer_id wg \<longrightarrow> p \<in> set (peer_list wg'))
               \<and> (WGPEER_A_ALLOWEDIPS attrs = None \<longrightarrow> ret = 0)
               \<and> (0 \<le> ret \<longrightarrow>
                    (\<forall>x \<in> set (case WGPEER_A_ALLOWEDIPS attrs of Some as \<Rightarrow> as | None \<Rightarrow> []).
                        \<exists>a. names_prefix x a \<and> aip_peer a = next_peer_id wg
                            \<and> (wg_allowedips_insert_ret e (aip_addr a) = 0 \<longrightarrow>
                                 a \<in> set (peer_allowedips wg'))))
               \<and> (\<forall>a \<in> set (peer_allowedips wg').
                      a \<in> set (peer_allowedips wg)
                      \<or> (aip_peer a = next_peer_id wg \<and> block_names_prefix attrs a))
               \<and> (attr_flags attrs AND WGPEER_F_REPLACE_ALLOWEDIPS \<noteq> 0 \<longrightarrow>
                    (\<forall>a \<in> set (peer_allowedips wg').
                        aip_peer a = next_peer_id wg \<longrightarrow> block_names_prefix attrs a))
               \<and> (0 \<le> ret \<and> dev_running wg \<longrightarrow>
                    (\<exists>evs. trace wg' = trace wg @ evs @ [SendStagedPackets (next_peer_id wg)]))"
    if h: "attr_flags attrs AND WGPEER_F_REMOVE_ME = 0
            \<and> \<not> (has_identity wg \<and> pk = take NOISE_PUBLIC_KEY_LEN (static_public wg))
            \<and> wg_peer_create_ok e pk"
  proof -
    define pid where "pid = next_peer_id wg"
    define flags where "flags = attr_flags attrs"
    define psk where "psk = attr_preshared_key attrs"
    define np where "np =
       \<lparr>peer_id = pid, remote_static = pk,
        preshared_key = (case psk of Some k \<Rightarrow> k | None \<Rightarrow> replicate NOISE_SYMMETRIC_KEY_LEN 0),
        peer_endpoint = \<lparr>sa_family = 0, sa_bytes = []\<rparr>, endpoint_src_cached = False,
        persistent_keepalive_interval = 0, walltime_last_handshake = (0, 0),
        rx_bytes = 0, tx_bytes = 0\<rparr>"
    define wg1 where "wg1 = wg\<lparr>peer_list := peer_list wg @ [np], next_peer_id := Suc pid\<rparr>"
    define wg3 where "wg3 = set_peer_replace_allowedips
                    (set_peer_endpoint (set_peer_preshared_key wg1 pid psk) pid (WGPEER_A_ENDPOINT attrs))
                    pid flags"
    define res where "res = set_peer_allowedips e wg3 pid (WGPEER_A_ALLOWEDIPS attrs)"
    define R where "R = set_peer_found e wg1 pid attrs flags psk"
    have f: "flags AND WGPEER_F_REMOVE_ME = 0" using h by (simp add: flags_def)
    have tk: "\<And>k. psk = Some k \<Longrightarrow> take NOISE_SYMMETRIC_KEY_LEN k = k"
      unfolding psk_def by (rule attr_preshared_key_take)
    have cr: "wg_peer_create e wg pk psk = Some (wg1, pid)"
      using h len tk
      by (auto simp: wg_peer_create_def Let_def wg1_def np_def pid_def split: option.splits)
    have sp: "set_peer e wg attrs = (fst R, snd R, zero_preshared_key attrs)"
      using h cr by (auto simp: set_peer_def body R_def flags_def psk_def split: prod.splits)
    have ne: "peer_list wg1 \<noteq> []" by (simp add: wg1_def)
    have lid: "peer_id (last (peer_list wg1)) = pid" by (simp add: wg1_def np_def)
    note t = set_peer_found_tail(1-3)[where e = e and wg = wg1 and pid = pid and attrs = attrs
          and flags = flags and psk = psk, OF f ne lid, folded wg3_def, folded res_def, folded R_def]
        set_peer_found_tail(4)[where wg = wg1 and pid = pid and attrs = attrs
          and flags = flags and psk = psk, OF f ne lid, folded wg3_def]
        set_peer_found_tail(5-6)[where e = e and wg = wg1 and pid = pid and attrs = attrs
          and flags = flags and psk = psk, OF f ne lid, folded wg3_def, folded res_def, folded R_def]
    have lst: "last (peer_list wg1) = np" by (simp add: wg1_def)
    have a1: "length (peer_list (snd R)) = Suc (length (peer_list wg))"
      using t(2) by (simp add: wg1_def)
    have p2: "last (peer_list wg3)
                = np\<lparr>peer_endpoint := (case WGPEER_A_ENDPOINT attrs of
                                         Some addr \<Rightarrow>
                                           if endpoint_well_formed addr then addr
                                           else \<lparr>sa_family = 0, sa_bytes = []\<rparr>
                                       | None \<Rightarrow> \<lparr>sa_family = 0, sa_bytes = []\<rparr>)\<rparr>"
      using t(4) tk by (auto simp: lst Let_def np_def split: option.splits)
    have a2: "last (peer_list (snd R))
                   = \<lparr>peer_id = next_peer_id wg,
                      remote_static = pk,
                      preshared_key = (case attr_preshared_key attrs of
                                         Some k \<Rightarrow> k
                                       | None \<Rightarrow> replicate NOISE_SYMMETRIC_KEY_LEN 0),
                      peer_endpoint = (case WGPEER_A_ENDPOINT attrs of
                                         Some addr \<Rightarrow>
                                           if endpoint_well_formed addr then addr
                                           else \<lparr>sa_family = 0, sa_bytes = []\<rparr>
                                       | None \<Rightarrow> \<lparr>sa_family = 0, sa_bytes = []\<rparr>),
                      endpoint_src_cached = False,
                      persistent_keepalive_interval =
                        (if fst R < 0 then 0
                         else case WGPEER_A_PERSISTENT_KEEPALIVE_INTERVAL attrs of
                                Some ki \<Rightarrow> ki
                              | None \<Rightarrow> 0),
                      walltime_last_handshake = (0, 0),
                      rx_bytes = 0,
                      tx_bytes = 0\<rparr>"
      using t(3) t(1) by (simp add: p2 np_def pid_def psk_def split: option.splits)
    have a3: "next_peer_id (snd R) = Suc (next_peer_id wg)"
      using dl_set_peer_found[of e wg1 pid attrs flags psk] by (simp add: R_def wg1_def pid_def)
    have d1: "device_level wg1 = device_level wg"
      by (simp add: wg1_def device_level_def identity_of_def)
    have a4: "device_level (snd R) = device_level wg"
      using dl_set_peer_found[of e wg1 pid attrs flags psk] d1 by (simp add: R_def)
    have a5: "\<forall>p \<in> set (peer_list wg). peer_id p \<noteq> next_peer_id wg \<longrightarrow> p \<in> set (peer_list (snd R))"
    proof (intro ballI impI)
      fix p assume "p \<in> set (peer_list wg)" "peer_id p \<noteq> next_peer_id wg"
      then have "p \<in> set (peer_list wg1)" "peer_id p \<noteq> pid" by (simp_all add: wg1_def pid_def)
      then show "p \<in> set (peer_list (snd R))"
        unfolding R_def by (rule other_set_peer_found)
    qed
    have a6: "WGPEER_A_ALLOWEDIPS attrs = None \<longrightarrow> fst R = 0"
      using t(1) by (simp add: res_def set_peer_allowedips_def)
    have a7: "0 \<le> fst R \<longrightarrow>
                    (\<forall>x \<in> set (case WGPEER_A_ALLOWEDIPS attrs of Some as \<Rightarrow> as | None \<Rightarrow> []).
                        \<exists>a. names_prefix x a \<and> aip_peer a = next_peer_id wg
                            \<and> (wg_allowedips_insert_ret e (aip_addr a) = 0 \<longrightarrow>
                                 a \<in> set (peer_allowedips (snd R))))"
      using t(5) t(1) by (simp add: pid_def)
    have tab1: "peer_allowedips wg1 = peer_allowedips wg" by (simp add: wg1_def)
    have a9: "\<forall>a \<in> set (peer_allowedips (snd R)).
                      a \<in> set (peer_allowedips wg)
                      \<or> (aip_peer a = next_peer_id wg \<and> block_names_prefix attrs a)"
      using set_peer_found_prefixes(1)[OF f, of _ e wg1 pid attrs psk] tab1
      by (auto simp: R_def pid_def)
    have a10: "attr_flags attrs AND WGPEER_F_REPLACE_ALLOWEDIPS \<noteq> 0 \<longrightarrow>
                    (\<forall>a \<in> set (peer_allowedips (snd R)).
                        aip_peer a = next_peer_id wg \<longrightarrow> block_names_prefix attrs a)"
      using set_peer_found_prefixes(2)[OF f, of _ e wg1 pid attrs psk]
      by (auto simp: R_def pid_def flags_def)
    have "dev_running wg1 = dev_running wg" "trace wg1 = trace wg" by (simp_all add: wg1_def)
    then have a8: "0 \<le> fst R \<and> dev_running wg \<longrightarrow>
                    (\<exists>evs. trace (snd R) = trace wg @ evs @ [SendStagedPackets (next_peer_id wg)])"
      using t(6) t(1) by (simp add: pid_def)
    show ?thesis
      by (rule exI[where x = "fst R"], rule exI[where x = "snd R"])
         (intro conjI sp a1 a2 a3 a4 a5 a6 a7 a9 a10 a8)
  qed
  show ?thesis using c1 c2 c3 c4 by blast
qed

theorem set_peer_unknown_public_key_witness:
  "set_peer test_env (test_device [] []) ((add_peer_block 5)\<lparr>WGPEER_A_FLAGS := Some WGPEER_F_REMOVE_ME\<rparr>)
     = (- ENODEV, test_device [] [],
        zero_preshared_key ((add_peer_block 5)\<lparr>WGPEER_A_FLAGS := Some WGPEER_F_REMOVE_ME\<rparr>))
   \<and> set_peer test_env ((test_device [] [])\<lparr>has_identity := True, static_public := test_key 5\<rparr>)
         (add_peer_block 5)
     = (0, (test_device [] [])\<lparr>has_identity := True, static_public := test_key 5\<rparr>,
        zero_preshared_key (add_peer_block 5))
   \<and> set_peer (test_env\<lparr>wg_peer_create_ok := (\<lambda>k. False)\<rparr>) running_device full_peer_block
     = (- ENOMEM, running_device, zero_preshared_key full_peer_block)
   \<and> fst (set_peer test_env running_device full_peer_block) = 0
   \<and> length (peer_list (fst (snd (set_peer test_env running_device full_peer_block)))) = 2
   \<and> last (peer_list (fst (snd (set_peer test_env running_device full_peer_block))))
       = \<lparr>peer_id = 2, remote_static = test_key 5, preshared_key = test_key 9,
          peer_endpoint = \<lparr>sa_family = AF_INET, sa_bytes = replicate 16 1\<rparr>,
          endpoint_src_cached = False, persistent_keepalive_interval = 25,
          walltime_last_handshake = (0, 0), rx_bytes = 0, tx_bytes = 0\<rparr>
   \<and> list_ex (\<lambda>p. p = test_peer 1 6)
        (peer_list (fst (snd (set_peer test_env running_device full_peer_block))))
   \<and> list_ex (\<lambda>a. a = test_allowedip 2 0)
        (peer_allowedips (fst (snd (set_peer test_env running_device full_peer_block))))
   \<and> last (trace (fst (snd (set_peer test_env running_device full_peer_block))))
       = SendStagedPackets 2
   \<and> map (\<lambda>p. (peer_id p, remote_static p, preshared_key p, peer_endpoint p,
                  persistent_keepalive_interval p))
        (peer_list (fst (snd (set_peer test_env running_device full_peer_block))))
       = [(1, test_key 6, test_key 70, \<lparr>sa_family = 0, sa_bytes = []\<rparr>, 0),
          (2, test_key 5, test_key 9, \<lparr>sa_family = AF_INET, sa_bytes = replicate 16 1\<rparr>, 25)]
   \<and> peer_allowedips (fst (snd (set_peer test_env running_device full_peer_block)))
       = [test_allowedip 2 0]
   \<and> trace (fst (snd (set_peer test_env running_device full_peer_block)))
       = [SendKeepalive 2, SendStagedPackets 2]"
proof -
  have k: "WGPEER_A_PUBLIC_KEY (add_peer_block 5) = Some (test_key 5)"
    "WGPEER_A_PUBLIC_KEY ((add_peer_block 5)\<lparr>WGPEER_A_FLAGS := Some WGPEER_F_REMOVE_ME\<rparr>) = Some (test_key 5)"
    "WGPEER_A_PUBLIC_KEY full_peer_block = Some (test_key 5)"
    by (simp_all add: add_peer_block_def full_peer_block_def keyed_block_def)
  have l: "length (test_key 5) = NOISE_PUBLIC_KEY_LEN" by (simp add: test_key_def)
  have v: "WGPEER_A_PROTOCOL_VERSION (add_peer_block 5) = None
           \<or> WGPEER_A_PROTOCOL_VERSION (add_peer_block 5) = Some 1"
    "WGPEER_A_PROTOCOL_VERSION ((add_peer_block 5)\<lparr>WGPEER_A_FLAGS := Some WGPEER_F_REMOVE_ME\<rparr>) = None
           \<or> WGPEER_A_PROTOCOL_VERSION ((add_peer_block 5)\<lparr>WGPEER_A_FLAGS := Some WGPEER_F_REMOVE_ME\<rparr>) = Some 1"
    "WGPEER_A_PROTOCOL_VERSION full_peer_block = None
           \<or> WGPEER_A_PROTOCOL_VERSION full_peer_block = Some 1"
    by (simp_all add: add_peer_block_def empty_peer_attrs_def full_peer_block_def keyed_block_def)
  have n: "wg_pubkey_hashtable_lookup (test_device [] []) (test_key 5) = None"
    "wg_pubkey_hashtable_lookup ((test_device [] [])\<lparr>has_identity := True, static_public := test_key 5\<rparr>)
       (test_key 5) = None"
    by (simp_all add: wg_pubkey_hashtable_lookup_def test_device_def)
  have n3: "wg_pubkey_hashtable_lookup running_device (test_key 5) = None"
    by code_simp
  note t1 = set_peer_unknown_public_key[OF k(2) l v(2) n(1), of test_env]
  note t2 = set_peer_unknown_public_key[OF k(1) l v(1) n(2), of test_env]
  note t3 = set_peer_unknown_public_key[OF k(3) l v(3) n3, of "test_env\<lparr>wg_peer_create_ok := (\<lambda>k. False)\<rparr>"]
  note t4 = set_peer_unknown_public_key[OF k(3) l v(3) n3, of test_env]
  have f1: "attr_flags ((add_peer_block 5)\<lparr>WGPEER_A_FLAGS := Some WGPEER_F_REMOVE_ME\<rparr>) AND WGPEER_F_REMOVE_ME \<noteq> 0"
    by (simp add: attr_flags_def)
  have f2: "attr_flags (add_peer_block 5) AND WGPEER_F_REMOVE_ME = 0"
    "attr_flags full_peer_block AND WGPEER_F_REMOVE_ME = 0"
    by (simp_all add: attr_flags_def add_peer_block_def empty_peer_attrs_def full_peer_block_def
          keyed_block_def)
  have c1: "set_peer test_env (test_device [] []) ((add_peer_block 5)\<lparr>WGPEER_A_FLAGS := Some WGPEER_F_REMOVE_ME\<rparr>)
     = (- ENODEV, test_device [] [],
        zero_preshared_key ((add_peer_block 5)\<lparr>WGPEER_A_FLAGS := Some WGPEER_F_REMOVE_ME\<rparr>))"
    using t1 f1 by blast
  have own: "has_identity ((test_device [] [])\<lparr>has_identity := True, static_public := test_key 5\<rparr>)
     \<and> test_key 5 = take NOISE_PUBLIC_KEY_LEN
          (static_public ((test_device [] [])\<lparr>has_identity := True, static_public := test_key 5\<rparr>))"
    by (simp add: test_key_def)
  have c2: "set_peer test_env ((test_device [] [])\<lparr>has_identity := True, static_public := test_key 5\<rparr>)
         (add_peer_block 5)
     = (0, (test_device [] [])\<lparr>has_identity := True, static_public := test_key 5\<rparr>,
        zero_preshared_key (add_peer_block 5))"
    using t2 f2(1) own by blast
  have notown: "\<not> (has_identity running_device
     \<and> test_key 5 = take NOISE_PUBLIC_KEY_LEN (static_public running_device))"
    by (simp add: running_device_def test_device_def)
  have nok: "\<not> wg_peer_create_ok (test_env\<lparr>wg_peer_create_ok := (\<lambda>k. False)\<rparr>) (test_key 5)"
    by simp
  have c3: "set_peer (test_env\<lparr>wg_peer_create_ok := (\<lambda>k. False)\<rparr>) running_device full_peer_block
     = (- ENOMEM, running_device, zero_preshared_key full_peer_block)"
    using t3 f2(2) notown nok by blast
  have ok: "wg_peer_create_ok test_env (test_key 5)" by (simp add: test_env_def)
  define X where "X = fst (snd (set_peer test_env running_device full_peer_block))"
  have r0: "fst (set_peer test_env running_device full_peer_block) = 0"
    by code_simp
  have psk: "attr_preshared_key full_peer_block = Some (test_key 9)"
    by (simp add: attr_preshared_key_def full_peer_block_def keyed_block_def test_key_def)
  have ep: "WGPEER_A_ENDPOINT full_peer_block = Some \<lparr>sa_family = AF_INET, sa_bytes = replicate 16 1\<rparr>"
    "endpoint_well_formed \<lparr>sa_family = AF_INET, sa_bytes = replicate 16 1\<rparr>"
    by (simp_all add: full_peer_block_def endpoint_well_formed_def)
  have ka: "WGPEER_A_PERSISTENT_KEEPALIVE_INTERVAL full_peer_block = Some 25"
    by (simp add: full_peer_block_def)
  have aips: "WGPEER_A_ALLOWEDIPS full_peer_block = Some [prefix_attrs 0 24]"
    by (simp add: full_peer_block_def keyed_block_def)
  have nid: "next_peer_id running_device = 2"
    by (simp add: running_device_def test_device_def)
  have run: "dev_running running_device" by (simp add: running_device_def)
  note ex = t4[THEN conjunct2, THEN conjunct2, THEN conjunct2, THEN mp,
      OF conjI[OF f2(2) conjI[OF notown ok]]]
  from ex obtain ret wg' where
    sp: "set_peer test_env running_device full_peer_block
           = (ret, wg', zero_preshared_key full_peer_block)"
    and len: "length (peer_list wg') = Suc (length (peer_list running_device))"
    and lst0: "last (peer_list wg')
                = \<lparr>peer_id = next_peer_id running_device,
                   remote_static = test_key 5,
                   preshared_key = (case attr_preshared_key full_peer_block of
                                      Some k \<Rightarrow> k
                                    | None \<Rightarrow> replicate NOISE_SYMMETRIC_KEY_LEN 0),
                   peer_endpoint = (case WGPEER_A_ENDPOINT full_peer_block of
                                      Some addr \<Rightarrow>
                                        if endpoint_well_formed addr then addr
                                        else \<lparr>sa_family = 0, sa_bytes = []\<rparr>
                                    | None \<Rightarrow> \<lparr>sa_family = 0, sa_bytes = []\<rparr>),
                   endpoint_src_cached = False,
                   persistent_keepalive_interval =
                     (if ret < 0 then 0
                      else case WGPEER_A_PERSISTENT_KEEPALIVE_INTERVAL full_peer_block of
                             Some ki \<Rightarrow> ki
                           | None \<Rightarrow> 0),
                   walltime_last_handshake = (0, 0),
                   rx_bytes = 0,
                   tx_bytes = 0\<rparr>"
    and oth0: "\<forall>p \<in> set (peer_list running_device).
                 peer_id p \<noteq> next_peer_id running_device \<longrightarrow> p \<in> set (peer_list wg')"
    and ins0: "0 \<le> ret \<longrightarrow>
                (\<forall>x \<in> set (case WGPEER_A_ALLOWEDIPS full_peer_block of Some as \<Rightarrow> as | None \<Rightarrow> []).
                    \<exists>a. names_prefix x a \<and> aip_peer a = next_peer_id running_device
                        \<and> (wg_allowedips_insert_ret test_env (aip_addr a) = 0 \<longrightarrow>
                             a \<in> set (peer_allowedips wg')))"
    and stg0: "0 \<le> ret \<and> dev_running running_device \<longrightarrow>
                (\<exists>evs. trace wg'
                   = trace running_device @ evs @ [SendStagedPackets (next_peer_id running_device)])"
    by (elim exE conjE) (rule that)
  have lst: "last (peer_list wg')
                = \<lparr>peer_id = 2, remote_static = test_key 5, preshared_key = test_key 9,
                   peer_endpoint = \<lparr>sa_family = AF_INET, sa_bytes = replicate 16 1\<rparr>,
                   endpoint_src_cached = False,
                   persistent_keepalive_interval = (if ret < 0 then 0 else 25),
                   walltime_last_handshake = (0, 0), rx_bytes = 0, tx_bytes = 0\<rparr>"
    using lst0 ep(2) unfolding psk ep(1) ka nid by simp
  have oth: "\<forall>p \<in> set (peer_list running_device). peer_id p \<noteq> 2 \<longrightarrow> p \<in> set (peer_list wg')"
    using oth0 unfolding nid .
  have ins: "0 \<le> ret \<longrightarrow>
                (\<exists>a. names_prefix (prefix_attrs 0 24) a \<and> aip_peer a = 2
                        \<and> (wg_allowedips_insert_ret test_env (aip_addr a) = 0 \<longrightarrow>
                             a \<in> set (peer_allowedips wg')))"
    using ins0 unfolding aips nid by simp
  have stg: "0 \<le> ret \<and> dev_running running_device \<longrightarrow>
                (\<exists>evs. trace wg' = trace running_device @ evs @ [SendStagedPackets 2])"
    using stg0 unfolding nid .
  have ret: "ret = 0" and wg': "wg' = X"
    using sp r0 by (simp_all add: X_def)
  have c5: "length (peer_list X) = 2"
    using len wg' by (simp add: running_device_def test_device_def)
  have c6: "last (peer_list X)
       = \<lparr>peer_id = 2, remote_static = test_key 5, preshared_key = test_key 9,
          peer_endpoint = \<lparr>sa_family = AF_INET, sa_bytes = replicate 16 1\<rparr>,
          endpoint_src_cached = False, persistent_keepalive_interval = 25,
          walltime_last_handshake = (0, 0), rx_bytes = 0, tx_bytes = 0\<rparr>"
    using lst wg' ret by simp
  have "test_peer 1 6 \<in> set (peer_list running_device)" "peer_id (test_peer 1 6) \<noteq> 2"
    by (simp_all add: running_device_def test_device_def test_peer_def)
  then have c7: "list_ex (\<lambda>p. p = test_peer 1 6) (peer_list X)"
    using oth wg' by (auto simp: list_ex_iff)
  obtain a where a: "names_prefix (prefix_attrs 0 24) a" "aip_peer a = 2"
    "wg_allowedips_insert_ret test_env (aip_addr a) = 0 \<longrightarrow> a \<in> set (peer_allowedips X)"
    using ins ret wg' by auto
  have "a = test_allowedip 2 0"
    using a(1,2) by (cases a) (simp add: names_prefix_def prefix_attrs_def test_allowedip_def)
  moreover have "a \<in> set (peer_allowedips X)"
    using a(3) by (simp add: test_env_def)
  ultimately have c8: "list_ex (\<lambda>a. a = test_allowedip 2 0) (peer_allowedips X)"
    by (auto simp: list_ex_iff)
  have c9: "last (trace X) = SendStagedPackets 2"
    using stg ret wg' run by auto
  have c10: "map (\<lambda>p. (peer_id p, remote_static p, preshared_key p, peer_endpoint p,
                      persistent_keepalive_interval p)) (peer_list X)
       = [(1, test_key 6, test_key 70, \<lparr>sa_family = 0, sa_bytes = []\<rparr>, 0),
          (2, test_key 5, test_key 9, \<lparr>sa_family = AF_INET, sa_bytes = replicate 16 1\<rparr>, 25)]"
    unfolding X_def by code_simp
  have c11: "peer_allowedips X = [test_allowedip 2 0]"
    unfolding X_def by code_simp
  have c12: "trace X = [SendKeepalive 2, SendStagedPackets 2]"
    unfolding X_def by code_simp
  show ?thesis
    using c1 c2 c3 r0 c5 c6 c7 c8 c9 c10 c11 c12 unfolding X_def by (intro conjI)
qed

subsection \<open>Batches of peer blocks\<close>





text \<open>
  C4. The request of three blocks fails at its second block; the preshared key of the
  third block is still in the request when \<^verbatim>\<open>set_device\<close> returns.
\<close>

theorem set_device_leaves_preshared_key:
  "fst (set_device test_env (test_device [] []) three_block_request) = - EINVAL
   \<and> map WGPEER_A_PRESHARED_KEY
        (case WGDEVICE_A_PEERS (snd (snd (set_device test_env (test_device [] []) three_block_request))) of
           Some blocks \<Rightarrow> blocks | None \<Rightarrow> [])
       = [None, None, Some (replicate 32 9)]"
  by code_simp

subsection \<open>Private-key changes\<close>

lemma wg_peer_create_frame:
  assumes "wg_peer_create e wg pk psk = Some (wg1, pid)"
  shows "peer_keys wg1 = peer_keys wg @ [(pid, take NOISE_PUBLIC_KEY_LEN pk)]"
    and "identity_of wg1 = identity_of wg" and "trace wg1 = trace wg" and "pid = next_peer_id wg"
  using assms by (auto simp: wg_peer_create_def Let_def peer_keys_def identity_of_def split: if_splits)


lemma set_peer_body_inv:
  assumes len: "length pub = NOISE_PUBLIC_KEY_LEN" and inv: "identity_inv k pub wg"
  shows "identity_inv k pub (snd (set_peer_body e wg attrs))
         \<and> (\<exists>evs. trace (snd (set_peer_body e wg attrs)) = trace wg @ evs \<and> lock_free evs)"
proof (cases rule: set_peer_body_cases[of e wg attrs])
  case same
  then show ?thesis using inv by simp
next
  case (found pid)
  note fr = set_peer_found_frame[of e wg pid attrs "attr_flags attrs" "attr_preshared_key attrs"]
  have "set (peer_keys (snd (set_peer_body e wg attrs))) \<subseteq> set (peer_keys wg)"
    using fr found by (auto split: if_splits)
  then show ?thesis using fr found inv unfolding identity_inv_def by auto
next
  case (created pk wg1 pid)
  note cf = wg_peer_create_frame[OF created(1)]
  have "take NOISE_PUBLIC_KEY_LEN pk \<noteq> pub"
    using created(2) inv len by (auto simp: identity_inv_def identity_of_def)
  then have inv1: "identity_inv k pub wg1"
    using inv cf by (auto simp: identity_inv_def)
  note fr = set_peer_found_frame[of e wg1 pid attrs "attr_flags attrs" "attr_preshared_key attrs"]
  have "set (peer_keys (snd (set_peer_body e wg attrs))) \<subseteq> set (peer_keys wg1)"
    using fr created(3) by (auto split: if_splits)
  then show ?thesis using fr created(3) inv1 cf(3) unfolding identity_inv_def by auto
qed

lemma set_peer_block_inv:
  assumes len: "length pub = NOISE_PUBLIC_KEY_LEN" and inv: "identity_inv k pub wg"
  shows "identity_inv k pub (fst (snd (set_peer_block e wg b)))
         \<and> (\<exists>evs. trace (fst (snd (set_peer_block e wg b))) = trace wg @ evs \<and> lock_free evs)"
proof (cases "nla_parse_nested_peer b < 0")
  case True
  then show ?thesis using inv by (simp add: set_peer_block_def)
next
  case False
  then have "fst (snd (set_peer_block e wg b)) = snd (set_peer_body e wg b)"
    by (simp add: set_peer_block_def set_peer_def split: prod.splits)
  then show ?thesis using set_peer_body_inv[OF len inv, of e b] by simp
qed

lemma set_peers_inv:
  assumes len: "length pub = NOISE_PUBLIC_KEY_LEN"
  shows "identity_inv k pub wg \<Longrightarrow>
         identity_inv k pub (fst (snd (set_peers e wg bs)))
         \<and> (\<exists>evs. trace (fst (snd (set_peers e wg bs))) = trace wg @ evs \<and> lock_free evs)"
proof (induction bs arbitrary: wg)
  case Nil
  then show ?case by simp
next
  case (Cons b bs)
  obtain r wg' b' where s: "set_peer_block e wg b = (r, wg', b')"
    by (cases "set_peer_block e wg b") auto
  from set_peer_block_inv[OF len Cons.prems, of e b] s
  obtain evs where i1: "identity_inv k pub wg'" and t1: "trace wg' = trace wg @ evs" "lock_free evs"
    by auto
  show ?case
  proof (cases "r < 0")
    case True
    then show ?thesis using s i1 t1 by simp
  next
    case False
    from Cons.IH[OF i1] obtain evs' where
      i2: "identity_inv k pub (fst (snd (set_peers e wg' bs)))"
      and t2: "trace (fst (snd (set_peers e wg' bs))) = trace wg' @ evs'" "lock_free evs'"
      by auto
    have "fst (snd (set_peers e wg (b # bs))) = fst (snd (set_peers e wg' bs))"
      using s False by (simp split: prod.splits)
    moreover have "trace (fst (snd (set_peers e wg' bs))) = trace wg @ (evs @ evs')" "lock_free (evs @ evs')"
      using t1 t2 by simp_all
    ultimately show ?thesis using i2 by metis
  qed
qed

lemma foldl_remove_frame:
  "peer_keys (foldl wg_peer_remove wg pids) = filter (\<lambda>(i, k). i \<notin> set pids) (peer_keys wg)
   \<and> identity_of (foldl wg_peer_remove wg pids) = identity_of wg
   \<and> trace (foldl wg_peer_remove wg pids) = trace wg @ map PeerRemove pids"
proof (induction pids arbitrary: wg)
  case Nil
  show ?case by simp
next
  case (Cons pid pids)
  have "filter (\<lambda>(i, k). i \<notin> set pids) (filter (\<lambda>(i, k). i \<noteq> pid) (peer_keys wg))
        = filter (\<lambda>(i, k). i \<notin> set (pid # pids)) (peer_keys wg)"
    by (induction "peer_keys wg") (auto simp: filter_filter intro: filter_cong)
  then show ?case using Cons[of "wg_peer_remove wg pid"] by (simp add: frame_remove)
qed

lemma lock_free_map_PeerRemove [simp]: "lock_free (map PeerRemove pids)"
  by (auto simp: lock_free_def)

lemma remove_all_frame:
  "peer_keys (wg_peer_remove_all wg) = []"
  "identity_of (wg_peer_remove_all wg) = identity_of wg"
  "trace (wg_peer_remove_all wg) = trace wg @ map PeerRemove (map fst (peer_keys wg))"
proof -
  have m: "map peer_id (peer_list wg) = map fst (peer_keys wg)"
    by (simp add: peer_keys_def comp_def)
  show "peer_keys (wg_peer_remove_all wg) = []"
    unfolding wg_peer_remove_all_def m
    using foldl_remove_frame[of wg "map fst (peer_keys wg)"]
    by (force simp: filter_empty_conv)
  show "identity_of (wg_peer_remove_all wg) = identity_of wg"
    unfolding wg_peer_remove_all_def using foldl_remove_frame by blast
  show "trace (wg_peer_remove_all wg) = trace wg @ map PeerRemove (map fst (peer_keys wg))"
    unfolding wg_peer_remove_all_def m using foldl_remove_frame by blast
qed

lemma set_socket_frame:
  "peer_keys (snd (set_socket e wg attrs)) = peer_keys wg
   \<and> identity_of (snd (set_socket e wg attrs)) = identity_of wg
   \<and> (\<exists>evs. trace (snd (set_socket e wg attrs)) = trace wg @ evs \<and> lock_free evs)"
  by (auto simp: set_socket_def Let_def peer_keys_def identity_of_def clear_all_peer_endpoint_src_def
        wg_socket_clear_peer_endpoint_src_def wg_device_set_nets_def wg_socket_init_def
        log_events_def lock_free_def comp_def
      split: sum.splits option.splits)

lemma distinct_keys_same_id:
  assumes "distinct (map snd xs)" "(a, k) \<in> set xs" "(b, k) \<in> set xs"
  shows "a = b"
proof -
  have "inj_on snd (set xs)" using assms(1) by (simp add: distinct_map)
  from inj_onD[OF this _ assms(2,3)] show ?thesis by simp
qed

lemma lookup_None_iff:
  "length pub = NOISE_PUBLIC_KEY_LEN \<Longrightarrow>
   wg_pubkey_hashtable_lookup wg pub = None \<longleftrightarrow> pub \<notin> snd ` set (peer_keys wg)"
  by (force simp: wg_pubkey_hashtable_lookup_def find_None_iff peer_keys_def)

lemma lookup_Some_D:
  assumes "length pub = NOISE_PUBLIC_KEY_LEN" "wg_pubkey_hashtable_lookup wg pub = Some q"
  shows "(peer_id q, pub) \<in> set (peer_keys wg)"
proof -
  have "q \<in> set (peer_list wg) \<and> remote_static q = pub"
    using assms by (auto simp: wg_pubkey_hashtable_lookup_def find_Some_iff in_set_conv_nth)
  then show ?thesis by (force simp: peer_keys_def)
qed

lemma remove_unprecomputable_frame:
  "set (peer_keys (remove_unprecomputable e wg)) \<subseteq> set (peer_keys wg)
   \<and> identity_of (remove_unprecomputable e wg) = identity_of wg
   \<and> (\<exists>evs. trace (remove_unprecomputable e wg) = trace wg @ evs \<and> lock_free evs)"
  unfolding remove_unprecomputable_def
  using foldl_remove_frame[of wg]
  by (metis (no_types, lifting) filter_is_subset lock_free_map_PeerRemove)

lemma set_identity_frame:
  assumes "curve25519_generate_public e k = Some pub" "length k = NOISE_PUBLIC_KEY_LEN"
  shows "peer_keys (wg_noise_set_static_identity_private_key e wg k) = peer_keys wg"
    and "identity_of (wg_noise_set_static_identity_private_key e wg k) = (True, k, pub)"
    and "trace (wg_noise_set_static_identity_private_key e wg k) = trace wg @ [SetStaticIdentity k]"
  using assms
  by (simp_all add: wg_noise_set_static_identity_private_key_def peer_keys_def identity_of_def log_events_def)

lemma set_private_key_frame:
  assumes gp: "curve25519_generate_public e k = Some pub"
    and lk: "length k = NOISE_PUBLIC_KEY_LEN" and lp: "length pub = NOISE_PUBLIC_KEY_LEN"
    and d: "distinct (map snd (peer_keys wg))"
  shows "identity_inv k pub (set_private_key e wg k)
     \<and> (\<exists>evs3. trace (set_private_key e wg k)
                 = trace wg @ (case wg_pubkey_hashtable_lookup wg pub of
                                 Some q \<Rightarrow> [PeerRemove (peer_id q)] | None \<Rightarrow> [])
                     @ [SetStaticIdentity k] @ evs3
              \<and> lock_free evs3)"
proof -
  define wg1 where "wg1 = (case wg_pubkey_hashtable_lookup wg pub of
                        Some peer \<Rightarrow> wg_peer_remove wg (peer_id peer)
                      | None \<Rightarrow> wg)"
  define wg2 where "wg2 = wg_noise_set_static_identity_private_key e wg1 k"
  define wg3 where "wg3 = remove_unprecomputable e wg2"
  have eq: "set_private_key e wg k = log_events [CookiePrecompute] wg3"
    using gp by (simp add: set_private_key_def wg1_def wg2_def wg3_def Let_def)
  have a1: "pub \<notin> snd ` set (peer_keys wg1)"
  proof (cases "wg_pubkey_hashtable_lookup wg pub")
    case None
    then have "wg1 = wg" by (simp add: wg1_def)
    then show ?thesis using None lookup_None_iff[OF lp, of wg] by simp
  next
    case (Some q)
    have q: "(peer_id q, pub) \<in> set (peer_keys wg)" using lookup_Some_D[OF lp Some] .
    have "peer_keys wg1 = filter (\<lambda>(i, k). i \<noteq> peer_id q) (peer_keys wg)"
      using Some by (simp add: wg1_def frame_remove)
    moreover have "\<And>i. (i, pub) \<in> set (peer_keys wg) \<Longrightarrow> i = peer_id q"
      using distinct_keys_same_id[OF d _ q] by blast
    ultimately show ?thesis by auto
  qed
  have t1: "trace wg1 = trace wg @ (case wg_pubkey_hashtable_lookup wg pub of
                                 Some q \<Rightarrow> [PeerRemove (peer_id q)] | None \<Rightarrow> [])"
    by (simp add: wg1_def frame_remove split: option.splits)
  note f2 = set_identity_frame[OF gp lk, of wg1, folded wg2_def]
  from remove_unprecomputable_frame[of e wg2, folded wg3_def]
  obtain evs where f3: "set (peer_keys wg3) \<subseteq> set (peer_keys wg2)" "identity_of wg3 = identity_of wg2"
    "trace wg3 = trace wg2 @ evs" "lock_free evs" by blast
  have "identity_inv k pub (set_private_key e wg k)"
    using a1 f2 f3 by (auto simp: eq identity_inv_def)
  moreover have "trace (set_private_key e wg k)
                 = trace wg @ (case wg_pubkey_hashtable_lookup wg pub of
                                 Some q \<Rightarrow> [PeerRemove (peer_id q)] | None \<Rightarrow> [])
                     @ [SetStaticIdentity k] @ (evs @ [CookiePrecompute])"
    using t1 f2 f3 by (simp add: eq)
  moreover have "lock_free (evs @ [CookiePrecompute])"
    using f3(4) by (simp add: lock_free_def)
  ultimately show ?thesis by blast
qed

lemma set_device_config_key:
  assumes pk: "WGDEVICE_A_PRIVATE_KEY attrs = Some k"
    and lk: "length k = NOISE_PUBLIC_KEY_LEN"
    and gp: "curve25519_generate_public e k = Some pub"
    and lp: "length pub = NOISE_PUBLIC_KEY_LEN"
    and ok: "fst (set_device_config e wg attrs) = 0"
    and d: "distinct (map snd (peer_keys wg))"
  shows "identity_inv k pub (snd (set_device_config e wg attrs))"
    and "(i, pub) \<in> set (peer_keys wg) \<Longrightarrow>
         \<exists>evs1 evs2 evs3. trace (snd (set_device_config e wg attrs))
             = trace wg @ [RtnlLock, MutexLock] @ evs1 @ [PeerRemove i] @ evs2
                 @ [SetStaticIdentity k] @ evs3
           \<and> lock_free (evs1 @ evs2 @ evs3)"
proof -
  define wg2 where "wg2 = (case WGDEVICE_A_FWMARK attrs of
                   Some m \<Rightarrow> clear_all_peer_endpoint_src
                     ((log_events [RtnlLock, MutexLock] wg)
                        \<lparr>device_update_gen := device_update_gen (log_events [RtnlLock, MutexLock] wg) + 1,
                         fwmark := m\<rparr>)
                 | None \<Rightarrow> (log_events [RtnlLock, MutexLock] wg)
                        \<lparr>device_update_gen := device_update_gen (log_events [RtnlLock, MutexLock] wg) + 1\<rparr>)"
  define wg3 where "wg3 = snd (set_socket e wg2 attrs)"
  define replace where "replace = (case WGDEVICE_A_FLAGS attrs of
                                Some f \<Rightarrow> f AND WGDEVICE_F_REPLACE_PEERS \<noteq> 0
                              | None \<Rightarrow> False)"
  define wg4 where "wg4 = (if replace then wg_peer_remove_all wg3 else wg3)"
  have eq: "set_device_config e wg attrs =
     (if fst (set_socket e wg2 attrs) \<noteq> 0 then set_socket e wg2 attrs
      else (0, set_private_key e wg4 k))"
    using pk lk
    by (simp add: set_device_config_def wg2_def wg3_def wg4_def replace_def Let_def
          split: prod.splits option.splits)
  have s0: "fst (set_socket e wg2 attrs) = 0"
    using ok eq by (auto split: if_splits)
  then have res: "snd (set_device_config e wg attrs) = set_private_key e wg4 k"
    using eq by simp
  have f2: "peer_keys wg2 = peer_keys wg" "trace wg2 = trace wg @ [RtnlLock, MutexLock]"
    by (auto simp: wg2_def peer_keys_def clear_all_peer_endpoint_src_def log_events_def
          wg_socket_clear_peer_endpoint_src_def comp_def split: option.splits)
  from set_socket_frame[of e wg2 attrs, folded wg3_def]
  obtain evsS where f3: "peer_keys wg3 = peer_keys wg2" "trace wg3 = trace wg2 @ evsS" "lock_free evsS"
    by blast
  have d4: "distinct (map snd (peer_keys wg4))"
    using d f2 f3 by (simp add: wg4_def remove_all_frame)
  note kf = set_private_key_frame[OF gp lk lp d4]
  show "identity_inv k pub (snd (set_device_config e wg attrs))"
    using kf res by simp
  assume i: "(i, pub) \<in> set (peer_keys wg)"
  from kf obtain evs3 where t5: "trace (set_private_key e wg4 k)
                 = trace wg4 @ (case wg_pubkey_hashtable_lookup wg4 pub of
                                 Some q \<Rightarrow> [PeerRemove (peer_id q)] | None \<Rightarrow> [])
                     @ [SetStaticIdentity k] @ evs3" and l3: "lock_free evs3" by blast
  show "\<exists>evs1 evs2 evs3. trace (snd (set_device_config e wg attrs))
             = trace wg @ [RtnlLock, MutexLock] @ evs1 @ [PeerRemove i] @ evs2
                 @ [SetStaticIdentity k] @ evs3
           \<and> lock_free (evs1 @ evs2 @ evs3)"
  proof (cases replace)
    case True
    have "i \<in> set (map fst (peer_keys wg3))" using i f2 f3 by force
    then obtain xs ys where sp: "map fst (peer_keys wg3) = xs @ i # ys"
      by (meson split_list)
    have t4: "trace wg4 = trace wg3 @ map PeerRemove xs @ [PeerRemove i] @ map PeerRemove ys"
      using True sp by (simp add: wg4_def remove_all_frame)
    have "peer_keys wg4 = []" using True by (simp add: wg4_def remove_all_frame)
    then have "wg_pubkey_hashtable_lookup wg4 pub = None"
      using lookup_None_iff[OF lp, of wg4] by simp
    then have "trace (snd (set_device_config e wg attrs))
             = trace wg @ [RtnlLock, MutexLock] @ (evsS @ map PeerRemove xs) @ [PeerRemove i]
                 @ map PeerRemove ys @ [SetStaticIdentity k] @ evs3"
      using res t5 t4 f3 f2 by simp
    moreover have "lock_free ((evsS @ map PeerRemove xs) @ map PeerRemove ys @ evs3)"
      using f3(3) l3 by simp
    ultimately show ?thesis by blast
  next
    case False
    then have w: "wg4 = wg3" by (simp add: wg4_def)
    have i3: "(i, pub) \<in> set (peer_keys wg3)" using i f2 f3 by simp
    then have "wg_pubkey_hashtable_lookup wg3 pub \<noteq> None"
      using lookup_None_iff[OF lp, of wg3] by force
    then obtain q where q: "wg_pubkey_hashtable_lookup wg3 pub = Some q" by blast
    have "peer_id q = i"
      using distinct_keys_same_id[OF _ lookup_Some_D[OF lp q] i3] d4 w by simp
    then have "trace (snd (set_device_config e wg attrs))
             = trace wg @ [RtnlLock, MutexLock] @ evsS @ [PeerRemove i] @ []
                 @ [SetStaticIdentity k] @ evs3"
      using res t5 w q f3 f2 by simp
    moreover have "lock_free (evsS @ [] @ evs3)" using f3(3) l3 by simp
    ultimately show ?thesis by blast
  qed
qed

text \<open>
  C6. In a request that resolves its device, passes the socket step and sets a private
  key \<open>k\<close> of the exact length whose public key is \<open>pub\<close>: when
  \<^verbatim>\<open>set_device\<close> returns, the device has the identity \<open>(k, pub)\<close> and no peer
  has the public key \<open>pub\<close>; and for a peer that had it before the call, the trace of
  the call is the taking of the locks, then the removal of that peer, later the
  installation of the identity, and last the release of the locks, with no taking or
  release of the device update lock in between. Public keys are unique within the device.
\<close>

theorem set_device_private_key_removes_colliding_peer:
  assumes "get_attr_net e (WGDEVICE_A_DEV_NETNS_PID attrs) (WGDEVICE_A_DEV_NETNS_FD attrs) = Inr od"
    and "netlink_ns_capable e (case od of Some n \<Rightarrow> n | None \<Rightarrow> sock_net e)"
    and "lookup_interface e attrs (case od of Some n \<Rightarrow> n | None \<Rightarrow> sock_net e) = Inr dev"
    and ok: "fst (set_device_config e wg attrs) = 0"
    and pk: "WGDEVICE_A_PRIVATE_KEY attrs = Some k"
    and lk: "length k = NOISE_PUBLIC_KEY_LEN"
    and gp: "curve25519_generate_public e k = Some pub"
    and lp: "length pub = NOISE_PUBLIC_KEY_LEN"
    and d: "distinct (map remote_static (peer_list wg))"
    and res: "set_device e wg attrs = (ret, wg', attrs')"
  shows "has_identity wg' \<and> static_private wg' = k \<and> static_public wg' = pub
     \<and> (\<forall>p \<in> set (peer_list wg'). remote_static p \<noteq> pub)
     \<and> (\<forall>p \<in> set (peer_list wg). remote_static p = pub \<longrightarrow>
          (\<exists>evs1 evs2 evs3.
             trace wg' = trace wg @ [RtnlLock, MutexLock] @ evs1 @ [PeerRemove (peer_id p)] @ evs2
                           @ [SetStaticIdentity k] @ evs3 @ [MutexUnlock, RtnlUnlock]
             \<and> lock_free (evs1 @ evs2 @ evs3)))"
proof -
  define wg1 where "wg1 = snd (set_device_config e wg attrs)"
  have cfg: "set_device_config e wg attrs = (0, wg1)"
    using ok by (simp add: wg1_def prod_eq_iff)
  have d': "distinct (map snd (peer_keys wg))"
    using d by (simp add: peer_keys_def comp_def)
  note ck = set_device_config_key[OF pk lk gp lp ok d', folded wg1_def]
  define wg2 where "wg2 = (case WGDEVICE_A_PEERS attrs of
                             None \<Rightarrow> wg1 | Some blocks \<Rightarrow> fst (snd (set_peers e wg1 blocks)))"
  have w': "wg' = set_device_unlock wg2"
    using res assms(1-3) cfg
    by (auto simp: set_device_def wg2_def split: option.splits prod.splits)
  have "identity_inv k pub wg2 \<and> (\<exists>evs. trace wg2 = trace wg1 @ evs \<and> lock_free evs)"
  proof (cases "WGDEVICE_A_PEERS attrs")
    case None
    then show ?thesis using ck(1) by (simp add: wg2_def)
  next
    case (Some blocks)
    then show ?thesis using set_peers_inv[OF lp ck(1), of e blocks] by (simp add: wg2_def)
  qed
  then obtain evs4 where i2: "identity_inv k pub wg2" and t2: "trace wg2 = trace wg1 @ evs4"
    and l4: "lock_free evs4" by blast
  have i': "identity_of wg' = (True, k, pub)" "peer_keys wg' = peer_keys wg2"
    "trace wg' = trace wg2 @ [MutexUnlock, RtnlUnlock]"
    using i2 by (simp_all add: w' set_device_unlock_def identity_inv_def)
  have a: "has_identity wg' \<and> static_private wg' = k \<and> static_public wg' = pub"
    using i'(1) by (simp add: identity_of_def)
  have b: "\<forall>p \<in> set (peer_list wg'). remote_static p \<noteq> pub"
  proof
    fix p assume "p \<in> set (peer_list wg')"
    then have "(peer_id p, remote_static p) \<in> set (peer_keys wg')"
      by (auto simp: peer_keys_def)
    then have "(peer_id p, remote_static p) \<in> set (peer_keys wg2)"
      using i'(2) by simp
    then show "remote_static p \<noteq> pub"
      using i2 by (force simp: identity_inv_def)
  qed
  have c: "\<forall>p \<in> set (peer_list wg). remote_static p = pub \<longrightarrow>
          (\<exists>evs1 evs2 evs3.
             trace wg' = trace wg @ [RtnlLock, MutexLock] @ evs1 @ [PeerRemove (peer_id p)] @ evs2
                           @ [SetStaticIdentity k] @ evs3 @ [MutexUnlock, RtnlUnlock]
             \<and> lock_free (evs1 @ evs2 @ evs3))"
  proof (intro ballI impI)
    fix p assume p: "p \<in> set (peer_list wg)" "remote_static p = pub"
    then have "(peer_id p, pub) \<in> set (peer_keys wg)" by (force simp: peer_keys_def)
    from ck(2)[OF this] obtain evs1 evs2 evs3 where
      t1: "trace wg1 = trace wg @ [RtnlLock, MutexLock] @ evs1 @ [PeerRemove (peer_id p)] @ evs2
                 @ [SetStaticIdentity k] @ evs3" and l: "lock_free (evs1 @ evs2 @ evs3)" by blast
    have "trace wg' = trace wg @ [RtnlLock, MutexLock] @ evs1 @ [PeerRemove (peer_id p)] @ evs2
                           @ [SetStaticIdentity k] @ (evs3 @ evs4) @ [MutexUnlock, RtnlUnlock]"
      using t1 t2 i'(3) by simp
    moreover have "lock_free (evs1 @ evs2 @ (evs3 @ evs4))" using l l4 by simp
    ultimately show "\<exists>evs1 evs2 evs3.
             trace wg' = trace wg @ [RtnlLock, MutexLock] @ evs1 @ [PeerRemove (peer_id p)] @ evs2
                           @ [SetStaticIdentity k] @ evs3 @ [MutexUnlock, RtnlUnlock]
             \<and> lock_free (evs1 @ evs2 @ evs3)" by blast
  qed
  show ?thesis using a b c by blast
qed

theorem set_device_private_key_removes_colliding_peer_witness:
  "has_identity (fst (snd (set_device test_env (test_device [test_peer 1 5, test_peer 2 2] []) private_key_request)))
   \<and> static_public (fst (snd (set_device test_env (test_device [test_peer 1 5, test_peer 2 2] []) private_key_request)))
       = test_key 2
   \<and> map peer_id (peer_list (fst (snd (set_device test_env (test_device [test_peer 1 5, test_peer 2 2] []) private_key_request))))
       = [1]
   \<and> trace (fst (snd (set_device test_env (test_device [test_peer 1 5, test_peer 2 2] []) private_key_request)))
       = [RtnlLock, MutexLock, PeerRemove 2, SetStaticIdentity (test_key 1), CookiePrecompute,
          MutexUnlock, RtnlUnlock]"
proof -
  define wg where "wg = test_device [test_peer 1 5, test_peer 2 2] []"
  define r where "r = set_device test_env wg private_key_request"
  have h1: "get_attr_net test_env (WGDEVICE_A_DEV_NETNS_PID private_key_request)
              (WGDEVICE_A_DEV_NETNS_FD private_key_request) = Inr None"
    by code_simp
  have h2: "netlink_ns_capable test_env (case None of Some n \<Rightarrow> n | None \<Rightarrow> sock_net test_env)"
    by code_simp
  have h3: "lookup_interface test_env private_key_request
              (case None of Some n \<Rightarrow> n | None \<Rightarrow> sock_net test_env) = Inr test_netdev"
    by code_simp
  have h4: "fst (set_device_config test_env wg private_key_request) = 0"
    unfolding wg_def by code_simp
  have h5: "WGDEVICE_A_PRIVATE_KEY private_key_request = Some (test_key 1)"
    by (simp add: private_key_request_def)
  have h6: "length (test_key 1) = NOISE_PUBLIC_KEY_LEN" by (simp add: test_key_def)
  have h7: "curve25519_generate_public test_env (test_key 1) = Some (test_key 2)"
    by (simp add: test_env_def test_key_def)
  have h8: "length (test_key 2) = NOISE_PUBLIC_KEY_LEN" by (simp add: test_key_def)
  have h9: "distinct (map remote_static (peer_list wg))"
    unfolding wg_def by code_simp
  have h10: "set_device test_env wg private_key_request = (fst r, fst (snd r), snd (snd r))"
    by (simp add: r_def)
  note th = set_device_private_key_removes_colliding_peer[OF h1 h2 h3 h4 h5 h6 h7 h8 h9 h10]
  have a: "has_identity (fst (snd r))" "static_public (fst (snd r)) = test_key 2"
    using th by simp_all
  have b: "map peer_id (peer_list (fst (snd r))) = [1]"
    unfolding r_def wg_def by code_simp
  have c: "trace (fst (snd r)) = [RtnlLock, MutexLock, PeerRemove 2, SetStaticIdentity (test_key 1),
             CookiePrecompute, MutexUnlock, RtnlUnlock]"
    unfolding r_def wg_def by code_simp
  show ?thesis using a b c unfolding r_def wg_def by simp
qed

subsection \<open>What a dump writes\<close>

text \<open>A dump that starts has no cursor peer and a fresh prefix cursor.\<close>

lemma get_device_start_cb:
  "get_device_start e attrs = (ret, Some cb) \<Longrightarrow> ret = 0 \<and> cb = dump_start_cb"
  by (auto simp: get_device_start_def nlmsg_parse_device_def Let_def
           split: if_splits sum.splits)

lemma attrs_of_simps [simp]:
  "attrs_of [] = []"
  "attrs_of (Attr ty l v # its) = ty # attrs_of its"
  "attrs_of (NestStart ty # its) = attrs_of its"
  "attrs_of (NestEnd # its) = attrs_of its"
  "attrs_of (MsgHdr b # its) = attrs_of its"
  "attrs_of (xs @ ys) = attrs_of xs @ attrs_of ys"
  by (simp_all add: attrs_of_def List.map_filter_def)

lemma skb_put_Some:
  "skb_put skb n it = Some skb' \<Longrightarrow>
     skb_items skb' = skb_items skb @ [it] \<and> skb_tailroom skb' = skb_tailroom skb - n
     \<and> n \<le> skb_tailroom skb \<and> skb_len skb' = skb_len skb + n"
  by (auto simp: skb_put_def split: if_splits)

lemma nla_put_Some:
  "nla_put skb ty l v = Some skb' \<Longrightarrow> skb_items skb' = skb_items skb @ [Attr ty l v]"
  by (auto simp: nla_put_def dest: skb_put_Some)

lemma nla_nest_start_Some:
  "nla_nest_start skb ty = Some skb' \<Longrightarrow> skb_items skb' = skb_items skb @ [NestStart ty]"
  by (auto simp: nla_nest_start_def dest: skb_put_Some)

lemma nla_nest_end_items [simp]: "skb_items (nla_nest_end skb) = skb_items skb @ [NestEnd]"
  by (simp add: nla_nest_end_def)

lemma bind_eq_Some_D:
  "Option.bind x f = Some y \<Longrightarrow> \<exists>z. x = Some z \<and> f z = Some y"
  by (cases x) auto

lemma get_allowedips_items:
  assumes "get_allowedips (skb, i) ip cidr family = (r, (skb', i'))"
  shows "\<exists>added. skb_items skb' = skb_items skb @ added
           \<and> set (attrs_of added) \<subseteq> {T_WGALLOWEDIP_A_CIDR_MASK, T_WGALLOWEDIP_A_FAMILY, T_WGALLOWEDIP_A_IPADDR}"
proof (cases "nla_nest_start skb (T_Index i)")
  case None
  then show ?thesis using assms by (simp add: get_allowedips_def)
next
  case (Some skb1)
  note s1 = nla_nest_start_Some[OF Some]
  show ?thesis
  proof (cases "Option.bind (nla_put skb1 T_WGALLOWEDIP_A_CIDR_MASK 1 (U8 cidr))
                       (\<lambda>skb2. Option.bind (nla_put skb2 T_WGALLOWEDIP_A_FAMILY 2 (U16 family))
                       (\<lambda>skb3. nla_put skb3 T_WGALLOWEDIP_A_IPADDR
                                  (if family = AF_INET6 then sizeof_in6_addr else sizeof_in_addr)
                                  (Blob ip)))")
    case None
    then show ?thesis using assms Some by (simp add: get_allowedips_def)
  next
    case (Some skb4)
    from bind_eq_Some_D[OF Some] obtain skb2 where
      p2: "nla_put skb1 T_WGALLOWEDIP_A_CIDR_MASK 1 (U8 cidr) = Some skb2"
      and r2: "Option.bind (nla_put skb2 T_WGALLOWEDIP_A_FAMILY 2 (U16 family))
                       (\<lambda>skb3. nla_put skb3 T_WGALLOWEDIP_A_IPADDR
                                  (if family = AF_INET6 then sizeof_in6_addr else sizeof_in_addr)
                                  (Blob ip)) = Some skb4" by blast
    from bind_eq_Some_D[OF r2] obtain skb3 where
      p3: "nla_put skb2 T_WGALLOWEDIP_A_FAMILY 2 (U16 family) = Some skb3"
      and p4: "nla_put skb3 T_WGALLOWEDIP_A_IPADDR
                                  (if family = AF_INET6 then sizeof_in6_addr else sizeof_in_addr)
                                  (Blob ip) = Some skb4" by blast
    have "skb' = nla_nest_end skb4"
      using assms \<open>nla_nest_start skb (T_Index i) = Some skb1\<close> Some by (simp add: get_allowedips_def)
    then have "skb_items skb' = skb_items skb @
       [NestStart (T_Index i), Attr T_WGALLOWEDIP_A_CIDR_MASK 1 (U8 cidr),
        Attr T_WGALLOWEDIP_A_FAMILY 2 (U16 family),
        Attr T_WGALLOWEDIP_A_IPADDR (if family = AF_INET6 then sizeof_in6_addr else sizeof_in_addr) (Blob ip),
        NestEnd]"
      using s1 nla_put_Some[OF p2] nla_put_Some[OF p3] nla_put_Some[OF p4] by simp
    then show ?thesis by (intro exI conjI, assumption) simp
  qed
qed

lemma walk_entries_items:
  "walk_entries as pos (skb, i) = (r, pos', (skb', i')) \<Longrightarrow>
   \<exists>added. skb_items skb' = skb_items skb @ added
           \<and> set (attrs_of added) \<subseteq> {T_WGALLOWEDIP_A_CIDR_MASK, T_WGALLOWEDIP_A_FAMILY, T_WGALLOWEDIP_A_IPADDR}"
proof (induction as arbitrary: pos skb i)
  case Nil
  then show ?case by simp
next
  case (Cons a as)
  obtain r1 skb1 i1 where g: "get_allowedips (skb, i) (aip_addr a) (aip_cidr a) (aip_family a) = (r1, (skb1, i1))"
    by (metis surj_pair)
  from get_allowedips_items[OF g] obtain added1 where
    a1: "skb_items skb1 = skb_items skb @ added1"
    "set (attrs_of added1) \<subseteq> {T_WGALLOWEDIP_A_CIDR_MASK, T_WGALLOWEDIP_A_FAMILY, T_WGALLOWEDIP_A_IPADDR}"
    by blast
  show ?case
  proof (cases "r1 \<noteq> 0")
    case True
    then have "skb' = skb1" using Cons.prems g by simp
    then show ?thesis using a1 by blast
  next
    case False
    then have "walk_entries as (Suc pos) (skb1, i1) = (r, pos', (skb', i'))"
      using Cons.prems g by simp
    from Cons.IH[OF this] obtain added2 where
      a2: "skb_items skb' = skb_items skb1 @ added2"
      "set (attrs_of added2) \<subseteq> {T_WGALLOWEDIP_A_CIDR_MASK, T_WGALLOWEDIP_A_FAMILY, T_WGALLOWEDIP_A_IPADDR}"
      by blast
    have "skb_items skb' = skb_items skb @ (added1 @ added2)" using a1 a2 by simp
    moreover have "set (attrs_of (added1 @ added2))
       \<subseteq> {T_WGALLOWEDIP_A_CIDR_MASK, T_WGALLOWEDIP_A_FAMILY, T_WGALLOWEDIP_A_IPADDR}"
      using a1 a2 by simp
    ultimately show ?thesis by blast
  qed
qed

lemma walk_by_peer_items:
  assumes "wg_allowedips_walk_by_peer wg cursor pid (skb, i) = (r, cursor', (skb', i'))"
  shows "\<exists>added. skb_items skb' = skb_items skb @ added
           \<and> set (attrs_of added) \<subseteq> {T_WGALLOWEDIP_A_CIDR_MASK, T_WGALLOWEDIP_A_FAMILY, T_WGALLOWEDIP_A_IPADDR}"
proof -
  from assms obtain as pos pos' where "walk_entries as pos (skb, i) = (r, pos', (skb', i'))"
    by (auto simp: wg_allowedips_walk_by_peer_def Let_def split: prod.splits)
  then show ?thesis by (rule walk_entries_items)
qed

lemma get_peer_fields_items:
  assumes "get_peer_fields peer skb = Some skb'"
  shows "\<exists>added. skb_items skb' = skb_items skb @ added \<and> attrs_of added = peer_field_ids peer"
proof -
  from assms obtain s1 s2 s3 s4 s5 s6 where
    p: "nla_put skb T_WGPEER_A_PRESHARED_KEY NOISE_SYMMETRIC_KEY_LEN (Blob (preshared_key peer)) = Some s1"
       "nla_put s1 T_WGPEER_A_LAST_HANDSHAKE_TIME sizeof_timespec (Timespec (walltime_last_handshake peer)) = Some s2"
       "nla_put s2 T_WGPEER_A_PERSISTENT_KEEPALIVE_INTERVAL 2 (U16 (persistent_keepalive_interval peer)) = Some s3"
       "nla_put s3 T_WGPEER_A_TX_BYTES 8 (U64 (tx_bytes peer)) = Some s4"
       "nla_put s4 T_WGPEER_A_RX_BYTES 8 (U64 (rx_bytes peer)) = Some s5"
       "nla_put s5 T_WGPEER_A_PROTOCOL_VERSION 4 (U32 1) = Some s6"
    and e: "(if sa_family (peer_endpoint peer) = AF_INET
          then nla_put s6 T_WGPEER_A_ENDPOINT sizeof_sockaddr_in (Addr (peer_endpoint peer))
        else if sa_family (peer_endpoint peer) = AF_INET6
          then nla_put s6 T_WGPEER_A_ENDPOINT sizeof_sockaddr_in6 (Addr (peer_endpoint peer))
        else Some s6) = Some skb'"
    unfolding get_peer_fields_def by (auto dest!: bind_eq_Some_D)
  have i6: "skb_items s6 = skb_items skb @
     [Attr T_WGPEER_A_PRESHARED_KEY NOISE_SYMMETRIC_KEY_LEN (Blob (preshared_key peer)),
      Attr T_WGPEER_A_LAST_HANDSHAKE_TIME sizeof_timespec (Timespec (walltime_last_handshake peer)),
      Attr T_WGPEER_A_PERSISTENT_KEEPALIVE_INTERVAL 2 (U16 (persistent_keepalive_interval peer)),
      Attr T_WGPEER_A_TX_BYTES 8 (U64 (tx_bytes peer)),
      Attr T_WGPEER_A_RX_BYTES 8 (U64 (rx_bytes peer)),
      Attr T_WGPEER_A_PROTOCOL_VERSION 4 (U32 1)]"
    using p[THEN nla_put_Some] by simp
  consider (v4) "sa_family (peer_endpoint peer) = AF_INET"
    | (v6) "sa_family (peer_endpoint peer) \<noteq> AF_INET" "sa_family (peer_endpoint peer) = AF_INET6"
    | (none) "sa_family (peer_endpoint peer) \<noteq> AF_INET" "sa_family (peer_endpoint peer) \<noteq> AF_INET6"
    by blast
  then show ?thesis
  proof cases
    case v4
    then have "skb_items skb' = skb_items s6 @ [Attr T_WGPEER_A_ENDPOINT sizeof_sockaddr_in (Addr (peer_endpoint peer))]"
      using e by (simp add: nla_put_Some)
    then show ?thesis unfolding i6 using v4 by (intro exI conjI, simp) (simp add: peer_field_ids_def)
  next
    case v6
    then have "skb_items skb' = skb_items s6 @ [Attr T_WGPEER_A_ENDPOINT sizeof_sockaddr_in6 (Addr (peer_endpoint peer))]"
      using e by (simp add: nla_put_Some)
    then show ?thesis unfolding i6 using v6 by (intro exI conjI, simp) (simp add: peer_field_ids_def)
  next
    case none
    then have "skb' = s6" using e by simp
    then show ?thesis unfolding i6 using none i6 by (intro exI conjI, simp) (simp add: peer_field_ids_def)
  qed
qed

lemma is_device_attr_peer_field_ids: "t \<in> set (peer_field_ids peer) \<Longrightarrow> \<not> is_device_attr t"
  by (auto simp: peer_field_ids_def split: if_splits)

lemma emitted_append:
  "skb_items skb' = skb_items skb @ added \<Longrightarrow> emitted skb skb' = attrs_of added"
  by (simp add: emitted_def)

lemma get_peer_items:
  assumes "get_peer wg peer index rt_cursor skb = (r, cur', skb')"
  shows "skb' = skb
       \<or> (\<exists>F W. skb_items skb' = skb_items skb
                    @ [NestStart (T_Index index),
                       Attr T_WGPEER_A_PUBLIC_KEY NOISE_PUBLIC_KEY_LEN (Blob (remote_static peer))]
                    @ F @ [NestStart T_WGPEER_A_ALLOWEDIPS] @ W @ [NestEnd, NestEnd]
                \<and> attrs_of F = (if cursor_seq rt_cursor = 0 then peer_field_ids peer else [])
                \<and> set (attrs_of W) \<subseteq> {T_WGALLOWEDIP_A_CIDR_MASK, T_WGALLOWEDIP_A_FAMILY,
                                        T_WGALLOWEDIP_A_IPADDR})"
proof (cases "nla_nest_start skb (T_Index index)")
  case None
  then show ?thesis using assms by (simp add: get_peer_def)
next
  case (Some skb1)
  note s1 = nla_nest_start_Some[OF Some]
  show ?thesis
  proof (cases "Option.bind (nla_put skb1 T_WGPEER_A_PUBLIC_KEY NOISE_PUBLIC_KEY_LEN
                               (Blob (remote_static peer)))
                  (\<lambda>skb2. Option.bind (if cursor_seq rt_cursor = 0
                                          then get_peer_fields peer skb2 else Some skb2)
                  (\<lambda>skb3. nla_nest_start skb3 T_WGPEER_A_ALLOWEDIPS))")
    case None
    then show ?thesis using assms Some by (simp add: get_peer_def)
  next
    case s4: (Some skb4)
    from bind_eq_Some_D[OF s4] obtain skb2 where
      p2: "nla_put skb1 T_WGPEER_A_PUBLIC_KEY NOISE_PUBLIC_KEY_LEN (Blob (remote_static peer)) = Some skb2"
      and r2: "Option.bind (if cursor_seq rt_cursor = 0
                                          then get_peer_fields peer skb2 else Some skb2)
                  (\<lambda>skb3. nla_nest_start skb3 T_WGPEER_A_ALLOWEDIPS) = Some skb4" by blast
    from bind_eq_Some_D[OF r2] obtain skb3 where
      p3: "(if cursor_seq rt_cursor = 0 then get_peer_fields peer skb2 else Some skb2) = Some skb3"
      and p4: "nla_nest_start skb3 T_WGPEER_A_ALLOWEDIPS = Some skb4" by blast
    have "\<exists>F. skb_items skb3 = skb_items skb2 @ F
            \<and> attrs_of F = (if cursor_seq rt_cursor = 0 then peer_field_ids peer else [])"
    proof (cases "cursor_seq rt_cursor = 0")
      case True
      then show ?thesis using p3 get_peer_fields_items[of peer skb2 skb3] by simp
    next
      case False
      then show ?thesis using p3 by simp
    qed
    then obtain F where F: "skb_items skb3 = skb_items skb2 @ F"
      "attrs_of F = (if cursor_seq rt_cursor = 0 then peer_field_ids peer else [])" by blast
    obtain rw cw skb5 i5 where w: "wg_allowedips_walk_by_peer wg rt_cursor (peer_id peer) (skb4, 0) = (rw, cw, (skb5, i5))"
      by (metis surj_pair)
    from walk_by_peer_items[OF w] obtain W where W: "skb_items skb5 = skb_items skb4 @ W"
      "set (attrs_of W) \<subseteq> {T_WGALLOWEDIP_A_CIDR_MASK, T_WGALLOWEDIP_A_FAMILY, T_WGALLOWEDIP_A_IPADDR}"
      by blast
    have "skb' = nla_nest_end (nla_nest_end skb5)"
      using assms Some s4 w by (simp add: get_peer_def split: if_splits)
    then have "skb_items skb' = skb_items skb
                    @ [NestStart (T_Index index),
                       Attr T_WGPEER_A_PUBLIC_KEY NOISE_PUBLIC_KEY_LEN (Blob (remote_static peer))]
                    @ F @ [NestStart T_WGPEER_A_ALLOWEDIPS] @ W @ [NestEnd, NestEnd]"
      using s1 nla_put_Some[OF p2] F(1) nla_nest_start_Some[OF p4] W(1) by simp
    then show ?thesis using F(2) W(2) by blast
  qed
qed

lemma get_peer_emitted:
  assumes "get_peer wg peer index rt_cursor skb = (r, cur', skb')" and "skb' \<noteq> skb"
  shows "\<exists>W. emitted skb skb' = T_WGPEER_A_PUBLIC_KEY
                 # (if cursor_seq rt_cursor = 0 then peer_field_ids peer else []) @ W
             \<and> set W \<subseteq> {T_WGALLOWEDIP_A_CIDR_MASK, T_WGALLOWEDIP_A_FAMILY, T_WGALLOWEDIP_A_IPADDR}"
proof -
  from get_peer_items[OF assms(1)] assms(2) obtain F W where
    i: "skb_items skb' = skb_items skb
                    @ ([NestStart (T_Index index),
                       Attr T_WGPEER_A_PUBLIC_KEY NOISE_PUBLIC_KEY_LEN (Blob (remote_static peer))]
                    @ F @ [NestStart T_WGPEER_A_ALLOWEDIPS] @ W @ [NestEnd, NestEnd])"
    and F: "attrs_of F = (if cursor_seq rt_cursor = 0 then peer_field_ids peer else [])"
    and W: "set (attrs_of W) \<subseteq> {T_WGALLOWEDIP_A_CIDR_MASK, T_WGALLOWEDIP_A_FAMILY, T_WGALLOWEDIP_A_IPADDR}"
    by auto
  have "emitted skb skb' = T_WGPEER_A_PUBLIC_KEY
                 # (if cursor_seq rt_cursor = 0 then peer_field_ids peer else []) @ attrs_of W"
    unfolding emitted_append[OF i] using F by simp
  then show ?thesis using W by blast
qed


text \<open>
  C2, as the code has it. Whenever \<^verbatim>\<open>get_peer\<close> leaves a peer in the message, the
  public key is written, and each of the preshared key, the last-handshake time, the
  keepalive interval, the two byte counters and the protocol version is written if and
  only if the prefix cursor is fresh on entry (its \<^verbatim>\<open>seq\<close> is 0), that is, the peer
  is serialized from its beginning and not resumed in the middle of its prefix list; the
  endpoint is written if and only if, in addition, its family is \<^verbatim>\<open>AF_INET\<close> or
  \<^verbatim>\<open>AF_INET6\<close>. Which message of the dump is being built plays no part.
\<close>

theorem get_peer_fields_iff_fresh_cursor:
  assumes "get_peer wg peer index rt_cursor skb = (r, cur', skb')" and "skb' \<noteq> skb"
  shows "T_WGPEER_A_PUBLIC_KEY \<in> set (emitted skb skb')
     \<and> (T_WGPEER_A_PRESHARED_KEY \<in> set (emitted skb skb')) = (cursor_seq rt_cursor = 0)
     \<and> (T_WGPEER_A_LAST_HANDSHAKE_TIME \<in> set (emitted skb skb')) = (cursor_seq rt_cursor = 0)
     \<and> (T_WGPEER_A_PERSISTENT_KEEPALIVE_INTERVAL \<in> set (emitted skb skb')) = (cursor_seq rt_cursor = 0)
     \<and> (T_WGPEER_A_TX_BYTES \<in> set (emitted skb skb')) = (cursor_seq rt_cursor = 0)
     \<and> (T_WGPEER_A_RX_BYTES \<in> set (emitted skb skb')) = (cursor_seq rt_cursor = 0)
     \<and> (T_WGPEER_A_PROTOCOL_VERSION \<in> set (emitted skb skb')) = (cursor_seq rt_cursor = 0)
     \<and> (T_WGPEER_A_ENDPOINT \<in> set (emitted skb skb'))
         = (cursor_seq rt_cursor = 0
            \<and> (sa_family (peer_endpoint peer) = AF_INET \<or> sa_family (peer_endpoint peer) = AF_INET6))"
proof -
  from get_peer_emitted[OF assms] obtain W where
    e: "emitted skb skb' = T_WGPEER_A_PUBLIC_KEY
                 # (if cursor_seq rt_cursor = 0 then peer_field_ids peer else []) @ W"
    and W: "set W \<subseteq> {T_WGALLOWEDIP_A_CIDR_MASK, T_WGALLOWEDIP_A_FAMILY, T_WGALLOWEDIP_A_IPADDR}"
    by blast
  show ?thesis
    unfolding e using W by (auto simp: peer_field_ids_def)
qed

theorem get_peer_fields_iff_fresh_cursor_witness:
  "T_WGPEER_A_PRESHARED_KEY
     \<in> set (emitted (alloc_skb 200)
              (snd (snd (get_peer (test_device [test_peer 1 5] [test_allowedip 1 0]) (test_peer 1 5) 0
                           zero_cursor (alloc_skb 200)))))
   \<and> T_WGPEER_A_PRESHARED_KEY
     \<notin> set (emitted (alloc_skb 200)
              (snd (snd (get_peer (test_device [test_peer 1 5] [test_allowedip 1 0]) (test_peer 1 5) 0
                           \<lparr>cursor_seq = 1, cursor_pos = 0\<rparr> (alloc_skb 200)))))
   \<and> T_WGPEER_A_PUBLIC_KEY
     \<in> set (emitted (alloc_skb 200)
              (snd (snd (get_peer (test_device [test_peer 1 5] [test_allowedip 1 0]) (test_peer 1 5) 0
                           \<lparr>cursor_seq = 1, cursor_pos = 0\<rparr> (alloc_skb 200)))))"
proof -
  define wg where "wg = test_device [test_peer 1 5] [test_allowedip 1 0]"
  define a where "a = get_peer wg (test_peer 1 5) 0 zero_cursor (alloc_skb 200)"
  define b where "b = get_peer wg (test_peer 1 5) 0 \<lparr>cursor_seq = 1, cursor_pos = 0\<rparr> (alloc_skb 200)"
  have a1: "get_peer wg (test_peer 1 5) 0 zero_cursor (alloc_skb 200) = (fst a, fst (snd a), snd (snd a))"
    by (simp add: a_def)
  have a2: "snd (snd a) \<noteq> alloc_skb 200"
    unfolding a_def wg_def by code_simp
  have b1: "get_peer wg (test_peer 1 5) 0 \<lparr>cursor_seq = 1, cursor_pos = 0\<rparr> (alloc_skb 200)
             = (fst b, fst (snd b), snd (snd b))"
    by (simp add: b_def)
  have b2: "snd (snd b) \<noteq> alloc_skb 200"
    unfolding b_def wg_def by code_simp
  have za: "cursor_seq zero_cursor = 0" by (simp add: zero_cursor_def)
  have zb: "cursor_seq \<lparr>cursor_seq = 1, cursor_pos = 0\<rparr> \<noteq> 0" by simp
  show ?thesis
    using get_peer_fields_iff_fresh_cursor[OF a1 a2] get_peer_fields_iff_fresh_cursor[OF b1 b2] za zb
    unfolding a_def b_def wg_def by blast
qed

text \<open>
  The claim C2 as stated fails. A device with 27 peers is dumped into buffers of 3776
  bytes (a page of 4096 bytes less the socket buffer's overhead, the least that netlink
  allocates for a dump): the first message holds the device fields and 26 peers and asks
  for another call; the second message, which is not the first of the dump, carries the
  last peer with its preshared key and every other field.
\<close>

theorem later_message_carries_peer_fields:
  "case dump_two_messages test_env (test_device (many_peers 27) []) 3776 of
     (r1, m1, r2, m2) \<Rightarrow>
       r1 = 3696 \<and> r2 = 0
       \<and> emitted (alloc_skb 3776) m2
           = [T_WGPEER_A_PUBLIC_KEY, T_WGPEER_A_PRESHARED_KEY, T_WGPEER_A_LAST_HANDSHAKE_TIME,
              T_WGPEER_A_PERSISTENT_KEEPALIVE_INTERVAL, T_WGPEER_A_TX_BYTES, T_WGPEER_A_RX_BYTES,
              T_WGPEER_A_PROTOCOL_VERSION]
       \<and> Attr T_WGPEER_A_PRESHARED_KEY 32 (Blob (replicate 32 91)) \<in> set (skb_items m2)"
  by code_simp

text \<open>The same in miniature: two peers and buffers of 200 bytes.\<close>

lemma two_peers_in_small_buffers:
  "case dump_two_messages test_env (test_device [test_peer 1 5, test_peer 2 6] []) 200 of
     (r1, m1, r2, m2) \<Rightarrow>
       r1 = 196 \<and> r2 = 0
       \<and> emitted (alloc_skb 200) m2
           = [T_WGPEER_A_PUBLIC_KEY, T_WGPEER_A_PRESHARED_KEY, T_WGPEER_A_LAST_HANDSHAKE_TIME,
              T_WGPEER_A_PERSISTENT_KEEPALIVE_INTERVAL, T_WGPEER_A_TX_BYTES, T_WGPEER_A_RX_BYTES,
              T_WGPEER_A_PROTOCOL_VERSION]
       \<and> Attr T_WGPEER_A_PRESHARED_KEY 32 (Blob (replicate 32 70)) \<in> set (skb_items m2)"
  by code_simp

subsection \<open>Device-level fields of a dump\<close>

lemma get_device_fields_items:
  assumes "get_device_fields e wg skb = Some skb'"
  shows "\<exists>added. skb_items skb' = skb_items skb @ added \<and> attrs_of added = device_field_ids e wg
            \<and> list_all device_item added"
proof -
  from assms obtain s1 s2 s3 s4 where
    p1: "(if test_socket_net_capable e (transit_net wg) = 0
                    then nla_put skb T_WGDEVICE_A_LISTEN_PORT 2 (U16 (incoming_port wg))
                  else Some skb) = Some s1"
    and p: "nla_put s1 T_WGDEVICE_A_FWMARK 4 (U32 (fwmark wg)) = Some s2"
       "nla_put s2 T_WGDEVICE_A_IFINDEX 4 (U32 (dev_ifindex wg)) = Some s3"
       "nla_put s3 T_WGDEVICE_A_IFNAME (length (dev_name wg) + 1) (Str (dev_name wg)) = Some s4"
    and p5: "(if has_identity wg
          then Option.bind (nla_put s4 T_WGDEVICE_A_PRIVATE_KEY NOISE_PUBLIC_KEY_LEN
                              (Blob (static_private wg)))
                 (\<lambda>skb5. nla_put skb5 T_WGDEVICE_A_PUBLIC_KEY NOISE_PUBLIC_KEY_LEN
                            (Blob (static_public wg)))
        else Some s4) = Some skb'"
    unfolding get_device_fields_def by (auto dest!: bind_eq_Some_D)
  have i1: "\<exists>A. skb_items s1 = skb_items skb @ A
     \<and> attrs_of A = (if test_socket_net_capable e (transit_net wg) = 0 then [T_WGDEVICE_A_LISTEN_PORT] else [])
     \<and> list_all device_item A"
    using p1 by (auto split: if_splits dest!: nla_put_Some)
  have i5: "\<exists>B. skb_items skb' = skb_items s4 @ B
     \<and> attrs_of B = (if has_identity wg then [T_WGDEVICE_A_PRIVATE_KEY, T_WGDEVICE_A_PUBLIC_KEY] else [])
     \<and> list_all device_item B"
  proof (cases "has_identity wg")
    case True
    then obtain s5 where "nla_put s4 T_WGDEVICE_A_PRIVATE_KEY NOISE_PUBLIC_KEY_LEN (Blob (static_private wg)) = Some s5"
      "nla_put s5 T_WGDEVICE_A_PUBLIC_KEY NOISE_PUBLIC_KEY_LEN (Blob (static_public wg)) = Some skb'"
      using p5 by (auto dest!: bind_eq_Some_D)
    from this[THEN nla_put_Some] show ?thesis using True by simp
  next
    case False
    then show ?thesis using p5 by simp
  qed
  from i1 i5 obtain A B where
    A: "skb_items s1 = skb_items skb @ A"
       "attrs_of A = (if test_socket_net_capable e (transit_net wg) = 0 then [T_WGDEVICE_A_LISTEN_PORT] else [])"
       "list_all device_item A"
    and B: "skb_items skb' = skb_items s4 @ B"
       "attrs_of B = (if has_identity wg then [T_WGDEVICE_A_PRIVATE_KEY, T_WGDEVICE_A_PUBLIC_KEY] else [])"
       "list_all device_item B"
    by blast
  have "skb_items skb' = skb_items skb @ (A @ [Attr T_WGDEVICE_A_FWMARK 4 (U32 (fwmark wg)),
           Attr T_WGDEVICE_A_IFINDEX 4 (U32 (dev_ifindex wg)),
           Attr T_WGDEVICE_A_IFNAME (length (dev_name wg) + 1) (Str (dev_name wg))] @ B)"
    using A(1) B(1) p[THEN nla_put_Some] by simp
  moreover have "attrs_of (A @ [Attr T_WGDEVICE_A_FWMARK 4 (U32 (fwmark wg)),
           Attr T_WGDEVICE_A_IFINDEX 4 (U32 (dev_ifindex wg)),
           Attr T_WGDEVICE_A_IFNAME (length (dev_name wg) + 1) (Str (dev_name wg))] @ B)
         = device_field_ids e wg"
    using A(2) B(2) by (simp add: device_field_ids_def)
  moreover have "list_all device_item (A @ [Attr T_WGDEVICE_A_FWMARK 4 (U32 (fwmark wg)),
           Attr T_WGDEVICE_A_IFINDEX 4 (U32 (dev_ifindex wg)),
           Attr T_WGDEVICE_A_IFNAME (length (dev_name wg) + 1) (Str (dev_name wg))] @ B)"
    using A(3) B(3) by simp
  ultimately show ?thesis by blast
qed

lemma get_peer_no_device_attrs:
  assumes "get_peer wg peer index rt_cursor skb = (r, cur', skb')"
  shows "\<exists>added. skb_items skb' = skb_items skb @ added \<and> (\<forall>t \<in> set (attrs_of added). \<not> is_device_attr t)"
proof (cases "skb' = skb")
  case True
  then show ?thesis by simp
next
  case False
  with get_peer_items[OF assms] obtain F W where
    i: "skb_items skb' = skb_items skb
                    @ ([NestStart (T_Index index),
                       Attr T_WGPEER_A_PUBLIC_KEY NOISE_PUBLIC_KEY_LEN (Blob (remote_static peer))]
                    @ F @ [NestStart T_WGPEER_A_ALLOWEDIPS] @ W @ [NestEnd, NestEnd])"
    and F: "attrs_of F = (if cursor_seq rt_cursor = 0 then peer_field_ids peer else [])"
    and W: "set (attrs_of W) \<subseteq> {T_WGALLOWEDIP_A_CIDR_MASK, T_WGALLOWEDIP_A_FAMILY, T_WGALLOWEDIP_A_IPADDR}"
    by auto
  have "\<forall>t \<in> set (attrs_of F). \<not> is_device_attr t"
    using F is_device_attr_peer_field_ids by (auto split: if_splits)
  moreover have "\<forall>t \<in> set (attrs_of W). \<not> is_device_attr t"
    using W by auto
  ultimately have "\<forall>t \<in> set (attrs_of ([NestStart (T_Index index),
                       Attr T_WGPEER_A_PUBLIC_KEY NOISE_PUBLIC_KEY_LEN (Blob (remote_static peer))]
                    @ F @ [NestStart T_WGPEER_A_ALLOWEDIPS] @ W @ [NestEnd, NestEnd])). \<not> is_device_attr t"
    by auto
  then show ?thesis using i by blast
qed

lemma dump_peers_no_device_attrs:
  "dump_peers wg ps idx cur skb nx = (done, nx', cur', skb') \<Longrightarrow>
   \<exists>added. skb_items skb' = skb_items skb @ added \<and> (\<forall>t \<in> set (attrs_of added). \<not> is_device_attr t)"
proof (induction ps arbitrary: idx cur skb nx)
  case Nil
  then show ?case by simp
next
  case (Cons p ps)
  obtain r cur1 skb1 where g: "get_peer wg p idx cur skb = (r, cur1, skb1)"
    by (metis surj_pair)
  from get_peer_no_device_attrs[OF g] obtain a1 where
    a1: "skb_items skb1 = skb_items skb @ a1" "\<forall>t \<in> set (attrs_of a1). \<not> is_device_attr t" by blast
  show ?case
  proof (cases "r \<noteq> 0")
    case True
    then have "skb' = skb1" using Cons.prems g by simp
    then show ?thesis using a1 by blast
  next
    case False
    then have "dump_peers wg ps (Suc idx) cur1 skb1 (Some (peer_id p)) = (done, nx', cur', skb')"
      using Cons.prems g by simp
    from Cons.IH[OF this] obtain a2 where
      a2: "skb_items skb' = skb_items skb1 @ a2" "\<forall>t \<in> set (attrs_of a2). \<not> is_device_attr t" by blast
    have "skb_items skb' = skb_items skb @ (a1 @ a2)" using a1 a2 by simp
    moreover have "\<forall>t \<in> set (attrs_of (a1 @ a2)). \<not> is_device_attr t" using a1 a2 by auto
    ultimately show ?thesis by blast
  qed
qed

lemma genlmsg_put_Some:
  "genlmsg_put skb = Some skb0 \<Longrightarrow> skb_items skb0 = skb_items skb @ [MsgHdr False]"
  by (auto simp: genlmsg_put_def dest: skb_put_Some)

lemma check_consistent_items:
  assumes "genlmsg_put skb = Some skb0"
    and "genl_dump_check_consistent cb1 skb0 (length (skb_items skb)) = (cb2, skb1)"
  shows "\<exists>b. skb_items skb1 = skb_items skb @ [MsgHdr b]"
  using assms genlmsg_put_Some[OF assms(1)]
  by (auto simp: genl_dump_check_consistent_def split: if_splits)

lemma dump_device_part_items:
  assumes "dump_device_part e wg lpc skb1 = Some (skb2, skb3)"
  shows "\<exists>D. skb_items skb2 = skb_items skb1 @ D
           \<and> attrs_of D = (if lpc = None then device_field_ids e wg else [])
           \<and> list_all device_item D
           \<and> skb_items skb3 = skb_items skb2 @ [NestStart T_WGDEVICE_A_PEERS]"
proof -
  from assms have
    f: "(if lpc = None then get_device_fields e wg skb1 else Some skb1) = Some skb2"
    and n3: "nla_nest_start skb2 T_WGDEVICE_A_PEERS = Some skb3"
    unfolding dump_device_part_def by (auto dest!: bind_eq_Some_D)
  show ?thesis
  proof (cases "lpc = None")
    case True
    then show ?thesis using f get_device_fields_items[of e wg skb1 skb2] nla_nest_start_Some[OF n3] by auto
  next
    case False
    then have "skb2 = skb1" using f by auto
    then show ?thesis using False nla_nest_start_Some[OF n3] by (intro exI[of _ "[]"]) auto
  qed
qed

lemma dump_finish_skb: "snd (snd (dump_finish cb dn nx skb)) = skb"
  by (simp add: dump_finish_def)

lemma get_device_dump_items:
  assumes d: "get_device_dump e wg cb skb = (ret, cb', skb')" and nn: "0 \<le> ret"
  shows "\<exists>b D P. skb_items skb' = skb_items skb @ [MsgHdr b] @ D @ P
           \<and> attrs_of D = (if cb_peer_cursor cb = None then device_field_ids e wg else [])
           \<and> (\<forall>t \<in> set (attrs_of P). \<not> is_device_attr t)"
proof (cases "genlmsg_put skb")
  case None
  then show ?thesis using d nn by (simp add: get_device_dump_def Let_def)
next
  case (Some skb0)
  obtain cb2 skb1 where
    cc: "genl_dump_check_consistent (cb\<lparr>cb_seq := device_update_gen wg\<rparr>) skb0 (length (skb_items skb))
           = (cb2, skb1)" by (metis surj_pair)
  from check_consistent_items[OF Some cc] obtain b where i1: "skb_items skb1 = skb_items skb @ [MsgHdr b]"
    by blast
  show ?thesis
  proof (cases "dump_device_part e wg (cb_peer_cursor cb) skb1")
    case None
    then have "ret = - EMSGSIZE"
      using d Some cc by (simp add: get_device_dump_def Let_def)
    then show ?thesis using nn by simp
  next
    case s: (Some pr)
    obtain skb2 skb3 where pr: "pr = (skb2, skb3)" by (cases pr)
    from dump_device_part_items[OF s[unfolded pr]] obtain D where
      D: "skb_items skb2 = skb_items skb1 @ D"
        "attrs_of D = (if cb_peer_cursor cb = None then device_field_ids e wg else [])"
        "skb_items skb3 = skb_items skb2 @ [NestStart T_WGDEVICE_A_PEERS]" by blast
    show ?thesis
    proof (cases "dump_no_peers wg (cb_peer_cursor cb)")
      case True
      then have "skb' = skb2"
        using d Some cc s pr dump_finish_skb[of cb2 True "cb_peer_cursor cb" skb2]
        by (simp add: get_device_dump_def Let_def)
      then have "skb_items skb' = skb_items skb @ [MsgHdr b] @ D @ []"
        using D i1 by simp
      moreover have "\<forall>t \<in> set (attrs_of []). \<not> is_device_attr t" by simp
      ultimately show ?thesis using D(2) by blast
    next
      case False
      obtain dn nx cur4 skb4 where
        dp: "dump_peers wg (peers_after wg (cb_peer_cursor cb)) 0 (cb_rt_cursor cb2) skb3 (cb_peer_cursor cb)
              = (dn, nx, cur4, skb4)"
        by (metis surj_pair)
      from dump_peers_no_device_attrs[OF dp] obtain P where
        P: "skb_items skb4 = skb_items skb3 @ P" "\<forall>t \<in> set (attrs_of P). \<not> is_device_attr t" by blast
      have "skb' = nla_nest_end skb4"
        using d Some cc s pr False dp
          dump_finish_skb[of "cb2\<lparr>cb_rt_cursor := cur4\<rparr>" dn nx "nla_nest_end skb4"]
        by (simp add: get_device_dump_def Let_def)
      then have "skb_items skb' = skb_items skb @ [MsgHdr b] @ D @ ([NestStart T_WGDEVICE_A_PEERS] @ P @ [NestEnd])"
        using P(1) D(1,3) i1 by simp
      moreover have "\<forall>t \<in> set (attrs_of ([NestStart T_WGDEVICE_A_PEERS] @ P @ [NestEnd])). \<not> is_device_attr t"
        using P(2) by simp
      ultimately show ?thesis using D(2) by blast
    qed
  qed
qed

lemma count_list_device_field_ids:
  "count_list (device_field_ids e wg) T_WGDEVICE_A_FWMARK = 1"
  "count_list (device_field_ids e wg) T_WGDEVICE_A_IFINDEX = 1"
  "count_list (device_field_ids e wg) T_WGDEVICE_A_IFNAME = 1"
  "count_list (device_field_ids e wg) T_WGDEVICE_A_LISTEN_PORT
     = (if test_socket_net_capable e (transit_net wg) = 0 then 1 else 0)"
  "count_list (device_field_ids e wg) T_WGDEVICE_A_PRIVATE_KEY = (if has_identity wg then 1 else 0)"
  "count_list (device_field_ids e wg) T_WGDEVICE_A_PUBLIC_KEY = (if has_identity wg then 1 else 0)"
  by (simp_all add: device_field_ids_def)

lemma count_list_append: "count_list (xs @ ys) x = count_list xs x + count_list ys x"
  by (induction xs) auto

text \<open>
  C7, as the code has it. In every message of a dump that is not cancelled, the firewall
  mark, the index and the name are written exactly once when the step is entered with no
  cursor peer, and not at all otherwise; likewise the listening port, only when the caller
  is capable in the transit namespace, and the private and public keys, only when the
  device has an identity. A dump starts with no cursor peer, and has none for as long as
  no peer has been completed.
\<close>

theorem get_device_dump_device_fields:
  assumes "get_device_dump e wg cb skb = (ret, cb', skb')" and "0 \<le> ret"
  shows "count_list (emitted skb skb') T_WGDEVICE_A_FWMARK = (if cb_peer_cursor cb = None then 1 else 0)
     \<and> count_list (emitted skb skb') T_WGDEVICE_A_IFINDEX = (if cb_peer_cursor cb = None then 1 else 0)
     \<and> count_list (emitted skb skb') T_WGDEVICE_A_IFNAME = (if cb_peer_cursor cb = None then 1 else 0)
     \<and> count_list (emitted skb skb') T_WGDEVICE_A_LISTEN_PORT
         = (if cb_peer_cursor cb = None \<and> test_socket_net_capable e (transit_net wg) = 0 then 1 else 0)
     \<and> count_list (emitted skb skb') T_WGDEVICE_A_PRIVATE_KEY
         = (if cb_peer_cursor cb = None \<and> has_identity wg then 1 else 0)
     \<and> count_list (emitted skb skb') T_WGDEVICE_A_PUBLIC_KEY
         = (if cb_peer_cursor cb = None \<and> has_identity wg then 1 else 0)"
proof -
  from get_device_dump_items[OF assms] obtain b D P where
    i: "skb_items skb' = skb_items skb @ ([MsgHdr b] @ D @ P)"
    and D: "attrs_of D = (if cb_peer_cursor cb = None then device_field_ids e wg else [])"
    and P: "\<forall>t \<in> set (attrs_of P). \<not> is_device_attr t" by auto
  have e: "emitted skb skb' = attrs_of D @ attrs_of P"
    unfolding emitted_append[OF i] by simp
  have z: "\<And>t. is_device_attr t \<Longrightarrow> count_list (attrs_of P) t = 0"
    using P by (auto simp: count_list_0_iff)
  show ?thesis
    unfolding e count_list_append D
    by (simp add: z count_list_device_field_ids)
qed

theorem get_device_dump_device_fields_witness:
  "count_list
     (emitted (alloc_skb 200)
        (snd (snd (get_device_dump test_env (test_device [test_peer 1 5, test_peer 2 6] [])
                     dump_start_cb (alloc_skb 200)))))
     T_WGDEVICE_A_FWMARK = 1
   \<and> count_list
     (emitted (alloc_skb 200)
        (snd (snd (get_device_dump test_env (test_device [test_peer 1 5, test_peer 2 6] [])
                     (dump_start_cb\<lparr>cb_peer_cursor := Some 1\<rparr>) (alloc_skb 200)))))
     T_WGDEVICE_A_FWMARK = 0"
proof -
  define wg where "wg = test_device [test_peer 1 5, test_peer 2 6] []"
  define a where "a = get_device_dump test_env wg dump_start_cb (alloc_skb 200)"
  define b where "b = get_device_dump test_env wg (dump_start_cb\<lparr>cb_peer_cursor := Some 1\<rparr>) (alloc_skb 200)"
  have a1: "get_device_dump test_env wg dump_start_cb (alloc_skb 200) = (fst a, fst (snd a), snd (snd a))"
    by (simp add: a_def)
  have a2: "0 \<le> fst a" unfolding a_def wg_def by code_simp
  have b1: "get_device_dump test_env wg (dump_start_cb\<lparr>cb_peer_cursor := Some 1\<rparr>) (alloc_skb 200)
            = (fst b, fst (snd b), snd (snd b))"
    by (simp add: b_def)
  have b2: "0 \<le> fst b" unfolding b_def wg_def by code_simp
  have ca: "cb_peer_cursor dump_start_cb = None" by (simp add: dump_start_cb_def)
  have cb: "cb_peer_cursor (dump_start_cb\<lparr>cb_peer_cursor := Some 1\<rparr>) \<noteq> None" by simp
  show ?thesis
    using get_device_dump_device_fields[OF a1 a2] get_device_dump_device_fields[OF b1 b2] ca cb
    unfolding a_def b_def wg_def by simp
qed

text \<open>
  The claim C7 as stated fails. A device whose only peer has 128 prefixes is dumped into
  buffers of 3776 bytes: the first message holds the device fields and the peer with its
  first 127 prefixes, and asks for another call with no cursor peer recorded, since the
  peer is not complete; the second message writes the device fields again before it
  resumes the peer with the last prefix.
\<close>

theorem later_message_repeats_device_fields:
  "case dump_two_messages test_env (test_device (many_peers 1) (many_allowedips 1 128)) 3776 of
     (r1, m1, r2, m2) \<Rightarrow>
       r1 = 3752 \<and> r2 = 0
       \<and> take 4 (emitted (alloc_skb 3776) m1)
           = [T_WGDEVICE_A_LISTEN_PORT, T_WGDEVICE_A_FWMARK, T_WGDEVICE_A_IFINDEX,
              T_WGDEVICE_A_IFNAME]
       \<and> emitted (alloc_skb 3776) m2
           = [T_WGDEVICE_A_LISTEN_PORT, T_WGDEVICE_A_FWMARK, T_WGDEVICE_A_IFINDEX,
              T_WGDEVICE_A_IFNAME, T_WGPEER_A_PUBLIC_KEY,
              T_WGALLOWEDIP_A_CIDR_MASK, T_WGALLOWEDIP_A_FAMILY, T_WGALLOWEDIP_A_IPADDR]"
  by code_simp

text \<open>The same in miniature: two prefixes and buffers of 230 bytes.\<close>

lemma two_prefixes_in_small_buffers:
  "case dump_two_messages test_env
          (test_device [test_peer 1 5] [test_allowedip 1 0, test_allowedip 1 1]) 230 of
     (r1, m1, r2, m2) \<Rightarrow>
       r1 = 224 \<and> r2 = 0
       \<and> emitted (alloc_skb 230) m1
           = [T_WGDEVICE_A_LISTEN_PORT, T_WGDEVICE_A_FWMARK, T_WGDEVICE_A_IFINDEX,
              T_WGDEVICE_A_IFNAME, T_WGPEER_A_PUBLIC_KEY, T_WGPEER_A_PRESHARED_KEY,
              T_WGPEER_A_LAST_HANDSHAKE_TIME, T_WGPEER_A_PERSISTENT_KEEPALIVE_INTERVAL,
              T_WGPEER_A_TX_BYTES, T_WGPEER_A_RX_BYTES, T_WGPEER_A_PROTOCOL_VERSION,
              T_WGALLOWEDIP_A_CIDR_MASK, T_WGALLOWEDIP_A_FAMILY, T_WGALLOWEDIP_A_IPADDR]
       \<and> emitted (alloc_skb 230) m2
           = [T_WGDEVICE_A_LISTEN_PORT, T_WGDEVICE_A_FWMARK, T_WGDEVICE_A_IFINDEX,
              T_WGDEVICE_A_IFNAME, T_WGPEER_A_PUBLIC_KEY,
              T_WGALLOWEDIP_A_CIDR_MASK, T_WGALLOWEDIP_A_FAMILY, T_WGALLOWEDIP_A_IPADDR]"
  by code_simp

subsection \<open>A cursor peer that was removed\<close>

lemma nla_total_size_simps [simp]:
  "nla_total_size 0 = 4" "nla_total_size 2 = 8" "nla_total_size 4 = 8" "nla_total_size 32 = 36"
  by (simp_all add: nla_total_size_def)

lemma nla_total_size_name: "length nm < IFNAMSIZ \<Longrightarrow> nla_total_size (length nm + 1) \<le> 20"
  by (simp add: nla_total_size_def)

lemma nla_put_fits:
  "nla_total_size l \<le> k \<Longrightarrow> k \<le> skb_tailroom skb \<Longrightarrow>
   \<exists>skb'. nla_put skb ty l v = Some skb' \<and> skb_tailroom skb - k \<le> skb_tailroom skb'"
  by (simp add: nla_put_def skb_put_def)

lemma get_device_fields_fits:
  assumes room: "116 \<le> skb_tailroom skb" and nm: "length (dev_name wg) < IFNAMSIZ"
  shows "\<exists>skb'. get_device_fields e wg skb = Some skb' \<and> skb_tailroom skb - 116 \<le> skb_tailroom skb'"
proof -
  have "\<exists>s1. (if test_socket_net_capable e (transit_net wg) = 0
                    then nla_put skb T_WGDEVICE_A_LISTEN_PORT 2 (U16 (incoming_port wg))
                  else Some skb) = Some s1 \<and> skb_tailroom skb - 8 \<le> skb_tailroom s1"
  proof (cases "test_socket_net_capable e (transit_net wg) = 0")
    case True
    have "(8::nat) \<le> skb_tailroom skb" using room by simp
    from nla_put_fits[OF _ this, of 2 T_WGDEVICE_A_LISTEN_PORT "U16 (incoming_port wg)"]
    show ?thesis using True by simp
  next
    case False
    then show ?thesis by simp
  qed
  then obtain s1 where s1: "(if test_socket_net_capable e (transit_net wg) = 0
                    then nla_put skb T_WGDEVICE_A_LISTEN_PORT 2 (U16 (incoming_port wg))
                  else Some skb) = Some s1" and t1: "skb_tailroom skb - 8 \<le> skb_tailroom s1"
    by blast
  have "(8::nat) \<le> skb_tailroom s1" using room t1 by linarith
  from nla_put_fits[OF _ this, of 4 T_WGDEVICE_A_FWMARK "U32 (fwmark wg)"]
  obtain s2 where s2: "nla_put s1 T_WGDEVICE_A_FWMARK 4 (U32 (fwmark wg)) = Some s2"
    and t2': "skb_tailroom s1 - 8 \<le> skb_tailroom s2" by auto
  have t2: "skb_tailroom skb - 16 \<le> skb_tailroom s2" using t1 t2' by linarith
  have "(8::nat) \<le> skb_tailroom s2" using room t2 by linarith
  from nla_put_fits[OF _ this, of 4 T_WGDEVICE_A_IFINDEX "U32 (dev_ifindex wg)"]
  obtain s3 where s3: "nla_put s2 T_WGDEVICE_A_IFINDEX 4 (U32 (dev_ifindex wg)) = Some s3"
    and t3': "skb_tailroom s2 - 8 \<le> skb_tailroom s3" by auto
  have t3: "skb_tailroom skb - 24 \<le> skb_tailroom s3" using t2 t3' by linarith
  have "(20::nat) \<le> skb_tailroom s3" using room t3 by linarith
  from nla_put_fits[OF nla_total_size_name[OF nm] this, of T_WGDEVICE_A_IFNAME "Str (dev_name wg)"]
  obtain s4 where s4: "nla_put s3 T_WGDEVICE_A_IFNAME (length (dev_name wg) + 1) (Str (dev_name wg)) = Some s4"
    and t4': "skb_tailroom s3 - 20 \<le> skb_tailroom s4" by auto
  have t4: "skb_tailroom skb - 44 \<le> skb_tailroom s4" using t3 t4' by linarith
  have "(36::nat) \<le> skb_tailroom s4" using room t4 by linarith
  from nla_put_fits[OF _ this, of 32 T_WGDEVICE_A_PRIVATE_KEY "Blob (static_private wg)"]
  obtain s5 where s5: "nla_put s4 T_WGDEVICE_A_PRIVATE_KEY NOISE_PUBLIC_KEY_LEN (Blob (static_private wg)) = Some s5"
    and t5': "skb_tailroom s4 - 36 \<le> skb_tailroom s5" by auto
  have t5: "skb_tailroom skb - 80 \<le> skb_tailroom s5" using t4 t5' by linarith
  have "(36::nat) \<le> skb_tailroom s5" using room t5 by linarith
  from nla_put_fits[OF _ this, of 32 T_WGDEVICE_A_PUBLIC_KEY "Blob (static_public wg)"]
  obtain s6 where s6: "nla_put s5 T_WGDEVICE_A_PUBLIC_KEY NOISE_PUBLIC_KEY_LEN (Blob (static_public wg)) = Some s6"
    and t6': "skb_tailroom s5 - 36 \<le> skb_tailroom s6" by auto
  have t6: "skb_tailroom skb - 116 \<le> skb_tailroom s6" using t5 t6' by linarith
  show ?thesis
  proof (cases "has_identity wg")
    case True
    then have "get_device_fields e wg skb = Some s6"
      using s1 s2 s3 s4 s5 s6 by (simp add: get_device_fields_def)
    then show ?thesis using t6 by simp
  next
    case False
    then have "get_device_fields e wg skb = Some s4"
      using s1 s2 s3 s4 by (simp add: get_device_fields_def)
    moreover have "skb_tailroom skb - 116 \<le> skb_tailroom s4" using t4 by linarith
    ultimately show ?thesis by simp
  qed
qed

text \<open>
  C3. A dump step that finds the peer list empty, or its cursor peer unlinked from the
  list, and is given a fresh buffer of at least 140 bytes (room for the header and the
  device-level fields, the device name being shorter than \<^verbatim>\<open>IFNAMSIZ\<close>), returns 0,
  which ends the dump without an error: the cursor peer is cleared, the prefix cursor is
  left as it was, and the message holds nothing but its header and device-level
  attributes, so no peer is written.
\<close>

theorem get_device_dump_cursor_removed:
  assumes stop: "peer_list wg = [] \<or> (\<exists>pid. cb_peer_cursor cb = Some pid \<and> peer_unlinked wg pid)"
    and nm: "length (dev_name wg) < IFNAMSIZ"
    and room: "140 \<le> n"
  shows "\<exists>cb' skb'. get_device_dump e wg cb (alloc_skb n) = (0, cb', skb')
            \<and> cb_peer_cursor cb' = None \<and> cb_rt_cursor cb' = cb_rt_cursor cb
            \<and> list_all device_item (skb_items skb')"
proof -
  obtain skb0 where g: "genlmsg_put (alloc_skb n) = Some skb0" and t0: "skb_tailroom skb0 = n - 20"
    using room by (simp add: genlmsg_put_def skb_put_def alloc_skb_def)
  obtain cb2 skb1 where
    cc: "genl_dump_check_consistent (cb\<lparr>cb_seq := device_update_gen wg\<rparr>) skb0 (length (skb_items (alloc_skb n)))
           = (cb2, skb1)" by (metis surj_pair)
  have t1: "skb_tailroom skb1 = n - 20" and c2: "cb_rt_cursor cb2 = cb_rt_cursor cb"
    using cc t0 by (auto simp: genl_dump_check_consistent_def split: if_splits)
  from check_consistent_items[OF g cc] obtain b where i1: "skb_items skb1 = [MsgHdr b]"
    by (auto simp: alloc_skb_def)
  have "\<exists>skb2. (if cb_peer_cursor cb = None then get_device_fields e wg skb1 else Some skb1) = Some skb2
            \<and> n - 136 \<le> skb_tailroom skb2"
  proof (cases "cb_peer_cursor cb = None")
    case True
    have "116 \<le> skb_tailroom skb1" using t1 room by linarith
    from get_device_fields_fits[OF this nm, of e] show ?thesis using True t1 by auto
  next
    case False
    then show ?thesis using t1 by auto
  qed
  then obtain skb2 where f: "(if cb_peer_cursor cb = None then get_device_fields e wg skb1 else Some skb1) = Some skb2"
    and t2: "n - 136 \<le> skb_tailroom skb2" by blast
  have "\<not> skb_tailroom skb2 < 4" using t2 room by linarith
  then obtain skb3 where n3: "nla_nest_start skb2 T_WGDEVICE_A_PEERS = Some skb3"
    by (simp add: nla_nest_start_def skb_put_def)
  have dp: "dump_device_part e wg (cb_peer_cursor cb) skb1 = Some (skb2, skb3)"
    using f n3 by (simp add: dump_device_part_def)
  from dump_device_part_items[OF dp] obtain D where
    D: "skb_items skb2 = skb_items skb1 @ D" "list_all device_item D" by blast
  have np: "dump_no_peers wg (cb_peer_cursor cb)"
    using stop by (auto simp: dump_no_peers_def)
  have "get_device_dump e wg cb (alloc_skb n) = (0, cb2\<lparr>cb_peer_cursor := None\<rparr>, skb2)"
    using g cc dp np by (simp add: get_device_dump_def Let_def dump_finish_def)
  moreover have "list_all device_item (skb_items skb2)"
    using D i1 by simp
  ultimately show ?thesis using c2 by simp
qed

theorem get_device_dump_cursor_removed_witness:
  "fst (get_device_dump test_env (test_device [test_peer 1 5] [])
          (dump_start_cb\<lparr>cb_peer_cursor := Some 2\<rparr>) (alloc_skb 200)) = 0
   \<and> cb_peer_cursor (fst (snd (get_device_dump test_env (test_device [test_peer 1 5] [])
          (dump_start_cb\<lparr>cb_peer_cursor := Some 2\<rparr>) (alloc_skb 200)))) = None
   \<and> fst (get_device_dump test_env (test_device [] []) dump_start_cb (alloc_skb 200)) = 0"
proof -
  have h1: "peer_list (test_device [test_peer 1 5] []) = []
            \<or> (\<exists>pid. cb_peer_cursor (dump_start_cb\<lparr>cb_peer_cursor := Some 2\<rparr>) = Some pid
                  \<and> peer_unlinked (test_device [test_peer 1 5] []) pid)"
    by (simp add: peer_unlinked_def test_device_def test_peer_def)
  have h1': "peer_list (test_device [] []) = []
            \<or> (\<exists>pid. cb_peer_cursor dump_start_cb = Some pid \<and> peer_unlinked (test_device [] []) pid)"
    by (simp add: test_device_def)
  have h2: "length (dev_name (test_device ps [])) < IFNAMSIZ" for ps
    by (simp add: test_device_def)
  have h3: "(140::nat) \<le> 200" by simp
  show ?thesis
    using get_device_dump_cursor_removed[OF h1 h2 h3, of test_env]
      get_device_dump_cursor_removed[OF h1' h2 h3, of test_env]
    by auto
qed

end
